theory Spec2Isabelle
  imports Main "HOL-Library.Sublist"
begin

section \<open>Values, exceptions and effects\<close>

text \<open>
  The server is TypeScript on Express and Supabase. A JavaScript string is a sequence of
  UTF-16 code units; every message of the server is within Latin-1, so one code unit is
  one \<^typ>\<open>char\<close> of the same code (\<open>CHR 0xE3\<close> is a-tilde, \<open>CHR 0xE7\<close> is c-cedilla).
  A value that crosses the JSON or SQL boundary is a \<open>jsval\<close>.
\<close>

datatype jsval =
    JUndefined
  | JNull
  | JBool bool
  | JNum int
  | JStr string
  | JArr "jsval list"
  | JObj "(string \<times> jsval) list"

text \<open>
  What the code throws: \<open>new Error(msg)\<close>, the runtime's \<open>TypeError\<close> on a property read
  of \<open>undefined\<close> or \<open>null\<close>, the error object Supabase hands back, and the three
  exception classes of the jsonwebtoken library.
\<close>

datatype exn =
    Error string
  | TypeError
  | PostgrestError string
  | TokenExpiredError
  | JsonWebTokenError
  | NotBeforeError

text \<open>
  An \<open>async\<close> method is a function from the state of the outside world (the database
  behind Supabase) to a result and the new state; \<open>Inl\<close> is a thrown exception.
\<close>

type_synonym ('a, 'w) io = "'w \<Rightarrow> (exn + 'a) \<times> 'w"

definition return :: "'a \<Rightarrow> ('a, 'w) io" where
  "return a w = (Inr a, w)"

definition throw :: "exn \<Rightarrow> ('a, 'w) io" where
  "throw e w = (Inl e, w)"

definition await :: "('a, 'w) io \<Rightarrow> ('a \<Rightarrow> ('b, 'w) io) \<Rightarrow> ('b, 'w) io" where
  "await m f w = (case m w of (Inl e, w') \<Rightarrow> (Inl e, w') | (Inr a, w') \<Rightarrow> f a w')"

definition try_catch :: "('a, 'w) io \<Rightarrow> (exn \<Rightarrow> ('a, 'w) io) \<Rightarrow> ('a, 'w) io" where
  "try_catch m h w = (case m w of (Inl e, w') \<Rightarrow> h e w' | (Inr a, w') \<Rightarrow> (Inr a, w'))"

text \<open>
  \<open>supabase.rpc(fn, {query, params})\<close>: the name of the remote function, the SQL text and
  its parameters. The call answers \<open>{data, error}\<close>; \<open>Inl\<close> is a non-null \<open>error\<close>.
\<close>

type_synonym 'w rpc = "string \<Rightarrow> string \<Rightarrow> jsval list \<Rightarrow> (jsval, 'w) io"

text \<open>A database double that answers \<open>null\<close> and records every call it receives.\<close>

definition recording_rpc :: "((string \<times> string \<times> jsval list) list) rpc" where
  "recording_rpc fn q ps w = (Inr JNull, w @ [(fn, q, ps)])"

section \<open>The schema placeholder (server/config/database.ts, BaseService.ts)\<close>

definition placeholder :: string where
  "placeholder = ''${schema}''"

text \<open>
  \<open>String.prototype.replace\<close> expands the replacement text at every match: a dollar
  sign followed by a dollar sign is one dollar sign, followed by an ampersand the matched
  text, followed by a backquote (code 0x60) the text before the match, followed by a
  quote (code 0x27) the text after it. The pattern \<open>/\$\{schema\}/g\<close> has no capture
  group, so a dollar sign followed by a digit stays as it is.
\<close>

fun GetSubstitution :: "string \<Rightarrow> string \<Rightarrow> string \<Rightarrow> string \<Rightarrow> string" where
  "GetSubstitution matched pre post [] = []"
| "GetSubstitution matched pre post [c] = [c]"
| "GetSubstitution matched pre post (c # d # r) =
     (if c = CHR ''$'' \<and> d = CHR ''$'' then CHR ''$'' # GetSubstitution matched pre post r
      else if c = CHR ''$'' \<and> d = CHR ''&'' then matched @ GetSubstitution matched pre post r
      else if c = CHR ''$'' \<and> d = CHR 0x60 then pre @ GetSubstitution matched pre post r
      else if c = CHR ''$'' \<and> d = CHR 0x27 then post @ GetSubstitution matched pre post r
      else c # GetSubstitution matched pre post (d # r))"

text \<open>
  \<open>sql.replace(/\$\{schema\}/g, rep)\<close>: the matches are taken from left to right and do
  not overlap; \<open>pre\<close> is the part of the text already passed.
\<close>

function replace_from :: "string \<Rightarrow> string \<Rightarrow> string \<Rightarrow> string" where
  "replace_from rep pre [] = []"
| "replace_from rep pre (c # cs) =
     (if take (length placeholder) (c # cs) = placeholder
      then GetSubstitution placeholder pre (drop (length placeholder) (c # cs)) rep
             @ replace_from rep (pre @ placeholder) (drop (length placeholder) (c # cs))
      else c # replace_from rep (pre @ [c]) cs)"
  by pat_completeness auto
termination
  by (relation "measure (\<lambda>(rep, pre, s). length s)") (auto simp: placeholder_def)

definition replace_schema :: "string \<Rightarrow> string \<Rightarrow> string" where
  "replace_schema sql rep = replace_from rep [] sql"

text \<open>
  The template literal \<open>tenant_${tenantId.replace(/-/g, '')}\<close>, the expression of \<open>getTenantConnection\<close>,
  of the constructor of \<open>BaseService\<close> and of \<open>authenticateToken\<close>. The replacement text is
  empty, so the global replace deletes every hyphen.
\<close>

definition tenant_schema_name :: "string \<Rightarrow> string" where
  "tenant_schema_name tenantId = ''tenant_'' @ filter (\<lambda>c. c \<noteq> CHR ''-'') tenantId"

record 'w TenantConnection =
  conn_schema :: string
  conn_tenantId :: string
  conn_query :: "string \<Rightarrow> jsval list \<Rightarrow> (jsval, 'w) io"

definition getTenantConnection :: "'w rpc \<Rightarrow> string \<Rightarrow> 'w TenantConnection" where
  "getTenantConnection supabase_rpc tenantId =
     (let schema = tenant_schema_name tenantId in
      \<lparr> conn_schema = schema,
        conn_tenantId = tenantId,
        conn_query = (\<lambda>sql params.
          let tenantSql = replace_schema sql schema in
          await (supabase_rpc ''exec_sql'' tenantSql params) (\<lambda>data. return data)) \<rparr>)"

record AuthenticatedUser =
  user_id :: string
  user_tenantId :: string
  user_email :: string
  user_name :: string
  user_accountType :: string

record BaseService =
  this_user :: AuthenticatedUser
  this_tenantId :: string
  this_tenantSchema :: string

definition new_BaseService :: "AuthenticatedUser \<Rightarrow> BaseService" where
  "new_BaseService user =
     \<lparr> this_user = user,
       this_tenantId = user_tenantId user,
       this_tenantSchema = tenant_schema_name (user_tenantId user) \<rparr>"

definition query :: "'w rpc \<Rightarrow> BaseService \<Rightarrow> string \<Rightarrow> jsval list \<Rightarrow> (jsval, 'w) io" where
  "query supabaseAdmin_rpc this sql params =
     try_catch
       (let tenantSql = replace_schema sql (this_tenantSchema this) in
        await (supabaseAdmin_rpc ''exec_sql'' tenantSql params) (\<lambda>data. return data))
       (\<lambda>error. throw (Error ''Erro na consulta ao banco de dados''))"

text \<open>The text between the occurrences of the placeholder, and the text put back together.\<close>

function pieces :: "string \<Rightarrow> string list" where
  "pieces [] = [[]]"
| "pieces (c # cs) =
     (if take (length placeholder) (c # cs) = placeholder
      then [] # pieces (drop (length placeholder) (c # cs))
      else (case pieces cs of [] \<Rightarrow> [[c]] | p # ps \<Rightarrow> (c # p) # ps))"
  by pat_completeness auto
termination
  by (relation "measure length") (auto simp: placeholder_def)

fun join :: "string \<Rightarrow> string list \<Rightarrow> string" where
  "join sep [] = []"
| "join sep [p] = p"
| "join sep (p # q # ps) = p @ sep @ join sep (q # ps)"

section \<open>JavaScript values at run time\<close>

abbreviation nl :: string where
  "nl \<equiv> [CHR 0x0A]"

abbreviation sq :: string where
  "sq \<equiv> [CHR 0x27]"

fun truthy :: "jsval \<Rightarrow> bool" where
  "truthy JUndefined = False"
| "truthy JNull = False"
| "truthy (JBool b) = b"
| "truthy (JNum n) = (n \<noteq> 0)"
| "truthy (JStr s) = (s \<noteq> [])"
| "truthy (JArr xs) = True"
| "truthy (JObj kv) = True"

text \<open>\<open>a || b\<close>\<close>

definition js_or :: "jsval \<Rightarrow> jsval \<Rightarrow> jsval" where
  "js_or a b = (if truthy a then a else b)"

text \<open>
  An own property of an object, \<open>undefined\<close> when there is none. The properties an object
  inherits from \<open>Object.prototype\<close> are not modelled.
\<close>

definition own_prop :: "(string \<times> jsval) list \<Rightarrow> string \<Rightarrow> jsval" where
  "own_prop kv k = (case map_of kv k of None \<Rightarrow> JUndefined | Some v \<Rightarrow> v)"

text \<open>\<open>v.k\<close>: a \<open>TypeError\<close> on \<open>undefined\<close> and \<open>null\<close>.\<close>

fun get_prop :: "jsval \<Rightarrow> string \<Rightarrow> exn + jsval" where
  "get_prop JUndefined k = Inl TypeError"
| "get_prop JNull k = Inl TypeError"
| "get_prop (JObj kv) k = Inr (own_prop kv k)"
| "get_prop (JArr xs) k = Inr (if k = ''length'' then JNum (int (length xs)) else JUndefined)"
| "get_prop (JStr s) k = Inr (if k = ''length'' then JNum (int (length s)) else JUndefined)"
| "get_prop (JBool b) k = Inr JUndefined"
| "get_prop (JNum n) k = Inr JUndefined"

text \<open>\<open>v?.k\<close>\<close>

fun opt_prop :: "jsval \<Rightarrow> string \<Rightarrow> jsval" where
  "opt_prop JUndefined k = JUndefined"
| "opt_prop JNull k = JUndefined"
| "opt_prop v k = (case get_prop v k of Inl e \<Rightarrow> JUndefined | Inr x \<Rightarrow> x)"

text \<open>\<open>v[0]\<close>\<close>

fun at0 :: "jsval \<Rightarrow> exn + jsval" where
  "at0 JUndefined = Inl TypeError"
| "at0 JNull = Inl TypeError"
| "at0 (JArr []) = Inr JUndefined"
| "at0 (JArr (x # xs)) = Inr x"
| "at0 (JStr []) = Inr JUndefined"
| "at0 (JStr (c # s)) = Inr (JStr [c])"
| "at0 (JObj kv) = Inr (own_prop kv ''0'')"
| "at0 (JBool b) = Inr JUndefined"
| "at0 (JNum n) = Inr JUndefined"

text \<open>\<open>!results || results.length === 0\<close>\<close>

definition no_rows :: "jsval \<Rightarrow> bool" where
  "no_rows results = (\<not> truthy results \<or> get_prop results ''length'' = Inr (JNum 0))"

text \<open>A synchronous step that may throw, inside an \<open>async\<close> method.\<close>

definition lift :: "exn + 'a \<Rightarrow> ('a, 'w) io" where
  "lift r = (case r of Inl e \<Rightarrow> throw e | Inr a \<Rightarrow> return a)"

text \<open>The decimal digits of \<open>params.length + 1\<close> in a template literal.\<close>

function decimal :: "nat \<Rightarrow> string" where
  "decimal n =
     (if n < 10 then [''0123456789'' ! n] else decimal (n div 10) @ [''0123456789'' ! (n mod 10)])"
  by pat_completeness auto
termination
  by (relation "measure id") auto

declare decimal.simps [simp del]

text \<open>
  The functions of the JavaScript runtime the services call on values from the database
  and from the request; they are parameters of the model. \<open>ToString\<close> is the conversion
  of a template literal, \<open>minus\<close> is \<open>a - b\<close>, \<open>toLocaleDateString\<close> is
  \<open>new Date(v).toLocaleDateString('pt-BR')\<close>, \<open>toFixed2\<close> is \<open>v.toFixed(2)\<close>, \<open>greater0\<close> is
  \<open>v > 0\<close>, \<open>percent\<close> is \<open>Math.round((a / b) * 100)\<close>, \<open>today\<close> is
  \<open>new Date().toISOString().split('T')[0]\<close>, \<open>plus\<close>, \<open>times\<close> and \<open>divide\<close> are \<open>a + b\<close>,
  \<open>a * b\<close> and \<open>a / b\<close>, and \<open>Date_now\<close> is \<open>Date.now()\<close>.
\<close>

record runtime =
  ToString :: "jsval \<Rightarrow> string"
  JSON_stringify :: "jsval \<Rightarrow> exn + jsval"
  minus :: "jsval \<Rightarrow> jsval \<Rightarrow> jsval"
  toLocaleDateString :: "jsval \<Rightarrow> string"
  toFixed2 :: "jsval \<Rightarrow> exn + string"
  greater0 :: "jsval \<Rightarrow> bool"
  percent :: "jsval \<Rightarrow> jsval \<Rightarrow> jsval"
  today :: string
  plus :: "jsval \<Rightarrow> jsval \<Rightarrow> jsval"
  times :: "jsval \<Rightarrow> jsval \<Rightarrow> jsval"
  divide :: "jsval \<Rightarrow> jsval \<Rightarrow> jsval"
  Date_now :: jsval

section \<open>BaseService: audit log, notifications, permissions (BaseService.ts)\<close>

definition sql_audit_log :: string where
  "sql_audit_log =
     '''' @ nl @
     ''        INSERT INTO ${schema}.audit_log ('' @ nl @
     ''          user_id, table_name, record_id, operation, old_data, new_data, created_at'' @ nl @
     ''        ) VALUES ($1, $2, $3, $4, $5, $6, NOW())'' @ nl @
     ''      ''"

definition sql_notifications :: string where
  "sql_notifications =
     '''' @ nl @
     ''        INSERT INTO ${schema}.notifications ('' @ nl @
     ''          type, title, message, category, entity_type, entity_id, '' @ nl @
     ''          action_data, user_id, created_by, created_at'' @ nl @
     ''        ) VALUES ($1, $2, $3, $4, $5, $6, $7, $8, $9, NOW())'' @ nl @
     ''      ''"

text \<open>\<open>v ? JSON.stringify(v) : null\<close>\<close>

definition stringify_or_null :: "runtime \<Rightarrow> jsval \<Rightarrow> exn + jsval" where
  "stringify_or_null rt v = (if truthy v then JSON_stringify rt v else Inr JNull)"

text \<open>
  The arguments of the query are evaluated inside the \<open>try\<close>, so an exception of
  \<open>JSON.stringify\<close> is caught with those of the query. \<open>console.error\<close> is not modelled.
\<close>

definition auditLog ::
  "runtime \<Rightarrow> 'w rpc \<Rightarrow> BaseService \<Rightarrow> string \<Rightarrow> string \<Rightarrow> jsval \<Rightarrow> jsval \<Rightarrow> jsval \<Rightarrow> (unit, 'w) io"
where
  "auditLog rt rpc this tableName operation recordId oldData newData =
     try_catch
       (await (lift (stringify_or_null rt oldData)) (\<lambda>old_json.
        await (lift (stringify_or_null rt newData)) (\<lambda>new_json.
        await (query rpc this sql_audit_log
                 [JStr (user_id (this_user this)), JStr tableName, recordId, JStr operation,
                  old_json, new_json]) (\<lambda>_.
        return ()))))
       (\<lambda>error. return ())"

definition createNotification ::
  "runtime \<Rightarrow> 'w rpc \<Rightarrow> BaseService \<Rightarrow> string \<Rightarrow> string \<Rightarrow> string \<Rightarrow> string \<Rightarrow> jsval \<Rightarrow> jsval \<Rightarrow>
     jsval \<Rightarrow> jsval \<Rightarrow> (unit, 'w) io"
where
  "createNotification rt rpc this type title message category entityType entityId actionData userId =
     try_catch
       (await (lift (stringify_or_null rt actionData)) (\<lambda>action_json.
        await (query rpc this sql_notifications
                 [JStr type, JStr title, JStr message, JStr category, entityType, entityId,
                  action_json, userId, JStr (user_name (this_user this))]) (\<lambda>_.
        return ())))
       (\<lambda>error. return ())"

definition requirePermission :: "BaseService \<Rightarrow> string \<Rightarrow> string \<Rightarrow> exn + bool" where
  "requirePermission this permission module =
     (let accountType = user_accountType (this_user this) in
      if accountType = ''simples'' \<and> module \<in> set [''cash_flow'', ''financial_dashboard'']
      then Inl (Error (''Conta Simples n'' @ [CHR 0xE3] @ ''o tem acesso a dados financeiros''))
      else if module = ''settings'' \<and> accountType \<noteq> ''gerencial''
      then Inl (Error (''Apenas Conta Gerencial pode acessar configura'' @ [CHR 0xE7] @ [CHR 0xF5] @ ''es''))
      else Inr True)"

section \<open>CashFlowService (server/services/CashFlowService.ts)\<close>

text \<open>The conversion of a template literal: a string is itself, the runtime converts the rest.\<close>

definition to_string :: "runtime \<Rightarrow> jsval \<Rightarrow> string" where
  "to_string rt v = (case v of JStr s \<Rightarrow> s | _ \<Rightarrow> ToString rt v)"

text \<open>
  \<open>Promise.all\<close>: every promise of the list is started, in the order of the list; the
  result is the list of the values (as long as the list of the promises), or the exception
  of the first one that failed. The calls are taken one after the other; their
  interleaving is not modelled.
\<close>

fun promise_all :: "('a, 'w) io list \<Rightarrow> ('a list, 'w) io" where
  "promise_all [] w = (Inr [], w)"
| "promise_all (m # ms) w =
     (case m w of (r, w1) \<Rightarrow>
        (case promise_all ms w1 of (rs, w2) \<Rightarrow>
           ((case r of Inl e \<Rightarrow> Inl e
             | Inr a \<Rightarrow> (case rs of Inl e \<Rightarrow> Inl e | Inr as \<Rightarrow> Inr (a # as))), w2)))"

text \<open>
  \<open>const { ... } = v\<close>: a \<open>TypeError\<close> on \<open>undefined\<close> and \<open>null\<close>, otherwise the properties
  of \<open>v\<close> by name.
\<close>

definition destructure :: "jsval \<Rightarrow> exn + (string \<Rightarrow> jsval)" where
  "destructure v = (if v = JUndefined \<or> v = JNull then Inl TypeError else Inr (opt_prop v))"

text \<open>
  \<open>if (cond) { sql += clause + (params.length + 1); params.push(v) }\<close>, the step of the
  filters; \<open>clause\<close> ends with the dollar sign of the parameter.
\<close>

definition add_filter :: "jsval \<Rightarrow> string \<Rightarrow> jsval \<Rightarrow> string \<times> jsval list \<Rightarrow> string \<times> jsval list" where
  "add_filter cond clause v sp =
     (case sp of (sql, params) \<Rightarrow>
        if truthy cond then (sql @ clause @ decimal (length params + 1), params @ [v])
        else (sql, params))"

definition sql_cash_flow_all :: string where
  "sql_cash_flow_all =
     '''' @ nl @
     ''      SELECT * FROM ${schema}.cash_flow '' @ nl @
     ''      WHERE 1=1'' @ nl @
     ''    ''"

definition sql_cash_flow_by_id :: string where
  "sql_cash_flow_by_id =
     '''' @ nl @
     ''      SELECT * FROM ${schema}.cash_flow WHERE id = $1'' @ nl @
     ''    ''"

definition sql_cash_flow_project :: string where
  "sql_cash_flow_project =
     '''' @ nl @
     ''        SELECT p.title, c.name as client_name '' @ nl @
     ''        FROM ${schema}.projects p'' @ nl @
     ''        LEFT JOIN ${schema}.clients c ON p.client_id = c.id'' @ nl @
     ''        WHERE p.id = $1'' @ nl @
     ''      ''"

definition sql_cash_flow_insert :: string where
  "sql_cash_flow_insert =
     '''' @ nl @
     ''      INSERT INTO ${schema}.cash_flow ('' @ nl @
     ''        type, amount, category_id, category_name, description, date,'' @ nl @
     ''        payment_method, status, tags, project_id, project_title,'' @ nl @
     ''        client_id, client_name, is_recurring, recurring_frequency,'' @ nl @
     ''        notes, created_by, created_at, updated_at'' @ nl @
     ''      ) VALUES ('' @ nl @
     ''        $1, $2, $3, $4, $5, $6, $7, $8, $9, $10, $11, $12, $13, $14, $15, $16, $17,'' @ nl @
     ''        NOW(), NOW()'' @ nl @
     ''      ) RETURNING *'' @ nl @
     ''    ''"

definition sql_cash_flow_update :: string where
  "sql_cash_flow_update =
     '''' @ nl @
     ''      UPDATE ${schema}.cash_flow SET'' @ nl @
     ''        type = COALESCE($1, type),'' @ nl @
     ''        amount = COALESCE($2, amount),'' @ nl @
     ''        category_id = COALESCE($3, category_id),'' @ nl @
     ''        category_name = COALESCE($4, category_name),'' @ nl @
     ''        description = COALESCE($5, description),'' @ nl @
     ''        date = COALESCE($6, date),'' @ nl @
     ''        payment_method = COALESCE($7, payment_method),'' @ nl @
     ''        status = COALESCE($8, status),'' @ nl @
     ''        tags = COALESCE($9, tags),'' @ nl @
     ''        project_id = COALESCE($10, project_id),'' @ nl @
     ''        client_id = COALESCE($11, client_id),'' @ nl @
     ''        is_recurring = COALESCE($12, is_recurring),'' @ nl @
     ''        recurring_frequency = COALESCE($13, recurring_frequency),'' @ nl @
     ''        notes = COALESCE($14, notes),'' @ nl @
     ''        updated_at = NOW()'' @ nl @
     ''      WHERE id = $15'' @ nl @
     ''      RETURNING *'' @ nl @
     ''    ''"

definition sql_cash_flow_delete :: string where
  "sql_cash_flow_delete = ''DELETE FROM ${schema}.cash_flow WHERE id = $1''"

definition sql_cash_flow_totals :: string where
  "sql_cash_flow_totals =
     '''' @ nl @
     ''        SELECT '' @ nl @
     ''          SUM(CASE WHEN type = '' @ sq @ ''income'' @ sq @ '' THEN amount ELSE 0 END) as total_income,'' @ nl @
     ''          SUM(CASE WHEN type = '' @ sq @ ''expense'' @ sq @ '' THEN amount ELSE 0 END) as total_expenses'' @ nl @
     ''        FROM ${schema}.cash_flow'' @ nl @
     ''      ''"

definition sql_cash_flow_monthly :: string where
  "sql_cash_flow_monthly =
     '''' @ nl @
     ''        SELECT '' @ nl @
     ''          SUM(CASE WHEN type = '' @ sq @ ''income'' @ sq @ '' THEN amount ELSE 0 END) as monthly_income,'' @ nl @
     ''          SUM(CASE WHEN type = '' @ sq @ ''expense'' @ sq @ '' THEN amount ELSE 0 END) as monthly_expenses'' @ nl @
     ''        FROM ${schema}.cash_flow'' @ nl @
     ''        WHERE date >= DATE_TRUNC('' @ sq @ ''month'' @ sq @ '', NOW())'' @ nl @
     ''        AND date < DATE_TRUNC('' @ sq @ ''month'' @ sq @ '', NOW()) + INTERVAL '' @ sq @ ''1 month'' @ sq @ nl @
     ''      ''"

definition sql_cash_flow_growth :: string where
  "sql_cash_flow_growth =
     '''' @ nl @
     ''        WITH monthly_data AS ('' @ nl @
     ''          SELECT'' @ nl @
     ''            DATE_TRUNC('' @ sq @ ''month'' @ sq @ '', date) as month,'' @ nl @
     ''            SUM(CASE WHEN type = '' @ sq @ ''income'' @ sq @ '' THEN amount ELSE -amount END) as balance'' @ nl @
     ''          FROM ${schema}.cash_flow'' @ nl @
     ''          WHERE date >= DATE_TRUNC('' @ sq @ ''month'' @ sq @ '', NOW() - INTERVAL '' @ sq @ ''1 month'' @ sq @ '')'' @ nl @
     ''          GROUP BY DATE_TRUNC('' @ sq @ ''month'' @ sq @ '', date)'' @ nl @
     ''        )'' @ nl @
     ''        SELECT'' @ nl @
     ''          COALESCE('' @ nl @
     ''            ROUND('' @ nl @
     ''              ((current_month.balance - previous_month.balance) * 100.0 / '' @ nl @
     ''               NULLIF(ABS(previous_month.balance), 0)), 2'' @ nl @
     ''            ), 0'' @ nl @
     ''          ) as growth_percentage'' @ nl @
     ''        FROM monthly_data current_month'' @ nl @
     ''        CROSS JOIN monthly_data previous_month'' @ nl @
     ''        WHERE current_month.month = DATE_TRUNC('' @ sq @ ''month'' @ sq @ '', NOW())'' @ nl @
     ''        AND previous_month.month = DATE_TRUNC('' @ sq @ ''month'' @ sq @ '', NOW() - INTERVAL '' @ sq @ ''1 month'' @ sq @ '')'' @ nl @
     ''      ''"

definition categories :: "(string \<times> string) list" where
  "categories =
     [(''honorarios'', ''Honor'' @ [CHR 0xE1] @ ''rios advocat'' @ [CHR 0xED] @ ''cios''),
      (''consultorias'', ''Consultorias jur'' @ [CHR 0xED] @ ''dicas''),
      (''acordos'', ''Acordos e media'' @ [CHR 0xE7] @ [CHR 0xF5] @ ''es''),
      (''custas_reemb'', ''Custas judiciais reembolsadas''),
      (''outros_servicos'', ''Outros servi'' @ [CHR 0xE7] @ ''os jur'' @ [CHR 0xED] @ ''dicos''),
      (''salarios'', ''Sal'' @ [CHR 0xE1] @ ''rios e encargos trabalhistas''),
      (''aluguel'', ''Aluguel / condom'' @ [CHR 0xED] @ ''nio''),
      (''contas'', ''Contas ('' @ [CHR 0xE1] @ ''gua, luz, internet)''),
      (''material'', ''Material de escrit'' @ [CHR 0xF3] @ ''rio''),
      (''marketing'', ''Marketing e publicidade''),
      (''custas_judiciais'', ''Custas judiciais''),
      (''treinamentos'', ''Treinamentos e cursos''),
      (''transporte'', ''Transporte e viagens''),
      (''manutencao'', ''Manuten'' @ [CHR 0xE7] @ [CHR 0xE3] @ ''o e equipamentos''),
      (''impostos'', ''Impostos e taxas''),
      (''oab'', ''Associa'' @ [CHR 0xE7] @ [CHR 0xF5] @ ''es profissionais (OAB)''),
      (''seguro'', ''Seguro profissional'')]"

text \<open>
  \<open>categories[categoryId] || categoryId\<close>; no name of the table is the empty string. Only
  the keys of the table itself are looked up: for an id that names a member that the
  table inherits from \<open>Object.prototype\<close> (\<open>constructor\<close>, \<open>toString\<close>, ...) the code returns
  that member, which is not a value of the model.
\<close>

definition getCategoryName :: "runtime \<Rightarrow> jsval \<Rightarrow> jsval" where
  "getCategoryName rt categoryId =
     (case map_of categories (to_string rt categoryId) of
        None \<Rightarrow> categoryId
      | Some name \<Rightarrow> js_or (JStr name) categoryId)"

definition CashFlowService_getAll :: "runtime \<Rightarrow> 'w rpc \<Rightarrow> BaseService \<Rightarrow> jsval \<Rightarrow> (jsval, 'w) io" where
  "CashFlowService_getAll rt rpc this filters =
     await (lift (requirePermission this ''read'' ''cash_flow'')) (\<lambda>_.
     let sp0 = (sql_cash_flow_all, []);
         sp1 = add_filter (opt_prop filters ''search'') '' AND description ILIKE $''
                 (JStr (''%'' @ to_string rt (opt_prop filters ''search'') @ ''%'')) sp0;
         sp2 = add_filter (opt_prop filters ''type'') '' AND type = $'' (opt_prop filters ''type'') sp1;
         sp3 = add_filter (opt_prop filters ''category'') '' AND category_id = $''
                 (opt_prop filters ''category'') sp2;
         sp4 = add_filter (opt_prop filters ''status'') '' AND status = $'' (opt_prop filters ''status'') sp3;
         sp5 = add_filter (opt_prop filters ''date_start'') '' AND date >= $''
                 (opt_prop filters ''date_start'') sp4;
         sp6 = add_filter (opt_prop filters ''date_end'') '' AND date <= $''
                 (opt_prop filters ''date_end'') sp5;
         sql = fst sp6 @ '' ORDER BY date DESC, created_at DESC''
     in query rpc this sql (snd sp6))"

definition CashFlowService_getById :: "'w rpc \<Rightarrow> BaseService \<Rightarrow> string \<Rightarrow> (jsval, 'w) io" where
  "CashFlowService_getById rpc this id' =
     await (lift (requirePermission this ''read'' ''cash_flow'')) (\<lambda>_.
     await (query rpc this sql_cash_flow_by_id [JStr id']) (\<lambda>results.
     if no_rows results
     then throw (Error (''Transa'' @ [CHR 0xE7] @ [CHR 0xE3] @ ''o n'' @ [CHR 0xE3] @ ''o encontrada''))
     else lift (at0 results)))"

text \<open>\<open>v === 'none' ? null : v\<close>\<close>

definition none_to_null :: "jsval \<Rightarrow> jsval" where
  "none_to_null v = (if v = JStr ''none'' then JNull else v)"

definition CashFlowService_create :: "runtime \<Rightarrow> 'w rpc \<Rightarrow> BaseService \<Rightarrow> jsval \<Rightarrow> (jsval, 'w) io" where
  "CashFlowService_create rt rpc this transactionData =
     await (lift (requirePermission this ''write'' ''cash_flow'')) (\<lambda>_.
     await (lift (destructure transactionData)) (\<lambda>d.
     let type = d ''type''; amount = d ''amount''; category_id = d ''category_id'';
         description = d ''description''; date = d ''date''; payment_method = d ''payment_method'';
         status = d ''status''; tags = d ''tags''; project_id = d ''project_id'';
         client_id = d ''client_id''; is_recurring = d ''is_recurring'';
         recurring_frequency = d ''recurring_frequency''; notes = d ''notes'';
         categoryName = getCategoryName rt (js_or category_id (JStr ''''))
     in
     await (if truthy project_id \<and> project_id \<noteq> JStr ''none''
            then await (query rpc this sql_cash_flow_project [project_id]) (\<lambda>projectResults.
                 await (lift (get_prop projectResults ''length'')) (\<lambda>len.
                 if greater0 rt len
                 then await (lift (at0 projectResults)) (\<lambda>row.
                      await (lift (get_prop row ''title'')) (\<lambda>title.
                      await (lift (get_prop row ''client_name'')) (\<lambda>client_name.
                      return (title, client_name))))
                 else return (JNull, JNull)))
            else return (JNull, JNull)) (\<lambda>(projectTitle, clientName).
     await (lift (JSON_stringify rt (js_or tags (JArr [])))) (\<lambda>tags_json.
     await (query rpc this sql_cash_flow_insert
              [type, amount, category_id, categoryName, description, date,
               payment_method, js_or status (JStr ''confirmed''), tags_json,
               none_to_null project_id, projectTitle,
               none_to_null client_id, clientName,
               js_or is_recurring (JBool False), recurring_frequency, notes,
               JStr (user_name (this_user this))]) (\<lambda>results.
     await (lift (at0 results)) (\<lambda>transaction.
     await (lift (get_prop transaction ''id'')) (\<lambda>transaction_id.
     await (auditLog rt rpc this ''cash_flow'' ''CREATE'' transaction_id JNull transaction) (\<lambda>_.
     await (createNotification rt rpc this ''info''
              (''Nova '' @ (if type = JStr ''income'' then ''Receita'' else ''Despesa'') @ '' Registrada'')
              (user_name (this_user this) @ '' registrou: '' @ to_string rt description)
              ''cash_flow'' (JStr ''transaction'') transaction_id
              (JObj [(''transaction_id'', transaction_id), (''page'', JStr ''/fluxo-caixa'')])
              JUndefined) (\<lambda>_.
     return transaction)))))))))"

definition CashFlowService_update ::
  "runtime \<Rightarrow> 'w rpc \<Rightarrow> BaseService \<Rightarrow> string \<Rightarrow> jsval \<Rightarrow> (jsval, 'w) io"
where
  "CashFlowService_update rt rpc this id' transactionData =
     await (lift (requirePermission this ''write'' ''cash_flow'')) (\<lambda>_.
     await (CashFlowService_getById rpc this id') (\<lambda>oldTransaction.
     await (lift (destructure transactionData)) (\<lambda>d.
     let type = d ''type''; amount = d ''amount''; category_id = d ''category_id'';
         description = d ''description''; date = d ''date''; payment_method = d ''payment_method'';
         status = d ''status''; tags = d ''tags''; project_id = d ''project_id'';
         client_id = d ''client_id''; is_recurring = d ''is_recurring'';
         recurring_frequency = d ''recurring_frequency''; notes = d ''notes'';
         categoryName = getCategoryName rt (js_or category_id (JStr ''''))
     in
     await (lift (JSON_stringify rt tags)) (\<lambda>tags_json.
     await (query rpc this sql_cash_flow_update
              [type, amount, category_id, categoryName, description, date,
               payment_method, status, tags_json,
               none_to_null project_id,
               none_to_null client_id,
               is_recurring, recurring_frequency, notes, JStr id']) (\<lambda>results.
     await (lift (at0 results)) (\<lambda>transaction.
     await (auditLog rt rpc this ''cash_flow'' ''UPDATE'' (JStr id') oldTransaction transaction) (\<lambda>_.
     return transaction)))))))"

definition CashFlowService_delete :: "runtime \<Rightarrow> 'w rpc \<Rightarrow> BaseService \<Rightarrow> string \<Rightarrow> (unit, 'w) io" where
  "CashFlowService_delete rt rpc this id' =
     await (lift (requirePermission this ''write'' ''cash_flow'')) (\<lambda>_.
     await (CashFlowService_getById rpc this id') (\<lambda>transaction.
     await (query rpc this sql_cash_flow_delete [JStr id']) (\<lambda>_.
     await (auditLog rt rpc this ''cash_flow'' ''DELETE'' (JStr id') transaction JNull) (\<lambda>_.
     return ()))))"

text \<open>\<open>rows[0]?.k || 0\<close>\<close>

definition first_or_zero :: "jsval \<Rightarrow> string \<Rightarrow> exn + jsval" where
  "first_or_zero rows k =
     (case at0 rows of Inl e \<Rightarrow> Inl e | Inr row \<Rightarrow> Inr (js_or (opt_prop row k) (JNum 0)))"

definition CashFlowService_getFinancialStats :: "runtime \<Rightarrow> 'w rpc \<Rightarrow> BaseService \<Rightarrow> (jsval, 'w) io" where
  "CashFlowService_getFinancialStats rt rpc this =
     await (lift (requirePermission this ''read'' ''cash_flow'')) (\<lambda>_.
     if user_accountType (this_user this) = ''simples''
     then return (JObj [(''totalIncome'', JNum 0), (''totalExpenses'', JNum 0), (''balance'', JNum 0),
                        (''monthlyIncome'', JNum 0), (''monthlyExpenses'', JNum 0),
                        (''monthlyBalance'', JNum 0), (''growth'', JNum 0)])
     else
     await (promise_all [query rpc this sql_cash_flow_totals [],
                         query rpc this sql_cash_flow_monthly [],
                         query rpc this sql_cash_flow_growth []]) (\<lambda>rs.
     case rs of
       [totals, monthly, growth] \<Rightarrow>
         await (lift (first_or_zero totals ''total_income'')) (\<lambda>totalIncome.
         await (lift (first_or_zero totals ''total_expenses'')) (\<lambda>totalExpenses.
         await (lift (first_or_zero monthly ''monthly_income'')) (\<lambda>monthlyIncome.
         await (lift (first_or_zero monthly ''monthly_expenses'')) (\<lambda>monthlyExpenses.
         await (lift (first_or_zero growth ''growth_percentage'')) (\<lambda>growth_percentage.
         return (JObj [(''totalIncome'', totalIncome), (''totalExpenses'', totalExpenses),
                       (''balance'', minus rt totalIncome totalExpenses),
                       (''monthlyIncome'', monthlyIncome), (''monthlyExpenses'', monthlyExpenses),
                       (''monthlyBalance'', minus rt monthlyIncome monthlyExpenses),
                       (''growth'', growth_percentage)]))))))
     | _ \<Rightarrow> throw TypeError))"

text \<open>\<open>s.replace('.', ',')\<close>: the first full stop only.\<close>

fun replace_first_dot :: "string \<Rightarrow> string" where
  "replace_first_dot [] = []"
| "replace_first_dot (c # cs) = (if c = CHR ''.'' then CHR '','' # cs else c # replace_first_dot cs)"

definition csv_headers :: "string list" where
  "csv_headers =
     [''Data'', ''Tipo'', ''Descri'' @ [CHR 0xE7] @ [CHR 0xE3] @ ''o'', ''Categoria'', ''Valor'',
      ''M'' @ [CHR 0xE9] @ ''todo Pagamento'', ''Status'', ''Projeto'', ''Cliente'', ''Criado por'',
      ''Observa'' @ [CHR 0xE7] @ [CHR 0xF5] @ ''es'']"

text \<open>One line of the report; a \<open>TypeError\<close> when the row or its amount is not what it should be.\<close>

definition csv_row :: "runtime \<Rightarrow> jsval \<Rightarrow> exn + jsval list" where
  "csv_row rt transaction =
     (case destructure transaction of
        Inl e \<Rightarrow> Inl e
      | Inr t \<Rightarrow>
          (case toFixed2 rt (t ''amount'') of
             Inl e \<Rightarrow> Inl e
           | Inr amount \<Rightarrow>
               Inr [JStr (toLocaleDateString rt (t ''date'')),
                    JStr (if t ''type'' = JStr ''income'' then ''Receita'' else ''Despesa''),
                    t ''description'',
                    t ''category_name'',
                    JStr (replace_first_dot amount),
                    js_or (t ''payment_method'') (JStr ''-''),
                    JStr (if t ''status'' = JStr ''confirmed'' then ''Confirmado''
                          else if t ''status'' = JStr ''pending'' then ''Pendente'' else ''Cancelado''),
                    js_or (t ''project_title'') (JStr ''-''),
                    js_or (t ''client_name'') (JStr ''-''),
                    js_or (t ''created_by'') (JStr ''-''),
                    js_or (t ''notes'') (JStr ''-'')]))"

fun csv_rows :: "runtime \<Rightarrow> jsval list \<Rightarrow> exn + jsval list list" where
  "csv_rows rt [] = Inr []"
| "csv_rows rt (t # ts) =
     (case csv_row rt t of
        Inl e \<Rightarrow> Inl e
      | Inr r \<Rightarrow> (case csv_rows rt ts of Inl e \<Rightarrow> Inl e | Inr rs \<Rightarrow> Inr (r # rs)))"

text \<open>\<open>transactions.map(...)\<close>: only an array has \<open>map\<close>.\<close>

definition csv_data :: "runtime \<Rightarrow> jsval \<Rightarrow> exn + jsval list list" where
  "csv_data rt transactions =
     (case transactions of JArr ts \<Rightarrow> csv_rows rt ts | _ \<Rightarrow> Inl TypeError)"

definition CashFlowService_exportCSV :: "runtime \<Rightarrow> 'w rpc \<Rightarrow> BaseService \<Rightarrow> jsval \<Rightarrow> (string, 'w) io" where
  "CashFlowService_exportCSV rt rpc this filters =
     await (lift (requirePermission this ''read'' ''cash_flow'')) (\<lambda>_.
     await (CashFlowService_getAll rt rpc this filters) (\<lambda>transactions.
     await (lift (csv_data rt transactions)) (\<lambda>csvData.
     return (join nl (join '','' csv_headers #
               map (\<lambda>row. join '','' (map (\<lambda>field. [CHR 0x22] @ to_string rt field @ [CHR 0x22]) row))
                 csvData)))))"

text \<open>The class: an instance is the record of its public methods, bound to the user.\<close>

record 'w CashFlowService =
  cf_getAll :: "jsval \<Rightarrow> (jsval, 'w) io"
  cf_getById :: "string \<Rightarrow> (jsval, 'w) io"
  cf_create :: "jsval \<Rightarrow> (jsval, 'w) io"
  cf_update :: "string \<Rightarrow> jsval \<Rightarrow> (jsval, 'w) io"
  cf_delete :: "string \<Rightarrow> (unit, 'w) io"
  cf_getFinancialStats :: "(jsval, 'w) io"
  cf_exportCSV :: "jsval \<Rightarrow> (string, 'w) io"

definition new_CashFlowService :: "runtime \<Rightarrow> 'w rpc \<Rightarrow> AuthenticatedUser \<Rightarrow> 'w CashFlowService" where
  "new_CashFlowService rt rpc user =
     (let this = new_BaseService user in
      \<lparr> cf_getAll = CashFlowService_getAll rt rpc this,
        cf_getById = CashFlowService_getById rpc this,
        cf_create = CashFlowService_create rt rpc this,
        cf_update = CashFlowService_update rt rpc this,
        cf_delete = CashFlowService_delete rt rpc this,
        cf_getFinancialStats = CashFlowService_getFinancialStats rt rpc this,
        cf_exportCSV = CashFlowService_exportCSV rt rpc this \<rparr>)"

section \<open>PublicationService (server/services/PublicationService.ts)\<close>

definition sql_publications_all :: string where
  "sql_publications_all =
     '''' @ nl @
     ''      SELECT * FROM ${schema}.publications '' @ nl @
     ''      WHERE user_id = $1'' @ nl @
     ''    ''"

definition sql_publications_by_id :: string where
  "sql_publications_by_id =
     '''' @ nl @
     ''      SELECT * FROM ${schema}.publications '' @ nl @
     ''      WHERE id = $1 AND user_id = $2'' @ nl @
     ''    ''"

definition sql_publications_insert :: string where
  "sql_publications_insert =
     '''' @ nl @
     ''      INSERT INTO ${schema}.publications ('' @ nl @
     ''        user_id, data_publicacao, processo, diario, vara_comarca,'' @ nl @
     ''        nome_pesquisado, status, conteudo, observacoes, responsavel,'' @ nl @
     ''        numero_processo, cliente, urgencia, tags, created_at, updated_at'' @ nl @
     ''      ) VALUES ('' @ nl @
     ''        $1, $2, $3, $4, $5, $6, $7, $8, $9, $10, $11, $12, $13, $14, NOW(), NOW()'' @ nl @
     ''      ) RETURNING *'' @ nl @
     ''    ''"

definition sql_publications_status :: string where
  "sql_publications_status =
     '''' @ nl @
     ''      UPDATE ${schema}.publications SET'' @ nl @
     ''        status = $1,'' @ nl @
     ''        observacoes = COALESCE($2, observacoes),'' @ nl @
     ''        updated_at = NOW()'' @ nl @
     ''      WHERE id = $3 AND user_id = $4'' @ nl @
     ''      RETURNING *'' @ nl @
     ''    ''"

definition sql_publications_assign :: string where
  "sql_publications_assign =
     '''' @ nl @
     ''      UPDATE ${schema}.publications SET'' @ nl @
     ''        status = '' @ sq @ ''atribuida'' @ sq @ '','' @ nl @
     ''        responsavel = $1,'' @ nl @
     ''        atribuido_para_id = $2,'' @ nl @
     ''        atribuido_para_nome = $3,'' @ nl @
     ''        data_atribuicao = NOW(),'' @ nl @
     ''        updated_at = NOW()'' @ nl @
     ''      WHERE id = $4 AND user_id = $5'' @ nl @
     ''      RETURNING *'' @ nl @
     ''    ''"

definition sql_publications_delete :: string where
  "sql_publications_delete =
     '''' @ nl @
     ''      DELETE FROM ${schema}.publications '' @ nl @
     ''      WHERE id = $1 AND user_id = $2'' @ nl @
     ''    ''"

definition sql_publications_count :: string where
  "sql_publications_count =
     ''SELECT COUNT(*) as count FROM ${schema}.publications WHERE user_id = $1''"

text \<open>The count of one status: the same text followed by \<open>AND status = '...'\<close>.\<close>

definition sql_publications_count_status :: "string \<Rightarrow> string" where
  "sql_publications_count_status s = sql_publications_count @ '' AND status = '' @ sq @ s @ sq"

definition PublicationService_getAll :: "runtime \<Rightarrow> 'w rpc \<Rightarrow> BaseService \<Rightarrow> jsval \<Rightarrow> (jsval, 'w) io" where
  "PublicationService_getAll rt rpc this filters =
     await (lift (requirePermission this ''read'' ''publications'')) (\<lambda>_.
     let sp0 = (sql_publications_all, [JStr (user_id (this_user this))]);
         sp1 = (case sp0 of (sql, params) \<Rightarrow>
                  if truthy (opt_prop filters ''search'')
                  then (sql @ '' AND (processo ILIKE $'' @ decimal (length params + 1) @
                               '' OR nome_pesquisado ILIKE $'' @ decimal (length params + 1) @ '')'',
                        params @ [JStr (''%'' @ to_string rt (opt_prop filters ''search'') @ ''%'')])
                  else (sql, params));
         sp2 = add_filter (opt_prop filters ''status'') '' AND status = $'' (opt_prop filters ''status'') sp1;
         sql = fst sp2 @ '' ORDER BY data_publicacao DESC, created_at DESC''
     in query rpc this sql (snd sp2))"

definition PublicationService_getById :: "'w rpc \<Rightarrow> BaseService \<Rightarrow> string \<Rightarrow> (jsval, 'w) io" where
  "PublicationService_getById rpc this id' =
     await (lift (requirePermission this ''read'' ''publications'')) (\<lambda>_.
     await (query rpc this sql_publications_by_id [JStr id', JStr (user_id (this_user this))]) (\<lambda>results.
     if no_rows results
     then throw (Error (''Publica'' @ [CHR 0xE7] @ [CHR 0xE3] @ ''o n'' @ [CHR 0xE3] @ ''o encontrada''))
     else lift (at0 results)))"

definition PublicationService_create :: "runtime \<Rightarrow> 'w rpc \<Rightarrow> BaseService \<Rightarrow> jsval \<Rightarrow> (jsval, 'w) io" where
  "PublicationService_create rt rpc this publicationData =
     await (lift (requirePermission this ''write'' ''publications'')) (\<lambda>_.
     await (lift (destructure publicationData)) (\<lambda>d.
     await (lift (JSON_stringify rt (js_or (d ''tags'') (JArr [])))) (\<lambda>tags_json.
     await (query rpc this sql_publications_insert
              [JStr (user_id (this_user this)),
               d ''data_publicacao'', d ''processo'', d ''diario'', d ''vara_comarca'',
               d ''nome_pesquisado'',
               js_or (d ''status'') (JStr ''nova''), d ''conteudo'', d ''observacoes'', d ''responsavel'',
               d ''numero_processo'', d ''cliente'', js_or (d ''urgencia'') (JStr ''media''),
               tags_json]) (\<lambda>results.
     await (lift (at0 results)) (\<lambda>publication.
     await (lift (get_prop publication ''id'')) (\<lambda>publication_id.
     await (auditLog rt rpc this ''publications'' ''CREATE'' publication_id JNull publication) (\<lambda>_.
     return publication)))))))"

definition PublicationService_updateStatus ::
  "runtime \<Rightarrow> 'w rpc \<Rightarrow> BaseService \<Rightarrow> string \<Rightarrow> jsval \<Rightarrow> jsval \<Rightarrow> (jsval, 'w) io"
where
  "PublicationService_updateStatus rt rpc this id' status' observacoes =
     await (lift (requirePermission this ''write'' ''publications'')) (\<lambda>_.
     await (PublicationService_getById rpc this id') (\<lambda>oldPublication.
     await (query rpc this sql_publications_status
              [status', observacoes, JStr id', JStr (user_id (this_user this))]) (\<lambda>results.
     await (lift (at0 results)) (\<lambda>publication.
     await (auditLog rt rpc this ''publications'' ''UPDATE'' (JStr id') oldPublication publication) (\<lambda>_.
     await (lift (get_prop oldPublication ''status'')) (\<lambda>old_status.
     await (if old_status = JStr ''nova'' \<and> status' = JStr ''pendente''
            then await (lift (get_prop publication ''processo'')) (\<lambda>processo.
                 await (lift (get_prop publication ''id'')) (\<lambda>publication_id.
                 createNotification rt rpc this ''info''
                   (''Publica'' @ [CHR 0xE7] @ [CHR 0xE3] @ ''o Visualizada'')
                   (user_name (this_user this) @ '' visualizou a publica'' @ [CHR 0xE7] @ [CHR 0xE3] @
                    ''o '' @ to_string rt processo)
                   ''publications'' (JStr ''publication'') publication_id
                   (JObj [(''publication_id'', publication_id), (''page'', JStr ''/publicacoes'')])
                   JUndefined))
            else return ()) (\<lambda>_.
     return publication)))))))"

definition PublicationService_assignToUser ::
  "runtime \<Rightarrow> 'w rpc \<Rightarrow> BaseService \<Rightarrow> string \<Rightarrow> string \<Rightarrow> string \<Rightarrow> (jsval, 'w) io"
where
  "PublicationService_assignToUser rt rpc this id' assignedUserId assignedUserName =
     await (lift (requirePermission this ''write'' ''publications'')) (\<lambda>_.
     await (PublicationService_getById rpc this id') (\<lambda>oldPublication.
     await (query rpc this sql_publications_assign
              [JStr assignedUserName, JStr assignedUserId, JStr assignedUserName, JStr id',
               JStr (user_id (this_user this))]) (\<lambda>results.
     await (lift (at0 results)) (\<lambda>publication.
     await (auditLog rt rpc this ''publications'' ''UPDATE'' (JStr id') oldPublication publication) (\<lambda>_.
     await (lift (get_prop publication ''id'')) (\<lambda>publication_id.
     await (createNotification rt rpc this ''info''
              (''Publica'' @ [CHR 0xE7] @ [CHR 0xE3] @ ''o Atribu'' @ [CHR 0xED] @ ''da'')
              (user_name (this_user this) @ '' atribuiu publica'' @ [CHR 0xE7] @ [CHR 0xE3] @
               ''o para '' @ assignedUserName)
              ''publications'' (JStr ''publication'') publication_id
              (JObj [(''publication_id'', publication_id), (''page'', JStr ''/publicacoes'')])
              (JStr assignedUserId)) (\<lambda>_.
     return publication)))))))"

definition PublicationService_delete :: "runtime \<Rightarrow> 'w rpc \<Rightarrow> BaseService \<Rightarrow> string \<Rightarrow> (unit, 'w) io" where
  "PublicationService_delete rt rpc this id' =
     await (lift (requirePermission this ''write'' ''publications'')) (\<lambda>_.
     await (PublicationService_getById rpc this id') (\<lambda>publication.
     await (query rpc this sql_publications_delete [JStr id', JStr (user_id (this_user this))]) (\<lambda>_.
     await (auditLog rt rpc this ''publications'' ''DELETE'' (JStr id') publication JNull) (\<lambda>_.
     return ()))))"

text \<open>\<open>rows[0]?.count || 0\<close> is \<open>first_or_zero\<close> of the cash flow.\<close>

definition PublicationService_getStats :: "runtime \<Rightarrow> 'w rpc \<Rightarrow> BaseService \<Rightarrow> (jsval, 'w) io" where
  "PublicationService_getStats rt rpc this =
     await (lift (requirePermission this ''read'' ''publications'')) (\<lambda>_.
     await (promise_all
              [query rpc this sql_publications_count [JStr (user_id (this_user this))],
               query rpc this (sql_publications_count_status ''nova'') [JStr (user_id (this_user this))],
               query rpc this (sql_publications_count_status ''pendente'') [JStr (user_id (this_user this))],
               query rpc this (sql_publications_count_status ''atribuida'') [JStr (user_id (this_user this))],
               query rpc this (sql_publications_count_status ''finalizada'') [JStr (user_id (this_user this))],
               query rpc this (sql_publications_count_status ''descartada'') [JStr (user_id (this_user this))]])
       (\<lambda>rs.
     case rs of
       [total_rows, novas, pendentes, atribuidas, finalizadas, descartadas] \<Rightarrow>
         await (lift (first_or_zero total_rows ''count'')) (\<lambda>totalCount.
         await (lift (first_or_zero finalizadas ''count'')) (\<lambda>finalizadaCount.
         await (lift (first_or_zero novas ''count'')) (\<lambda>novas_count.
         await (lift (first_or_zero pendentes ''count'')) (\<lambda>pendentes_count.
         await (lift (first_or_zero atribuidas ''count'')) (\<lambda>atribuidas_count.
         await (lift (first_or_zero descartadas ''count'')) (\<lambda>descartadas_count.
         return (JObj [(''total'', totalCount), (''novas'', novas_count),
                       (''pendentes'', pendentes_count), (''atribuidas'', atribuidas_count),
                       (''finalizadas'', finalizadaCount), (''descartadas'', descartadas_count),
                       (''porcentagemConcluidas'',
                        (if greater0 rt totalCount then percent rt finalizadaCount totalCount
                         else JNum 0))])))))))
     | _ \<Rightarrow> throw TypeError))"

section \<open>ClientService (server/services/ClientService.ts)\<close>

text \<open>
  The operations that write, and \<open>getById\<close>, which \<open>update\<close> and \<open>delete\<close> call first.
\<close>

definition sql_clients_by_id :: string where
  "sql_clients_by_id =
     '''' @ nl @
     ''      SELECT * FROM ${schema}.clients WHERE id = $1'' @ nl @
     ''    ''"

definition sql_clients_insert :: string where
  "sql_clients_insert =
     '''' @ nl @
     ''      INSERT INTO ${schema}.clients ('' @ nl @
     ''        name, organization, email, mobile, country, state, address,'' @ nl @
     ''        city, zip_code, budget, currency, level, tags, description,'' @ nl @
     ''        pis, cei, professional_title, marital_status, birth_date,'' @ nl @
     ''        cpf, rg, inss_status, amount_paid, referred_by, registered_by,'' @ nl @
     ''        status, created_at, updated_at'' @ nl @
     ''      ) VALUES ('' @ nl @
     ''        $1, $2, $3, $4, $5, $6, $7, $8, $9, $10, $11, $12, $13, $14,'' @ nl @
     ''        $15, $16, $17, $18, $19, $20, $21, $22, $23, $24, $25,'' @ nl @
     ''        '' @ sq @ ''active'' @ sq @ '', NOW(), NOW()'' @ nl @
     ''      ) RETURNING *'' @ nl @
     ''    ''"

definition sql_clients_update :: string where
  "sql_clients_update =
     '''' @ nl @
     ''      UPDATE ${schema}.clients SET'' @ nl @
     ''        name = COALESCE($1, name),'' @ nl @
     ''        organization = COALESCE($2, organization),'' @ nl @
     ''        email = COALESCE($3, email),'' @ nl @
     ''        mobile = COALESCE($4, mobile),'' @ nl @
     ''        country = COALESCE($5, country),'' @ nl @
     ''        state = COALESCE($6, state),'' @ nl @
     ''        address = COALESCE($7, address),'' @ nl @
     ''        city = COALESCE($8, city),'' @ nl @
     ''        zip_code = COALESCE($9, zip_code),'' @ nl @
     ''        budget = COALESCE($10, budget),'' @ nl @
     ''        currency = COALESCE($11, currency),'' @ nl @
     ''        level = COALESCE($12, level),'' @ nl @
     ''        tags = COALESCE($13, tags),'' @ nl @
     ''        description = COALESCE($14, description),'' @ nl @
     ''        pis = COALESCE($15, pis),'' @ nl @
     ''        cei = COALESCE($16, cei),'' @ nl @
     ''        professional_title = COALESCE($17, professional_title),'' @ nl @
     ''        marital_status = COALESCE($18, marital_status),'' @ nl @
     ''        birth_date = COALESCE($19, birth_date),'' @ nl @
     ''        cpf = COALESCE($20, cpf),'' @ nl @
     ''        rg = COALESCE($21, rg),'' @ nl @
     ''        inss_status = COALESCE($22, inss_status),'' @ nl @
     ''        amount_paid = COALESCE($23, amount_paid),'' @ nl @
     ''        referred_by = COALESCE($24, referred_by),'' @ nl @
     ''        updated_at = NOW()'' @ nl @
     ''      WHERE id = $25'' @ nl @
     ''      RETURNING *'' @ nl @
     ''    ''"

definition sql_clients_delete :: string where
  "sql_clients_delete =
     '''' @ nl @
     ''      DELETE FROM ${schema}.clients WHERE id = $1'' @ nl @
     ''    ''"

definition ClientService_getById :: "'w rpc \<Rightarrow> BaseService \<Rightarrow> string \<Rightarrow> (jsval, 'w) io" where
  "ClientService_getById rpc this id' =
     await (lift (requirePermission this ''read'' ''crm'')) (\<lambda>_.
     await (query rpc this sql_clients_by_id [JStr id']) (\<lambda>results.
     if no_rows results
     then throw (Error (''Cliente n'' @ [CHR 0xE3] @ ''o encontrado''))
     else lift (at0 results)))"

definition ClientService_create :: "runtime \<Rightarrow> 'w rpc \<Rightarrow> BaseService \<Rightarrow> jsval \<Rightarrow> (jsval, 'w) io" where
  "ClientService_create rt rpc this clientData =
     await (lift (requirePermission this ''write'' ''crm'')) (\<lambda>_.
     await (lift (destructure clientData)) (\<lambda>d.
     await (lift (JSON_stringify rt (js_or (d ''tags'') (JArr [])))) (\<lambda>tags_json.
     await (query rpc this sql_clients_insert
              [d ''name'', d ''organization'', d ''email'', d ''mobile'', d ''country'', d ''state'',
               d ''address'',
               d ''city'', d ''zip_code'', js_or (d ''budget'') (JNum 0),
               js_or (d ''currency'') (JStr ''BRL''), d ''level'',
               tags_json, d ''description'', d ''pis'', d ''cei'', d ''professional_title'',
               d ''marital_status'', d ''birth_date'', d ''cpf'', d ''rg'', d ''inss_status'',
               js_or (d ''amount_paid'') (JNum 0),
               d ''referred_by'', JStr (user_name (this_user this))]) (\<lambda>results.
     await (lift (at0 results)) (\<lambda>client.
     await (lift (get_prop client ''id'')) (\<lambda>client_id.
     await (auditLog rt rpc this ''clients'' ''CREATE'' client_id JNull client) (\<lambda>_.
     await (lift (get_prop client ''name'')) (\<lambda>client_name.
     await (createNotification rt rpc this ''info'' ''Novo Cliente Cadastrado''
              (user_name (this_user this) @ '' cadastrou novo cliente: '' @ to_string rt client_name)
              ''client'' (JStr ''client'') client_id
              (JObj [(''client_id'', client_id), (''page'', JStr ''/crm'')])
              JUndefined) (\<lambda>_.
     return client)))))))))"

definition ClientService_update ::
  "runtime \<Rightarrow> 'w rpc \<Rightarrow> BaseService \<Rightarrow> string \<Rightarrow> jsval \<Rightarrow> (jsval, 'w) io"
where
  "ClientService_update rt rpc this id' clientData =
     await (lift (requirePermission this ''write'' ''crm'')) (\<lambda>_.
     await (ClientService_getById rpc this id') (\<lambda>oldClient.
     await (lift (destructure clientData)) (\<lambda>d.
     await (lift (JSON_stringify rt (d ''tags''))) (\<lambda>tags_json.
     await (query rpc this sql_clients_update
              [d ''name'', d ''organization'', d ''email'', d ''mobile'', d ''country'', d ''state'',
               d ''address'',
               d ''city'', d ''zip_code'', d ''budget'', d ''currency'', d ''level'', tags_json,
               d ''description'', d ''pis'', d ''cei'', d ''professional_title'', d ''marital_status'',
               d ''birth_date'', d ''cpf'', d ''rg'', d ''inss_status'', d ''amount_paid'',
               d ''referred_by'', JStr id']) (\<lambda>results.
     await (lift (at0 results)) (\<lambda>client.
     await (auditLog rt rpc this ''clients'' ''UPDATE'' (JStr id') oldClient client) (\<lambda>_.
     await (lift (get_prop client ''name'')) (\<lambda>client_name.
     await (lift (get_prop client ''id'')) (\<lambda>client_id.
     await (createNotification rt rpc this ''info'' ''Cliente Atualizado''
              (user_name (this_user this) @ '' editou o cliente: '' @ to_string rt client_name)
              ''client'' (JStr ''client'') client_id
              (JObj [(''client_id'', client_id), (''page'', JStr ''/crm'')])
              JUndefined) (\<lambda>_.
     return client))))))))))"

definition ClientService_delete :: "runtime \<Rightarrow> 'w rpc \<Rightarrow> BaseService \<Rightarrow> string \<Rightarrow> (unit, 'w) io" where
  "ClientService_delete rt rpc this id' =
     await (lift (requirePermission this ''write'' ''crm'')) (\<lambda>_.
     await (ClientService_getById rpc this id') (\<lambda>client.
     await (query rpc this sql_clients_delete [JStr id']) (\<lambda>_.
     await (auditLog rt rpc this ''clients'' ''DELETE'' (JStr id') client JNull) (\<lambda>_.
     await (lift (get_prop client ''name'')) (\<lambda>client_name.
     await (createNotification rt rpc this ''warning'' (''Cliente Exclu'' @ [CHR 0xED] @ ''do'')
              (user_name (this_user this) @ '' excluiu o cliente: '' @ to_string rt client_name)
              ''client'' JUndefined JUndefined JUndefined JUndefined) (\<lambda>_.
     return ()))))))"

section \<open>ProjectService (server/services/ProjectService.ts, in unnamed/part_011)\<close>

text \<open>
  The operations that write, and \<open>getById\<close>, which \<open>update\<close> and \<open>delete\<close> call first.
\<close>

definition sql_projects_by_id :: string where
  "sql_projects_by_id =
     '''' @ nl @
     ''      SELECT * FROM ${schema}.projects WHERE id = $1'' @ nl @
     ''    ''"

definition sql_projects_insert :: string where
  "sql_projects_insert =
     '''' @ nl @
     ''      INSERT INTO ${schema}.projects ('' @ nl @
     ''        title, description, client_name, client_id, organization,'' @ nl @
     ''        contacts, address, budget, currency, status, start_date,'' @ nl @
     ''        due_date, tags, assigned_to, priority, progress, notes,'' @ nl @
     ''        created_by, created_at, updated_at, attachments'' @ nl @
     ''      ) VALUES ('' @ nl @
     ''        $1, $2, $3, $4, $5, $6, $7, $8, $9, $10, $11, $12, $13, $14, $15, $16, $17,'' @ nl @
     ''        $18, NOW(), NOW(), '' @ sq @ ''[]'' @ sq @ nl @
     ''      ) RETURNING *'' @ nl @
     ''    ''"

definition sql_projects_update :: string where
  "sql_projects_update =
     '''' @ nl @
     ''      UPDATE ${schema}.projects SET'' @ nl @
     ''        title = COALESCE($1, title),'' @ nl @
     ''        description = COALESCE($2, description),'' @ nl @
     ''        client_name = COALESCE($3, client_name),'' @ nl @
     ''        organization = COALESCE($4, organization),'' @ nl @
     ''        contacts = COALESCE($5, contacts),'' @ nl @
     ''        address = COALESCE($6, address),'' @ nl @
     ''        budget = COALESCE($7, budget),'' @ nl @
     ''        currency = COALESCE($8, currency),'' @ nl @
     ''        status = COALESCE($9, status),'' @ nl @
     ''        start_date = COALESCE($10, start_date),'' @ nl @
     ''        due_date = COALESCE($11, due_date),'' @ nl @
     ''        tags = COALESCE($12, tags),'' @ nl @
     ''        assigned_to = COALESCE($13, assigned_to),'' @ nl @
     ''        priority = COALESCE($14, priority),'' @ nl @
     ''        progress = COALESCE($15, progress),'' @ nl @
     ''        notes = COALESCE($16, notes),'' @ nl @
     ''        updated_at = NOW()'' @ nl @
     ''      WHERE id = $17'' @ nl @
     ''      RETURNING *'' @ nl @
     ''    ''"

definition sql_projects_delete :: string where
  "sql_projects_delete =
     ''DELETE FROM ${schema}.projects WHERE id = $1''"

definition ProjectService_getById :: "'w rpc \<Rightarrow> BaseService \<Rightarrow> string \<Rightarrow> (jsval, 'w) io" where
  "ProjectService_getById rpc this id' =
     await (lift (requirePermission this ''read'' ''projects'')) (\<lambda>_.
     await (query rpc this sql_projects_by_id [JStr id']) (\<lambda>results.
     if no_rows results
     then throw (Error (''Projeto n'' @ [CHR 0xE3] @ ''o encontrado''))
     else lift (at0 results)))"

definition ProjectService_create :: "runtime \<Rightarrow> 'w rpc \<Rightarrow> BaseService \<Rightarrow> jsval \<Rightarrow> (jsval, 'w) io" where
  "ProjectService_create rt rpc this projectData =
     await (lift (requirePermission this ''write'' ''projects'')) (\<lambda>_.
     await (lift (destructure projectData)) (\<lambda>d.
     await (lift (JSON_stringify rt (js_or (d ''contacts'') (JArr [])))) (\<lambda>contacts_json.
     await (lift (JSON_stringify rt (js_or (d ''tags'') (JArr [])))) (\<lambda>tags_json.
     await (lift (JSON_stringify rt (js_or (d ''assigned_to'') (JArr [])))) (\<lambda>assigned_to_json.
     await (query rpc this sql_projects_insert
              [d ''title'', d ''description'', d ''client_name'', d ''client_id'', d ''organization'',
               contacts_json, d ''address'', js_or (d ''budget'') (JNum 0),
               js_or (d ''currency'') (JStr ''BRL''), js_or (d ''status'') (JStr ''contacted''),
               d ''start_date'',
               d ''due_date'', tags_json, assigned_to_json,
               js_or (d ''priority'') (JStr ''medium''), js_or (d ''progress'') (JNum 0), d ''notes'',
               JStr (user_name (this_user this))]) (\<lambda>results.
     await (lift (at0 results)) (\<lambda>project.
     await (lift (get_prop project ''id'')) (\<lambda>project_id.
     await (auditLog rt rpc this ''projects'' ''CREATE'' project_id JNull project) (\<lambda>_.
     await (lift (get_prop project ''title'')) (\<lambda>project_title.
     await (createNotification rt rpc this ''info'' ''Novo Projeto Criado''
              (user_name (this_user this) @ '' criou o projeto: '' @ to_string rt project_title)
              ''project'' (JStr ''project'') project_id
              (JObj [(''project_id'', project_id), (''page'', JStr ''/projetos'')])
              JUndefined) (\<lambda>_.
     return project)))))))))))"

definition ProjectService_update ::
  "runtime \<Rightarrow> 'w rpc \<Rightarrow> BaseService \<Rightarrow> string \<Rightarrow> jsval \<Rightarrow> (jsval, 'w) io"
where
  "ProjectService_update rt rpc this id' projectData =
     await (lift (requirePermission this ''write'' ''projects'')) (\<lambda>_.
     await (ProjectService_getById rpc this id') (\<lambda>oldProject.
     await (lift (destructure projectData)) (\<lambda>d.
     await (lift (JSON_stringify rt (d ''contacts''))) (\<lambda>contacts_json.
     await (lift (JSON_stringify rt (d ''tags''))) (\<lambda>tags_json.
     await (lift (JSON_stringify rt (d ''assigned_to''))) (\<lambda>assigned_to_json.
     await (query rpc this sql_projects_update
              [d ''title'', d ''description'', d ''client_name'', d ''organization'',
               contacts_json, d ''address'', d ''budget'', d ''currency'',
               d ''status'', d ''start_date'', d ''due_date'', tags_json,
               assigned_to_json, d ''priority'', d ''progress'', d ''notes'', JStr id']) (\<lambda>results.
     await (lift (at0 results)) (\<lambda>project.
     await (auditLog rt rpc this ''projects'' ''UPDATE'' (JStr id') oldProject project) (\<lambda>_.
     await (lift (get_prop project ''title'')) (\<lambda>project_title.
     await (lift (get_prop project ''id'')) (\<lambda>project_id.
     await (createNotification rt rpc this ''info'' ''Projeto Atualizado''
              (user_name (this_user this) @ '' editou o projeto: '' @ to_string rt project_title)
              ''project'' (JStr ''project'') project_id
              (JObj [(''project_id'', project_id), (''page'', JStr ''/projetos'')])
              JUndefined) (\<lambda>_.
     return project))))))))))))"

definition ProjectService_delete :: "runtime \<Rightarrow> 'w rpc \<Rightarrow> BaseService \<Rightarrow> string \<Rightarrow> (unit, 'w) io" where
  "ProjectService_delete rt rpc this id' =
     await (lift (requirePermission this ''write'' ''projects'')) (\<lambda>_.
     await (ProjectService_getById rpc this id') (\<lambda>project.
     await (query rpc this sql_projects_delete [JStr id']) (\<lambda>_.
     await (auditLog rt rpc this ''projects'' ''DELETE'' (JStr id') project JNull) (\<lambda>_.
     await (lift (get_prop project ''title'')) (\<lambda>project_title.
     await (createNotification rt rpc this ''warning'' (''Projeto Exclu'' @ [CHR 0xED] @ ''do'')
              (user_name (this_user this) @ '' excluiu o projeto: '' @ to_string rt project_title)
              ''project'' JUndefined JUndefined JUndefined JUndefined) (\<lambda>_.
     return ()))))))"

section \<open>TaskService (server/services/TaskService.ts, in unnamed/part_010)\<close>

text \<open>
  The operations that write, and \<open>getById\<close>, which \<open>update\<close> and \<open>delete\<close> call first.
\<close>

definition sql_tasks_by_id :: string where
  "sql_tasks_by_id =
     '''' @ nl @
     ''      SELECT t.*, '' @ nl @
     ''        p.title as project_title,'' @ nl @
     ''        c.name as client_name'' @ nl @
     ''      FROM ${schema}.tasks t'' @ nl @
     ''      LEFT JOIN ${schema}.projects p ON t.project_id = p.id'' @ nl @
     ''      LEFT JOIN ${schema}.clients c ON t.client_id = c.id'' @ nl @
     ''      WHERE t.id = $1'' @ nl @
     ''    ''"

definition sql_tasks_project :: string where
  "sql_tasks_project =
     '''' @ nl @
     ''        SELECT p.title, c.name as client_name '' @ nl @
     ''        FROM ${schema}.projects p'' @ nl @
     ''        LEFT JOIN ${schema}.clients c ON p.client_id = c.id'' @ nl @
     ''        WHERE p.id = $1'' @ nl @
     ''      ''"

definition sql_tasks_insert :: string where
  "sql_tasks_insert =
     '''' @ nl @
     ''      INSERT INTO ${schema}.tasks ('' @ nl @
     ''        title, description, start_date, end_date, status, priority,'' @ nl @
     ''        assigned_to, project_id, project_title, client_id, client_name,'' @ nl @
     ''        tags, estimated_hours, actual_hours, progress, notes, subtasks,'' @ nl @
     ''        created_at, updated_at'' @ nl @
     ''      ) VALUES ('' @ nl @
     ''        $1, $2, $3, $4, $5, $6, $7, $8, $9, $10, $11, $12, $13, $14, $15, $16, $17,'' @ nl @
     ''        NOW(), NOW()'' @ nl @
     ''      ) RETURNING *'' @ nl @
     ''    ''"

definition sql_tasks_update :: string where
  "sql_tasks_update =
     '''' @ nl @
     ''      UPDATE ${schema}.tasks SET'' @ nl @
     ''        title = COALESCE($1, title),'' @ nl @
     ''        description = COALESCE($2, description),'' @ nl @
     ''        start_date = COALESCE($3, start_date),'' @ nl @
     ''        end_date = COALESCE($4, end_date),'' @ nl @
     ''        status = COALESCE($5, status),'' @ nl @
     ''        priority = COALESCE($6, priority),'' @ nl @
     ''        assigned_to = COALESCE($7, assigned_to),'' @ nl @
     ''        project_id = COALESCE($8, project_id),'' @ nl @
     ''        client_id = COALESCE($9, client_id),'' @ nl @
     ''        tags = COALESCE($10, tags),'' @ nl @
     ''        estimated_hours = COALESCE($11, estimated_hours),'' @ nl @
     ''        actual_hours = COALESCE($12, actual_hours),'' @ nl @
     ''        progress = COALESCE($13, progress),'' @ nl @
     ''        notes = COALESCE($14, notes),'' @ nl @
     ''        subtasks = COALESCE($15, subtasks),'' @ nl @
     ''        completed_at = CASE WHEN $5 = '' @ sq @ ''completed'' @ sq @ '' THEN NOW() ELSE completed_at END,'' @ nl @
     ''        updated_at = NOW()'' @ nl @
     ''      WHERE id = $16'' @ nl @
     ''      RETURNING *'' @ nl @
     ''    ''"

definition sql_tasks_delete :: string where
  "sql_tasks_delete =
     ''DELETE FROM ${schema}.tasks WHERE id = $1''"

definition TaskService_getById :: "'w rpc \<Rightarrow> BaseService \<Rightarrow> string \<Rightarrow> (jsval, 'w) io" where
  "TaskService_getById rpc this id' =
     await (lift (requirePermission this ''read'' ''tasks'')) (\<lambda>_.
     await (query rpc this sql_tasks_by_id [JStr id']) (\<lambda>results.
     if no_rows results
     then throw (Error (''Tarefa n'' @ [CHR 0xE3] @ ''o encontrada''))
     else lift (at0 results)))"

definition TaskService_create :: "runtime \<Rightarrow> 'w rpc \<Rightarrow> BaseService \<Rightarrow> jsval \<Rightarrow> (jsval, 'w) io" where
  "TaskService_create rt rpc this taskData =
     await (lift (requirePermission this ''write'' ''tasks'')) (\<lambda>_.
     await (lift (destructure taskData)) (\<lambda>d.
     let project_id = d ''project_id''; client_id = d ''client_id'' in
     await (if truthy project_id \<and> project_id \<noteq> JStr ''none''
            then await (query rpc this sql_tasks_project [project_id]) (\<lambda>projectResults.
                 await (lift (get_prop projectResults ''length'')) (\<lambda>len.
                 if greater0 rt len
                 then await (lift (at0 projectResults)) (\<lambda>row.
                      await (lift (get_prop row ''title'')) (\<lambda>title.
                      await (lift (get_prop row ''client_name'')) (\<lambda>client_name.
                      return (title, client_name))))
                 else return (JNull, JNull)))
            else return (JNull, JNull)) (\<lambda>(projectTitle, clientName).
     await (lift (JSON_stringify rt (js_or (d ''tags'') (JArr [])))) (\<lambda>tags_json.
     await (lift (JSON_stringify rt (js_or (d ''subtasks'') (JArr [])))) (\<lambda>subtasks_json.
     await (query rpc this sql_tasks_insert
              [d ''title'', d ''description'', d ''start_date'', d ''end_date'',
               js_or (d ''status'') (JStr ''not_started''),
               js_or (d ''priority'') (JStr ''medium''), d ''assigned_to'',
               none_to_null project_id,
               projectTitle, none_to_null client_id, clientName,
               tags_json, d ''estimated_hours'', js_or (d ''actual_hours'') (JNum 0),
               js_or (d ''progress'') (JNum 0), d ''notes'', subtasks_json]) (\<lambda>results.
     await (lift (at0 results)) (\<lambda>task.
     await (lift (get_prop task ''id'')) (\<lambda>task_id.
     await (auditLog rt rpc this ''tasks'' ''CREATE'' task_id JNull task) (\<lambda>_.
     await (lift (get_prop task ''title'')) (\<lambda>task_title.
     await (createNotification rt rpc this ''info'' ''Nova Tarefa Criada''
              (user_name (this_user this) @ '' criou a tarefa: '' @ to_string rt task_title)
              ''task'' (JStr ''task'') task_id
              (JObj [(''task_id'', task_id), (''page'', JStr ''/tarefas'')])
              JUndefined) (\<lambda>_.
     return task)))))))))))"

definition TaskService_update ::
  "runtime \<Rightarrow> 'w rpc \<Rightarrow> BaseService \<Rightarrow> string \<Rightarrow> jsval \<Rightarrow> (jsval, 'w) io"
where
  "TaskService_update rt rpc this id' taskData =
     await (lift (requirePermission this ''write'' ''tasks'')) (\<lambda>_.
     await (TaskService_getById rpc this id') (\<lambda>oldTask.
     await (lift (destructure taskData)) (\<lambda>d.
     await (lift (JSON_stringify rt (d ''tags''))) (\<lambda>tags_json.
     await (lift (JSON_stringify rt (d ''subtasks''))) (\<lambda>subtasks_json.
     await (query rpc this sql_tasks_update
              [d ''title'', d ''description'', d ''start_date'', d ''end_date'', d ''status'',
               d ''priority'',
               d ''assigned_to'', none_to_null (d ''project_id''),
               none_to_null (d ''client_id''), tags_json,
               d ''estimated_hours'', d ''actual_hours'', d ''progress'', d ''notes'',
               subtasks_json, JStr id']) (\<lambda>results.
     await (lift (at0 results)) (\<lambda>task.
     await (auditLog rt rpc this ''tasks'' ''UPDATE'' (JStr id') oldTask task) (\<lambda>_.
     return task))))))))"

definition TaskService_delete :: "runtime \<Rightarrow> 'w rpc \<Rightarrow> BaseService \<Rightarrow> string \<Rightarrow> (unit, 'w) io" where
  "TaskService_delete rt rpc this id' =
     await (lift (requirePermission this ''write'' ''tasks'')) (\<lambda>_.
     await (TaskService_getById rpc this id') (\<lambda>task.
     await (query rpc this sql_tasks_delete [JStr id']) (\<lambda>_.
     await (auditLog rt rpc this ''tasks'' ''DELETE'' (JStr id') task JNull) (\<lambda>_.
     return ()))))"

section \<open>BillingService (server/services/BillingService.ts)\<close>

text \<open>
  The operations that write, and \<open>getById\<close>, which \<open>update\<close> and \<open>delete\<close> call first.
\<close>

text \<open>
  \<open>items.reduce((sum, item) => sum + item.amount, 0)\<close>: a \<open>TypeError\<close> when \<open>items\<close> is not
  an array, and when an item is \<open>undefined\<close> or \<open>null\<close>.
\<close>

definition reduce_amount :: "runtime \<Rightarrow> jsval \<Rightarrow> exn + jsval" where
  "reduce_amount rt items =
     (case items of
        JArr xs \<Rightarrow>
          foldl (\<lambda>acc item.
                   case acc of
                     Inl e \<Rightarrow> Inl e
                   | Inr s \<Rightarrow>
                       (case get_prop item ''amount'' of
                          Inl e \<Rightarrow> Inl e
                        | Inr amount \<Rightarrow> Inr (plus rt s amount)))
                (Inr (JNum 0)) xs
      | _ \<Rightarrow> Inl TypeError)"

text \<open>\<open>kind === 'percentage' ? (subtotal * v / 100) : v\<close>\<close>

definition share :: "runtime \<Rightarrow> jsval \<Rightarrow> jsval \<Rightarrow> jsval \<Rightarrow> jsval" where
  "share rt kind subtotal v =
     (if kind = JStr ''percentage'' then divide rt (times rt subtotal v) (JNum 100) else v)"

text \<open>\<open>s.padStart(n, c)\<close>\<close>

definition padStart :: "nat \<Rightarrow> char \<Rightarrow> string \<Rightarrow> string" where
  "padStart n c s = replicate (n - length s) c @ s"

definition sql_billing_by_id :: string where
  "sql_billing_by_id =
     '''' @ nl @
     ''      SELECT * FROM ${schema}.billing WHERE id = $1'' @ nl @
     ''    ''"

definition sql_billing_count_type :: string where
  "sql_billing_count_type =
     '''' @ nl @
     ''      SELECT COUNT(*) as count FROM ${schema}.billing WHERE type = $1'' @ nl @
     ''    ''"

definition sql_billing_insert :: string where
  "sql_billing_insert =
     '''' @ nl @
     ''      INSERT INTO ${schema}.billing ('' @ nl @
     ''        type, number, title, description, date, due_date, '' @ nl @
     ''        sender_name, sender_details, receiver_name, receiver_details,'' @ nl @
     ''        items, subtotal, discount, discount_type, fee, fee_type,'' @ nl @
     ''        tax, tax_type, total, currency, status, tags, notes,'' @ nl @
     ''        created_by, last_modified_by, created_at, updated_at'' @ nl @
     ''      ) VALUES ('' @ nl @
     ''        $1, $2, $3, $4, $5, $6, $7, $8, $9, $10, $11, $12, $13, $14,'' @ nl @
     ''        $15, $16, $17, $18, $19, $20, $21, $22, $23, $24, $25, NOW(), NOW()'' @ nl @
     ''      ) RETURNING *'' @ nl @
     ''    ''"

definition sql_billing_update :: string where
  "sql_billing_update =
     '''' @ nl @
     ''      UPDATE ${schema}.billing SET'' @ nl @
     ''        title = COALESCE($1, title),'' @ nl @
     ''        description = COALESCE($2, description),'' @ nl @
     ''        date = COALESCE($3, date),'' @ nl @
     ''        due_date = COALESCE($4, due_date),'' @ nl @
     ''        currency = COALESCE($5, currency),'' @ nl @
     ''        discount = COALESCE($6, discount),'' @ nl @
     ''        discount_type = COALESCE($7, discount_type),'' @ nl @
     ''        fee = COALESCE($8, fee),'' @ nl @
     ''        fee_type = COALESCE($9, fee_type),'' @ nl @
     ''        tax = COALESCE($10, tax),'' @ nl @
     ''        tax_type = COALESCE($11, tax_type),'' @ nl @
     ''        status = COALESCE($12, status),'' @ nl @
     ''        tags = COALESCE($13, tags),'' @ nl @
     ''        notes = COALESCE($14, notes),'' @ nl @
     ''        items = COALESCE($15, items),'' @ nl @
     ''        subtotal = COALESCE($16, subtotal),'' @ nl @
     ''        total = COALESCE($17, total),'' @ nl @
     ''        last_modified_by = $18,'' @ nl @
     ''        updated_at = NOW()'' @ nl @
     ''      WHERE id = $19'' @ nl @
     ''      RETURNING *'' @ nl @
     ''    ''"

definition sql_billing_delete :: string where
  "sql_billing_delete =
     ''DELETE FROM ${schema}.billing WHERE id = $1''"

definition BillingService_getById :: "'w rpc \<Rightarrow> BaseService \<Rightarrow> string \<Rightarrow> (jsval, 'w) io" where
  "BillingService_getById rpc this id' =
     await (lift (requirePermission this ''read'' ''billing'')) (\<lambda>_.
     await (query rpc this sql_billing_by_id [JStr id']) (\<lambda>results.
     if no_rows results
     then throw (Error (''Documento n'' @ [CHR 0xE3] @ ''o encontrado''))
     else lift (at0 results)))"

definition BillingService_create :: "runtime \<Rightarrow> 'w rpc \<Rightarrow> BaseService \<Rightarrow> jsval \<Rightarrow> (jsval, 'w) io" where
  "BillingService_create rt rpc this billingData =
     await (lift (requirePermission this ''write'' ''billing'')) (\<lambda>_.
     await (lift (destructure billingData)) (\<lambda>d.
     let type = d ''type''; discount = d ''discount''; discount_type = d ''discount_type'';
         fee = d ''fee''; fee_type = d ''fee_type''; tax = d ''tax''; tax_type = d ''tax_type'';
         items = d ''items''
     in
     await (lift (reduce_amount rt items)) (\<lambda>subtotal.
     let discountAmount = share rt discount_type subtotal discount;
         feeAmount = share rt fee_type subtotal fee;
         taxAmount = share rt tax_type subtotal tax;
         total' = plus rt (plus rt (minus rt subtotal discountAmount) feeAmount) taxAmount;
         typePrefix = (if type = JStr ''estimate'' then ''EST'' else ''INV'')
     in
     await (query rpc this sql_billing_count_type [type]) (\<lambda>count.
     await (lift (first_or_zero count ''count'')) (\<lambda>n.
     let number = typePrefix @ ''-'' @ padStart 3 (CHR ''0'') (to_string rt (plus rt n (JNum 1))) in
     await (lift (JSON_stringify rt
              (JObj [(''name'', JStr (''Escrit'' @ [CHR 0xF3] @ ''rio Silva & Associados'')),
                     (''email'', JStr ''contato@silva.adv.br'')]))) (\<lambda>sender_details.
     await (lift (JSON_stringify rt
              (JObj [(''name'', JStr ''Cliente Selecionado''),
                     (''email'', JStr ''cliente@email.com'')]))) (\<lambda>receiver_details.
     await (lift (JSON_stringify rt items)) (\<lambda>items_json.
     await (lift (JSON_stringify rt (js_or (d ''tags'') (JArr [])))) (\<lambda>tags_json.
     await (query rpc this sql_billing_insert
              [type, JStr number, d ''title'', d ''description'', d ''date'', d ''due_date'',
               JStr (''Escrit'' @ [CHR 0xF3] @ ''rio Silva & Associados''),
               sender_details,
               JStr ''Cliente Selecionado'',
               receiver_details,
               items_json, subtotal, discount, discount_type,
               fee, fee_type, tax, tax_type, total', d ''currency'', d ''status'',
               tags_json, d ''notes'', JStr (user_name (this_user this)),
               JStr (user_name (this_user this))]) (\<lambda>results.
     await (lift (at0 results)) (\<lambda>document.
     await (lift (get_prop document ''id'')) (\<lambda>document_id.
     await (auditLog rt rpc this ''billing'' ''CREATE'' document_id JNull document) (\<lambda>_.
     await (lift (get_prop document ''number'')) (\<lambda>document_number.
     await (createNotification rt rpc this ''info''
              (''Novo '' @ (if type = JStr ''estimate'' then (''Or'' @ [CHR 0xE7] @ ''amento'') else ''Fatura'') @ '' Criado'')
              (user_name (this_user this) @ '' criou '' @ to_string rt document_number)
              ''billing'' (JStr ''document'') document_id
              (JObj [(''document_id'', document_id), (''page'', JStr ''/cobranca'')])
              JUndefined) (\<lambda>_.
     return document)))))))))))))))"

definition BillingService_update ::
  "runtime \<Rightarrow> 'w rpc \<Rightarrow> BaseService \<Rightarrow> string \<Rightarrow> jsval \<Rightarrow> (jsval, 'w) io"
where
  "BillingService_update rt rpc this id' billingData =
     await (lift (requirePermission this ''write'' ''billing'')) (\<lambda>_.
     await (BillingService_getById rpc this id') (\<lambda>oldDocument.
     await (lift (destructure billingData)) (\<lambda>d.
     let discount = d ''discount''; discount_type = d ''discount_type'';
         fee = d ''fee''; fee_type = d ''fee_type''; tax = d ''tax''; tax_type = d ''tax_type'';
         items = d ''items''
     in
     await (lift (get_prop oldDocument ''subtotal'')) (\<lambda>old_subtotal.
     await (lift (get_prop oldDocument ''total'')) (\<lambda>old_total.
     await (if truthy items
            then await (lift (reduce_amount rt items)) (\<lambda>subtotal.
                 let discountAmount = share rt discount_type subtotal discount;
                     feeAmount = share rt fee_type subtotal fee;
                     taxAmount = share rt tax_type subtotal tax
                 in return (subtotal,
                            plus rt (plus rt (minus rt subtotal discountAmount) feeAmount) taxAmount))
            else return (old_subtotal, old_total)) (\<lambda>(subtotal, total').
     await (lift (JSON_stringify rt (d ''tags''))) (\<lambda>tags_json.
     await (lift (JSON_stringify rt items)) (\<lambda>items_json.
     await (query rpc this sql_billing_update
              [d ''title'', d ''description'', d ''date'', d ''due_date'', d ''currency'', discount,
               discount_type,
               fee, fee_type, tax, tax_type, d ''status'', tags_json, d ''notes'',
               items_json, subtotal, total', JStr (user_name (this_user this)), JStr id']) (\<lambda>results.
     await (lift (at0 results)) (\<lambda>document.
     await (auditLog rt rpc this ''billing'' ''UPDATE'' (JStr id') oldDocument document) (\<lambda>_.
     return document)))))))))))"

definition BillingService_delete :: "runtime \<Rightarrow> 'w rpc \<Rightarrow> BaseService \<Rightarrow> string \<Rightarrow> (unit, 'w) io" where
  "BillingService_delete rt rpc this id' =
     await (lift (requirePermission this ''write'' ''billing'')) (\<lambda>_.
     await (BillingService_getById rpc this id') (\<lambda>document.
     await (query rpc this sql_billing_delete [JStr id']) (\<lambda>_.
     await (auditLog rt rpc this ''billing'' ''DELETE'' (JStr id') document JNull) (\<lambda>_.
     return ()))))"

section \<open>InvoiceService (server/services/InvoiceService.ts)\<close>

text \<open>
  The operations that write, and \<open>getById\<close>, which \<open>update\<close> and \<open>delete\<close> call first.
\<close>

definition sql_invoices_by_id :: string where
  "sql_invoices_by_id =
     '''' @ nl @
     ''      SELECT * FROM ${schema}.invoices WHERE id = $1'' @ nl @
     ''    ''"

definition sql_invoices_insert :: string where
  "sql_invoices_insert =
     '''' @ nl @
     ''      INSERT INTO ${schema}.invoices ('' @ nl @
     ''        client_id, numero_fatura, valor, descricao, servico_prestado,'' @ nl @
     ''        data_emissao, data_vencimento, status, tentativas_cobranca,'' @ nl @
     ''        recorrente, intervalo_dias, proxima_fatura_data, cliente_nome,'' @ nl @
     ''        cliente_email, cliente_telefone, criado_por, criado_em,'' @ nl @
     ''        atualizado_em, observacoes, urgencia'' @ nl @
     ''      ) VALUES ('' @ nl @
     ''        $1, $2, $3, $4, $5, CURRENT_DATE, $6, '' @ sq @ ''nova'' @ sq @ '', 0,'' @ nl @
     ''        $7, $8, $9, $10, $11, $12, $13, NOW(), NOW(), $14, $15'' @ nl @
     ''      ) RETURNING *'' @ nl @
     ''    ''"

definition sql_invoices_update :: string where
  "sql_invoices_update =
     '''' @ nl @
     ''      UPDATE ${schema}.invoices SET'' @ nl @
     ''        cliente_nome = COALESCE($1, cliente_nome),'' @ nl @
     ''        cliente_email = COALESCE($2, cliente_email),'' @ nl @
     ''        cliente_telefone = COALESCE($3, cliente_telefone),'' @ nl @
     ''        numero_fatura = COALESCE($4, numero_fatura),'' @ nl @
     ''        valor = COALESCE($5, valor),'' @ nl @
     ''        descricao = COALESCE($6, descricao),'' @ nl @
     ''        servico_prestado = COALESCE($7, servico_prestado),'' @ nl @
     ''        data_vencimento = COALESCE($8, data_vencimento),'' @ nl @
     ''        observacoes = COALESCE($9, observacoes),'' @ nl @
     ''        urgencia = COALESCE($10, urgencia),'' @ nl @
     ''        status = COALESCE($11, status),'' @ nl @
     ''        data_pagamento = CASE WHEN $11 = '' @ sq @ ''paga'' @ sq @ '' THEN NOW() ELSE data_pagamento END,'' @ nl @
     ''        atualizado_em = NOW()'' @ nl @
     ''      WHERE id = $12'' @ nl @
     ''      RETURNING *'' @ nl @
     ''    ''"

definition sql_invoices_delete :: string where
  "sql_invoices_delete =
     ''DELETE FROM ${schema}.invoices WHERE id = $1''"

definition InvoiceService_getById :: "'w rpc \<Rightarrow> BaseService \<Rightarrow> string \<Rightarrow> (jsval, 'w) io" where
  "InvoiceService_getById rpc this id' =
     await (lift (requirePermission this ''read'' ''receivables'')) (\<lambda>_.
     await (query rpc this sql_invoices_by_id [JStr id']) (\<lambda>results.
     if no_rows results
     then throw (Error (''Fatura n'' @ [CHR 0xE3] @ ''o encontrada''))
     else lift (at0 results)))"

definition InvoiceService_create :: "runtime \<Rightarrow> 'w rpc \<Rightarrow> BaseService \<Rightarrow> jsval \<Rightarrow> (jsval, 'w) io" where
  "InvoiceService_create rt rpc this invoiceData =
     await (lift (requirePermission this ''write'' ''receivables'')) (\<lambda>_.
     await (lift (destructure invoiceData)) (\<lambda>d.
     await (query rpc this sql_invoices_insert
              [JStr (''generated_'' @ to_string rt (Date_now rt)), d ''numero_fatura'', d ''valor'',
               d ''descricao'',
               d ''servico_prestado'', d ''data_vencimento'', js_or (d ''recorrente'') (JBool False),
               js_or (d ''intervalo_dias'') (JNum 30), d ''proxima_fatura_data'', d ''cliente_nome'',
               d ''cliente_email'', d ''cliente_telefone'', JStr (user_name (this_user this)),
               d ''observacoes'',
               js_or (d ''urgencia'') (JStr ''media'')]) (\<lambda>results.
     await (lift (at0 results)) (\<lambda>invoice.
     await (lift (get_prop invoice ''id'')) (\<lambda>invoice_id.
     await (auditLog rt rpc this ''invoices'' ''CREATE'' invoice_id JNull invoice) (\<lambda>_.
     await (lift (get_prop invoice ''numero_fatura'')) (\<lambda>numero_fatura.
     await (createNotification rt rpc this ''warning'' ''Nova Fatura Criada''
              (user_name (this_user this) @ '' criou a fatura '' @ to_string rt numero_fatura)
              ''billing'' (JStr ''invoice'') invoice_id
              (JObj [(''invoice_id'', invoice_id), (''page'', JStr ''/recebiveis'')])
              JUndefined) (\<lambda>_.
     return invoice))))))))"

definition InvoiceService_update ::
  "runtime \<Rightarrow> 'w rpc \<Rightarrow> BaseService \<Rightarrow> string \<Rightarrow> jsval \<Rightarrow> (jsval, 'w) io"
where
  "InvoiceService_update rt rpc this id' invoiceData =
     await (lift (requirePermission this ''write'' ''receivables'')) (\<lambda>_.
     await (InvoiceService_getById rpc this id') (\<lambda>oldInvoice.
     await (lift (destructure invoiceData)) (\<lambda>d.
     await (query rpc this sql_invoices_update
              [d ''cliente_nome'', d ''cliente_email'', d ''cliente_telefone'', d ''numero_fatura'',
               d ''valor'', d ''descricao'', d ''servico_prestado'', d ''data_vencimento'',
               d ''observacoes'',
               d ''urgencia'', d ''status'', JStr id']) (\<lambda>results.
     await (lift (at0 results)) (\<lambda>invoice.
     await (auditLog rt rpc this ''invoices'' ''UPDATE'' (JStr id') oldInvoice invoice) (\<lambda>_.
     return invoice))))))"

definition InvoiceService_delete :: "runtime \<Rightarrow> 'w rpc \<Rightarrow> BaseService \<Rightarrow> string \<Rightarrow> (unit, 'w) io" where
  "InvoiceService_delete rt rpc this id' =
     await (lift (requirePermission this ''write'' ''receivables'')) (\<lambda>_.
     await (InvoiceService_getById rpc this id') (\<lambda>invoice.
     await (query rpc this sql_invoices_delete [JStr id']) (\<lambda>_.
     await (auditLog rt rpc this ''invoices'' ''DELETE'' (JStr id') invoice JNull) (\<lambda>_.
     return ()))))"

section \<open>The admin schema and the libraries of authentication\<close>

text \<open>
  The rows of \<open>admin.users\<close> and \<open>admin.refresh_tokens\<close> (the columns the server reads
  or writes). \<open>tenant_id\<close> has no \<open>NOT NULL\<close> constraint. A null \<open>is_active\<close> behaves as
  \<open>false\<close> wherever the server reads it. Times are milliseconds.
\<close>

record admin_user =
  au_id :: string
  au_tenant_id :: "string option"
  au_email :: string
  au_password_hash :: string
  au_name :: string
  au_account_type :: string
  au_is_active :: bool
  au_last_login :: "nat option"

record refresh_token =
  rt_id :: string
  rt_user_id :: string
  rt_token_hash :: string
  rt_expires_at :: nat
  rt_is_active :: bool

text \<open>
  The world behind \<open>supabaseAdmin\<close>: the two tables, the clock (\<open>Date.now()\<close>), the
  requests that will fail (one flag for each request to come, in order; none fails once
  the list is used up) and a counter from which the random values are drawn.
\<close>

record admin_db =
  users :: "admin_user list"
  refresh_tokens :: "refresh_token list"
  clock :: nat
  faults :: "bool list"
  entropy :: nat

text \<open>
  The libraries, as parameters: \<open>jwt.verify(token, secret)\<close> at a time,
  \<open>jwt.sign(payload, secret, {expiresIn})\<close> (seconds) at a time, \<open>bcrypt.hash\<close> with the
  randomness of its salt, \<open>bcrypt.compare\<close> and PostgreSQL's \<open>gen_random_uuid()\<close>.
\<close>

record auth_env =
  JWT_ACCESS_SECRET :: string
  JWT_REFRESH_SECRET :: string
  jwt_verify :: "string \<Rightarrow> string \<Rightarrow> nat \<Rightarrow> exn + jsval"
  jwt_sign :: "jsval \<Rightarrow> string \<Rightarrow> nat \<Rightarrow> nat \<Rightarrow> string"
  bcrypt_hash :: "string \<Rightarrow> nat \<Rightarrow> string"
  bcrypt_compare :: "string \<Rightarrow> string \<Rightarrow> bool"
  gen_random_uuid :: "nat \<Rightarrow> string"

definition next_fault :: "admin_db \<Rightarrow> bool \<times> admin_db" where
  "next_fault db = (case faults db of [] \<Rightarrow> (False, db) | f # fs \<Rightarrow> (f, db\<lparr>faults := fs\<rparr>))"

text \<open>
  \<open>.from('users').select('*').eq('id', v).single()\<close>: the row, or nothing when the request
  fails or the rows that match are not exactly one (\<open>error\<close> is set, \<open>data\<close> is null).
\<close>

definition users_by_id :: "jsval \<Rightarrow> admin_db \<Rightarrow> admin_user option \<times> admin_db" where
  "users_by_id v db =
     (case next_fault db of (f, db') \<Rightarrow>
        if f then (None, db')
        else (case filter (\<lambda>u. JStr (au_id u) = v) (users db') of
                [u] \<Rightarrow> (Some u, db')
              | _ \<Rightarrow> (None, db')))"

text \<open>\<open>.from('users').select('*').eq('email', email).eq('is_active', true).single()\<close>\<close>

definition users_by_email_active :: "string \<Rightarrow> admin_db \<Rightarrow> admin_user option \<times> admin_db" where
  "users_by_email_active email db =
     (case next_fault db of (f, db') \<Rightarrow>
        if f then (None, db')
        else (case filter (\<lambda>u. au_email u = email \<and> au_is_active u) (users db') of
                [u] \<Rightarrow> (Some u, db')
              | _ \<Rightarrow> (None, db')))"

text \<open>\<open>.from('users').update({ last_login: now }).eq('id', id)\<close>\<close>

definition users_touch_last_login :: "string \<Rightarrow> admin_db \<Rightarrow> admin_db" where
  "users_touch_last_login uid db =
     (case next_fault db of (f, db') \<Rightarrow>
        if f then db'
        else db'\<lparr>users := map (\<lambda>u. if au_id u = uid then u\<lparr>au_last_login := Some (clock db')\<rparr> else u)
                              (users db')\<rparr>)"

text \<open>
  \<open>.from('refresh_tokens').select('*').eq('user_id', v).eq('is_active', true)
  .gt('expires_at', now)\<close>: the rows, or \<open>null\<close> when the request fails.
\<close>

definition refresh_tokens_valid :: "jsval \<Rightarrow> admin_db \<Rightarrow> refresh_token list option \<times> admin_db" where
  "refresh_tokens_valid v db =
     (case next_fault db of (f, db') \<Rightarrow>
        if f then (None, db')
        else (Some (filter (\<lambda>t. JStr (rt_user_id t) = v \<and> rt_is_active t \<and> clock db' < rt_expires_at t)
                      (refresh_tokens db')), db'))"

text \<open>\<open>.from('refresh_tokens').update({ is_active: false }).eq('id', id)\<close>\<close>

definition refresh_tokens_deactivate :: "string \<Rightarrow> admin_db \<Rightarrow> admin_db" where
  "refresh_tokens_deactivate tid db =
     (case next_fault db of (f, db') \<Rightarrow>
        if f then db'
        else db'\<lparr>refresh_tokens :=
                   map (\<lambda>t. if rt_id t = tid then t\<lparr>rt_is_active := False\<rparr> else t) (refresh_tokens db')\<rparr>)"

text \<open>\<open>.from('refresh_tokens').update({ is_active: false }).eq('user_id', v)\<close>\<close>

definition refresh_tokens_deactivate_user :: "jsval \<Rightarrow> admin_db \<Rightarrow> admin_db" where
  "refresh_tokens_deactivate_user v db =
     (case next_fault db of (f, db') \<Rightarrow>
        if f then db'
        else db'\<lparr>refresh_tokens :=
                   map (\<lambda>t. if JStr (rt_user_id t) = v then t\<lparr>rt_is_active := False\<rparr> else t)
                     (refresh_tokens db')\<rparr>)"

text \<open>
  \<open>.from('refresh_tokens').insert({user_id, token_hash, expires_at, is_active: true})\<close>:
  the primary key is drawn by \<open>gen_random_uuid()\<close>; the row is not stored when the request
  fails or the key is taken.
\<close>

definition refresh_tokens_insert ::
  "auth_env \<Rightarrow> string \<Rightarrow> string \<Rightarrow> nat \<Rightarrow> admin_db \<Rightarrow> admin_db"
where
  "refresh_tokens_insert env uid hash expires db =
     (case next_fault db of (f, db') \<Rightarrow>
        let new_id = gen_random_uuid env (entropy db');
            db'' = db'\<lparr>entropy := entropy db' + 1\<rparr>
        in if f \<or> new_id \<in> set (map rt_id (refresh_tokens db'')) then db''
           else db''\<lparr>refresh_tokens := refresh_tokens db'' @
                  [\<lparr> rt_id = new_id, rt_user_id = uid, rt_token_hash = hash,
                     rt_expires_at = expires, rt_is_active = True \<rparr>]\<rparr>)"

section \<open>The middleware of authentication (server/middleware/auth.ts)\<close>

record request =
  req_authorization :: "string option"
  req_query :: jsval
  req_params_id :: string
  req_body :: jsval

record AuthenticatedRequest = request +
  req_user :: AuthenticatedUser
  req_tenantId :: string
  req_tenantSchema :: string

record response =
  status :: nat
  headers :: "(string \<times> string) list"
  body :: jsval

text \<open>\<open>res.status(n).json(v)\<close>; \<open>res.json(v)\<close> is the status 200.\<close>

definition res_json :: "nat \<Rightarrow> jsval \<Rightarrow> response" where
  "res_json n v = \<lparr> status = n, headers = [], body = v \<rparr>"

text \<open>What a middleware does with a request: it answers, or it calls \<open>next()\<close>.\<close>

datatype 'r step = Respond response | Next 'r

text \<open>\<open>s.split(' ')\<close>\<close>

fun split_on :: "char \<Rightarrow> string \<Rightarrow> string list" where
  "split_on sep [] = [[]]"
| "split_on sep (c # cs) =
     (if c = sep then [] # split_on sep cs
      else (case split_on sep cs of [] \<Rightarrow> [[c]] | p # ps \<Rightarrow> (c # p) # ps))"

text \<open>
  \<open>authHeader && authHeader.split(' ')[1]\<close>, when it is truthy: the second of the parts
  between single spaces, when the header is there and this part is there and not empty.
\<close>

definition bearer_token :: "string option \<Rightarrow> string option" where
  "bearer_token authHeader =
     (case authHeader of
        None \<Rightarrow> None
      | Some h \<Rightarrow> (case split_on (CHR '' '') h of
                     a # b # rest \<Rightarrow> (if b = [] then None else Some b)
                   | _ \<Rightarrow> None))"

definition verify :: "auth_env \<Rightarrow> string \<Rightarrow> string \<Rightarrow> (jsval, admin_db) io" where
  "verify env token secret db = (jwt_verify env token secret (clock db), db)"

text \<open>
  The middleware. \<open>user.tenant_id.replace\<close> throws a \<open>TypeError\<close> on a null tenant id,
  inside the \<open>try\<close>. \<open>next()\<close> is the last statement of the \<open>try\<close>; the middlewares and
  handlers that follow throw nothing synchronously.
\<close>

definition authenticateToken :: "auth_env \<Rightarrow> request \<Rightarrow> (AuthenticatedRequest step, admin_db) io" where
  "authenticateToken env req =
     (case bearer_token (req_authorization req) of
        None \<Rightarrow> return (Respond (res_json 401
                  (JObj [(''error'', JStr (''Token de acesso necess'' @ [CHR 0xE1] @ ''rio''))])))
      | Some token \<Rightarrow>
          try_catch
            (await (verify env token (JWT_ACCESS_SECRET env)) (\<lambda>decoded.
             await (lift (get_prop decoded ''userId'')) (\<lambda>userId.
             await (\<lambda>db. case users_by_id userId db of (u, db') \<Rightarrow> (Inr u, db')) (\<lambda>found.
             case found of
               None \<Rightarrow> return (Respond (res_json 401
                         (JObj [(''error'', JStr (''Usu'' @ [CHR 0xE1] @ ''rio inativo ou n'' @ [CHR 0xE3] @
                                                  ''o encontrado''))])))
             | Some user \<Rightarrow>
                 if \<not> au_is_active user
                 then return (Respond (res_json 401
                         (JObj [(''error'', JStr (''Usu'' @ [CHR 0xE1] @ ''rio inativo ou n'' @ [CHR 0xE3] @
                                                  ''o encontrado''))])))
                 else (case au_tenant_id user of
                         None \<Rightarrow> throw TypeError
                       | Some tenant_id \<Rightarrow>
                           return (Next (request.extend req
                             (AuthenticatedRequest.fields
                                \<lparr> user_id = au_id user,
                                  user_tenantId = tenant_id,
                                  user_email = au_email user,
                                  user_name = au_name user,
                                  user_accountType = au_account_type user \<rparr>
                                tenant_id
                                (tenant_schema_name tenant_id)))))))))
            (\<lambda>error.
               if error = TokenExpiredError
               then return (Respond (res_json 401
                      (JObj [(''error'', JStr ''Token expirado''), (''code'', JStr ''TOKEN_EXPIRED'')])))
               else return (Respond (res_json 403
                      (JObj [(''error'', JStr (''Token inv'' @ [CHR 0xE1] @ ''lido''))])))))"

definition requireAccountType :: "string list \<Rightarrow> AuthenticatedRequest \<Rightarrow> AuthenticatedRequest step" where
  "requireAccountType allowedTypes req =
     (let userAccountType = user_accountType (req_user req) in
      if userAccountType \<notin> set allowedTypes
      then Respond (res_json 403
             (JObj [(''error'', JStr ''Acesso negado''),
                    (''required'', JArr (map JStr allowedTypes)),
                    (''current'', JStr userAccountType),
                    (''message'', JStr (''Apenas contas '' @ join '', '' allowedTypes @
                                       '' t'' @ [CHR 0xEA] @ ''m acesso a esta funcionalidade''))]))
      else Next req)"

section \<open>AuthService (server/middleware/auth.ts)\<close>

definition generateTokens :: "auth_env \<Rightarrow> admin_user \<Rightarrow> (string \<times> string, admin_db) io" where
  "generateTokens env user db =
     (let payload = JObj [(''userId'', JStr (au_id user)),
                          (''tenantId'', (case au_tenant_id user of None \<Rightarrow> JNull | Some t \<Rightarrow> JStr t)),
                          (''email'', JStr (au_email user)),
                          (''accountType'', JStr (au_account_type user))];
          accessToken = jwt_sign env payload (JWT_ACCESS_SECRET env) (15 * 60) (clock db);
          refreshToken = jwt_sign env (JObj [(''userId'', JStr (au_id user)), (''type'', JStr ''refresh'')])
                           (JWT_REFRESH_SECRET env) (7 * 24 * 60 * 60) (clock db);
          hashedRefreshToken = bcrypt_hash env refreshToken (entropy db);
          db1 = db\<lparr>entropy := entropy db + 1\<rparr>;
          db2 = refresh_tokens_insert env (au_id user) hashedRefreshToken
                  (clock db1 + 7 * 24 * 60 * 60 * 1000) db1
      in (Inr (accessToken, refreshToken), db2))"

text \<open>\<open>(error as any).userId\<close>: none of the exceptions has such a property.\<close>

definition exn_userId :: "exn \<Rightarrow> jsval" where
  "exn_userId e = JUndefined"

definition refreshAccessToken :: "auth_env \<Rightarrow> string \<Rightarrow> (string \<times> string, admin_db) io" where
  "refreshAccessToken env refreshToken =
     try_catch
       (await (verify env refreshToken (JWT_REFRESH_SECRET env)) (\<lambda>decoded.
        await (lift (get_prop decoded ''userId'')) (\<lambda>userId.
        await (\<lambda>db. case refresh_tokens_valid userId db of (ts, db') \<Rightarrow> (Inr ts, db')) (\<lambda>storedTokens.
        case storedTokens of
          None \<Rightarrow> throw (Error (''Refresh token inv'' @ [CHR 0xE1] @ ''lido''))
        | Some [] \<Rightarrow> throw (Error (''Refresh token inv'' @ [CHR 0xE1] @ ''lido''))
        | Some stored \<Rightarrow>
            (case find (\<lambda>t. bcrypt_compare env refreshToken (rt_token_hash t)) stored of
               None \<Rightarrow> throw (Error (''Refresh token inv'' @ [CHR 0xE1] @ ''lido''))
             | Some validToken \<Rightarrow>
                 await (\<lambda>db. (Inr (), refresh_tokens_deactivate (rt_id validToken) db)) (\<lambda>_.
                 await (\<lambda>db. case users_by_id userId db of (u, db') \<Rightarrow> (Inr u, db')) (\<lambda>found.
                 case found of
                   None \<Rightarrow> throw (Error (''Usu'' @ [CHR 0xE1] @ ''rio inativo''))
                 | Some user \<Rightarrow>
                     if \<not> au_is_active user
                     then throw (Error (''Usu'' @ [CHR 0xE1] @ ''rio inativo''))
                     else generateTokens env user)))))))
       (\<lambda>error.
          await (if truthy (exn_userId error)
                 then (\<lambda>db. (Inr (), refresh_tokens_deactivate_user (exn_userId error) db))
                 else return ()) (\<lambda>_.
          throw (Error (''Refresh token inv'' @ [CHR 0xE1] @ ''lido''))))"

definition login :: "auth_env \<Rightarrow> string \<Rightarrow> string \<Rightarrow> (string \<times> string, admin_db) io" where
  "login env email password =
     await (\<lambda>db. case users_by_email_active email db of (u, db') \<Rightarrow> (Inr u, db')) (\<lambda>found.
     case found of
       None \<Rightarrow> throw (Error ''Email ou senha incorretos'')
     | Some user \<Rightarrow>
         if \<not> bcrypt_compare env password (au_password_hash user)
         then throw (Error ''Email ou senha incorretos'')
         else await (\<lambda>db. (Inr (), users_touch_last_login (au_id user) db)) (\<lambda>_.
              generateTokens env user))"

section \<open>The text of a UUID\<close>

text \<open>
  \<open>tenant_id\<close> is a column of type \<open>UUID\<close>: PostgreSQL hands its value over as 32
  hexadecimal digits in lower case, in groups of 8, 4, 4, 4 and 12 separated by hyphens.
\<close>

definition uuid_hyphens :: "bool list" where
  "uuid_hyphens =
     [False, False, False, False, False, False, False, False, True,
      False, False, False, False, True,
      False, False, False, False, True,
      False, False, False, False, True,
      False, False, False, False, False, False, False, False, False, False, False, False]"

definition is_uuid :: "string \<Rightarrow> bool" where
  "is_uuid s = (map (\<lambda>c. c = CHR ''-'') s = uuid_hyphens \<and> set s \<subseteq> set ''0123456789abcdef-'')"

section \<open>The cash-flow router (server/routes/cashflow.ts)\<close>

text \<open>
  A route is \<open>authenticateToken\<close>, the middlewares after it and the handler. The
  middleware of authentication works on the admin schema, the handler on the schema of
  the tenant.
\<close>

fun run_middlewares :: "('r \<Rightarrow> 'r step) list \<Rightarrow> 'r \<Rightarrow> 'r step" where
  "run_middlewares [] req = Next req"
| "run_middlewares (m # ms) req =
     (case m req of Respond r \<Rightarrow> Respond r | Next req' \<Rightarrow> run_middlewares ms req')"

definition route ::
  "auth_env \<Rightarrow> (AuthenticatedRequest \<Rightarrow> AuthenticatedRequest step) list \<Rightarrow>
   (AuthenticatedRequest \<Rightarrow> (response, 'w) io) \<Rightarrow> request \<Rightarrow> (response, admin_db \<times> 'w) io"
where
  "route env middlewares handler req = (\<lambda>(adb, w).
     case authenticateToken env req adb of
       (Inl e, adb') \<Rightarrow> (Inl e, (adb', w))
     | (Inr (Respond r), adb') \<Rightarrow> (Inr r, (adb', w))
     | (Inr (Next areq), adb') \<Rightarrow>
         (case run_middlewares middlewares areq of
            Respond r \<Rightarrow> (Inr r, (adb', w))
          | Next areq' \<Rightarrow> (case handler areq' w of (r, w') \<Rightarrow> (r, (adb', w')))))"

text \<open>
  The handlers. Each builds the service for the user of the request with
  \<open>new CashFlowService(req.user)\<close>; the constructor is a parameter, so that a property can
  be stated for any behaviour of the service.
\<close>

definition handle_get_root ::
  "(AuthenticatedUser \<Rightarrow> 'w CashFlowService) \<Rightarrow> AuthenticatedRequest \<Rightarrow> (response, 'w) io"
where
  "handle_get_root new_service req =
     try_catch
       (let cashFlowService = new_service (req_user req) in
        await (cf_getAll cashFlowService (req_query req)) (\<lambda>transactions.
        return (res_json 200 transactions)))
       (\<lambda>error. return (res_json 500
          (JObj [(''error'', JStr (''Erro ao buscar transa'' @ [CHR 0xE7] @ [CHR 0xF5] @ ''es''))])))"

definition handle_get_stats ::
  "(AuthenticatedUser \<Rightarrow> 'w CashFlowService) \<Rightarrow> AuthenticatedRequest \<Rightarrow> (response, 'w) io"
where
  "handle_get_stats new_service req =
     try_catch
       (let cashFlowService = new_service (req_user req) in
        await (cf_getFinancialStats cashFlowService) (\<lambda>stats.
        return (res_json 200 stats)))
       (\<lambda>error. return (res_json 500
          (JObj [(''error'', JStr (''Erro ao buscar estat'' @ [CHR 0xED] @ ''sticas financeiras''))])))"

definition handle_get_export ::
  "runtime \<Rightarrow> (AuthenticatedUser \<Rightarrow> 'w CashFlowService) \<Rightarrow> AuthenticatedRequest \<Rightarrow> (response, 'w) io"
where
  "handle_get_export rt new_service req =
     try_catch
       (let cashFlowService = new_service (req_user req) in
        await (cf_exportCSV cashFlowService (req_query req)) (\<lambda>csv.
        return \<lparr> status = 200,
                 headers = [(''Content-Type'', ''text/csv''),
                            (''Content-Disposition'',
                             ''attachment; filename=fluxo_caixa_'' @ today rt @ ''.csv'')],
                 body = JStr csv \<rparr>))
       (\<lambda>error. return (res_json 500
          (JObj [(''error'', JStr (''Erro ao exportar relat'' @ [CHR 0xF3] @ ''rio''))])))"

definition handle_get_id ::
  "(AuthenticatedUser \<Rightarrow> 'w CashFlowService) \<Rightarrow> AuthenticatedRequest \<Rightarrow> (response, 'w) io"
where
  "handle_get_id new_service req =
     try_catch
       (let cashFlowService = new_service (req_user req) in
        await (cf_getById cashFlowService (req_params_id req)) (\<lambda>transaction.
        return (res_json 200 transaction)))
       (\<lambda>error. return (res_json 404
          (JObj [(''error'', JStr (''Transa'' @ [CHR 0xE7] @ [CHR 0xE3] @ ''o n'' @ [CHR 0xE3] @
                                   ''o encontrada''))])))"

definition handle_post ::
  "(AuthenticatedUser \<Rightarrow> 'w CashFlowService) \<Rightarrow> AuthenticatedRequest \<Rightarrow> (response, 'w) io"
where
  "handle_post new_service req =
     try_catch
       (let cashFlowService = new_service (req_user req) in
        await (cf_create cashFlowService (req_body req)) (\<lambda>transaction.
        return (res_json 201
          (JObj [(''message'', JStr (''Transa'' @ [CHR 0xE7] @ [CHR 0xE3] @ ''o criada com sucesso'')),
                 (''transaction'', transaction)]))))
       (\<lambda>error. return (res_json 400
          (JObj [(''error'', JStr (''Erro ao criar transa'' @ [CHR 0xE7] @ [CHR 0xE3] @ ''o''))])))"

definition handle_put ::
  "(AuthenticatedUser \<Rightarrow> 'w CashFlowService) \<Rightarrow> AuthenticatedRequest \<Rightarrow> (response, 'w) io"
where
  "handle_put new_service req =
     try_catch
       (let cashFlowService = new_service (req_user req) in
        await (cf_update cashFlowService (req_params_id req) (req_body req)) (\<lambda>transaction.
        return (res_json 200
          (JObj [(''message'', JStr (''Transa'' @ [CHR 0xE7] @ [CHR 0xE3] @ ''o atualizada com sucesso'')),
                 (''transaction'', transaction)]))))
       (\<lambda>error. return (res_json 400
          (JObj [(''error'', JStr (''Erro ao atualizar transa'' @ [CHR 0xE7] @ [CHR 0xE3] @ ''o''))])))"

definition handle_delete ::
  "(AuthenticatedUser \<Rightarrow> 'w CashFlowService) \<Rightarrow> AuthenticatedRequest \<Rightarrow> (response, 'w) io"
where
  "handle_delete new_service req =
     try_catch
       (let cashFlowService = new_service (req_user req) in
        await (cf_delete cashFlowService (req_params_id req)) (\<lambda>_.
        return (res_json 200
          (JObj [(''message'', JStr (''Transa'' @ [CHR 0xE7] @ [CHR 0xE3] @ ''o exclu'' @ [CHR 0xED] @
                                     ''da com sucesso''))]))))
       (\<lambda>error. return (res_json 400
          (JObj [(''error'', JStr (''Erro ao excluir transa'' @ [CHR 0xE7] @ [CHR 0xE3] @ ''o''))])))"

text \<open>The seven routes, with the middlewares each one names.\<close>

definition GET_root ::
  "auth_env \<Rightarrow> (AuthenticatedUser \<Rightarrow> 'w CashFlowService) \<Rightarrow> request \<Rightarrow> (response, admin_db \<times> 'w) io"
where
  "GET_root env new_service =
     route env [requireAccountType [''composta'', ''gerencial'']] (handle_get_root new_service)"

definition GET_stats ::
  "auth_env \<Rightarrow> (AuthenticatedUser \<Rightarrow> 'w CashFlowService) \<Rightarrow> request \<Rightarrow> (response, admin_db \<times> 'w) io"
where
  "GET_stats env new_service = route env [] (handle_get_stats new_service)"

definition GET_export ::
  "auth_env \<Rightarrow> runtime \<Rightarrow> (AuthenticatedUser \<Rightarrow> 'w CashFlowService) \<Rightarrow> request \<Rightarrow>
   (response, admin_db \<times> 'w) io"
where
  "GET_export env rt new_service =
     route env [requireAccountType [''composta'', ''gerencial'']] (handle_get_export rt new_service)"

definition GET_id ::
  "auth_env \<Rightarrow> (AuthenticatedUser \<Rightarrow> 'w CashFlowService) \<Rightarrow> request \<Rightarrow> (response, admin_db \<times> 'w) io"
where
  "GET_id env new_service =
     route env [requireAccountType [''composta'', ''gerencial'']] (handle_get_id new_service)"

definition POST_root ::
  "auth_env \<Rightarrow> (AuthenticatedUser \<Rightarrow> 'w CashFlowService) \<Rightarrow> request \<Rightarrow> (response, admin_db \<times> 'w) io"
where
  "POST_root env new_service =
     route env [requireAccountType [''composta'', ''gerencial'']] (handle_post new_service)"

definition PUT_id ::
  "auth_env \<Rightarrow> (AuthenticatedUser \<Rightarrow> 'w CashFlowService) \<Rightarrow> request \<Rightarrow> (response, admin_db \<times> 'w) io"
where
  "PUT_id env new_service =
     route env [requireAccountType [''composta'', ''gerencial'']] (handle_put new_service)"

definition DELETE_id ::
  "auth_env \<Rightarrow> (AuthenticatedUser \<Rightarrow> 'w CashFlowService) \<Rightarrow> request \<Rightarrow> (response, admin_db \<times> 'w) io"
where
  "DELETE_id env new_service =
     route env [requireAccountType [''composta'', ''gerencial'']] (handle_delete new_service)"

section \<open>The other routers of the server (server/routes, server/index.ts)\<close>









subsection \<open>The router of auth (server/routes/auth.ts)\<close>





subsection \<open>The router of dashboard (server/routes/dashboard.ts, in unnamed/part_006)\<close>


subsection \<open>The router of clients (server/routes/clients.ts)\<close>







subsection \<open>The router of projects (server/routes/projects.ts)\<close>







subsection \<open>The router of tasks (server/routes/tasks.ts)\<close>







subsection \<open>The router of billing (server/routes/billing.ts, the second router of server/routes/projects.ts)\<close>







subsection \<open>The router of invoices (server/routes/invoices.ts)\<close>








subsection \<open>The router of publications (server/routes/publications.ts, the third router of server/routes/projects.ts)\<close>







subsection \<open>The router of notifications (server/routes/notifications.ts)\<close>






section \<open>A PostgreSQL double for the schema of one tenant\<close>

text \<open>
  The tables \<open>publications\<close>, \<open>audit_log\<close> and \<open>notifications\<close> of one tenant, each a list
  of rows; a row maps its columns to values. Times are numbers; \<open>t_now\<close> is \<open>NOW()\<close>. As in
  the admin schema, \<open>t_faults\<close> has one flag for each call to come (a call that fails
  changes nothing), and the keys of new rows are drawn from \<open>t_entropy\<close>.
\<close>

type_synonym row = "(string \<times> jsval) list"

record tenant_db =
  publications :: "row list"
  audit_log :: "row list"
  notifications :: "row list"
  t_now :: nat
  t_faults :: "bool list"
  t_entropy :: nat

type_synonym statement = "jsval list \<Rightarrow> tenant_db \<Rightarrow> (exn + jsval) \<times> tenant_db"

definition col :: "row \<Rightarrow> string \<Rightarrow> jsval" where
  "col r k = own_prop r k"

fun set_col :: "string \<Rightarrow> jsval \<Rightarrow> row \<Rightarrow> row" where
  "set_col k v [] = [(k, v)]"
| "set_col k v ((k', v') # r) = (if k' = k then (k, v) # r else (k', v') # set_col k v r)"

text \<open>A parameter that is \<open>undefined\<close> reaches the database as \<open>null\<close>.\<close>

definition sql_null :: "jsval \<Rightarrow> bool" where
  "sql_null v = (v = JNull \<or> v = JUndefined)"

definition to_sql :: "jsval \<Rightarrow> jsval" where
  "to_sql v = (if v = JUndefined then JNull else v)"

text \<open>\<open>a = b\<close> in a \<open>WHERE\<close> clause: never true of a null.\<close>

definition sql_eq :: "jsval \<Rightarrow> jsval \<Rightarrow> bool" where
  "sql_eq a b = (\<not> sql_null a \<and> \<not> sql_null b \<and> a = b)"

definition rows_result :: "row list \<Rightarrow> jsval" where
  "rows_result rows = JArr (map JObj rows)"

definition bad_parameters :: "tenant_db \<Rightarrow> (exn + jsval) \<times> tenant_db" where
  "bad_parameters db = (Inl (PostgrestError ''wrong number of parameters''), db)"

text \<open>\<open>ORDER BY data_publicacao DESC, created_at DESC\<close>\<close>

definition time_of :: "jsval \<Rightarrow> int" where
  "time_of v = (case v of JNum n \<Rightarrow> n | _ \<Rightarrow> 0)"

definition order_publications :: "row list \<Rightarrow> row list" where
  "order_publications rows =
     sort_key (\<lambda>r. - time_of (col r ''data_publicacao''))
       (sort_key (\<lambda>r. - time_of (col r ''created_at'')) rows)"

definition select_publications :: "(row \<Rightarrow> bool) \<Rightarrow> tenant_db \<Rightarrow> (exn + jsval) \<times> tenant_db" where
  "select_publications P db =
     (Inr (rows_result (order_publications (filter P (publications db)))), db)"

text \<open>\<open>SELECT * FROM publications WHERE user_id = $1\<close>, with the filters of \<open>getAll\<close>.\<close>

definition st_all :: statement where
  "st_all ps db =
     (case ps of
        [u] \<Rightarrow> select_publications (\<lambda>r. sql_eq (col r ''user_id'') u) db
      | _ \<Rightarrow> bad_parameters db)"

definition st_all_search :: "(jsval \<Rightarrow> jsval \<Rightarrow> bool) \<Rightarrow> statement" where
  "st_all_search ilike ps db =
     (case ps of
        [u, pat] \<Rightarrow> select_publications (\<lambda>r. sql_eq (col r ''user_id'') u \<and>
                       (ilike (col r ''processo'') pat \<or> ilike (col r ''nome_pesquisado'') pat)) db
      | _ \<Rightarrow> bad_parameters db)"

definition st_all_status :: statement where
  "st_all_status ps db =
     (case ps of
        [u, s] \<Rightarrow> select_publications (\<lambda>r. sql_eq (col r ''user_id'') u \<and> sql_eq (col r ''status'') s) db
      | _ \<Rightarrow> bad_parameters db)"

definition st_all_search_status :: "(jsval \<Rightarrow> jsval \<Rightarrow> bool) \<Rightarrow> statement" where
  "st_all_search_status ilike ps db =
     (case ps of
        [u, pat, s] \<Rightarrow> select_publications (\<lambda>r. sql_eq (col r ''user_id'') u \<and>
                       (ilike (col r ''processo'') pat \<or> ilike (col r ''nome_pesquisado'') pat) \<and>
                       sql_eq (col r ''status'') s) db
      | _ \<Rightarrow> bad_parameters db)"

text \<open>\<open>WHERE id = $i AND user_id = $u\<close>\<close>

definition hit :: "jsval \<Rightarrow> jsval \<Rightarrow> row \<Rightarrow> bool" where
  "hit i u r = (sql_eq (col r ''id'') i \<and> sql_eq (col r ''user_id'') u)"

definition st_by_id :: statement where
  "st_by_id ps db =
     (case ps of
        [i, u] \<Rightarrow> (Inr (rows_result (filter (hit i u) (publications db))), db)
      | _ \<Rightarrow> bad_parameters db)"

text \<open>The \<open>CHECK\<close> constraint of the column \<open>status\<close>; a null passes it.\<close>

definition status_ok :: "jsval \<Rightarrow> bool" where
  "status_ok v =
     (sql_null v \<or>
      v \<in> set (map JStr [''nova'', ''pendente'', ''atribuida'', ''finalizada'', ''descartada'']))"

text \<open>\<open>UPDATE publications SET ... WHERE id = $i AND user_id = $u RETURNING *\<close>\<close>

definition update_publications ::
  "jsval \<Rightarrow> jsval \<Rightarrow> (row \<Rightarrow> row) \<Rightarrow> tenant_db \<Rightarrow> (exn + jsval) \<times> tenant_db"
where
  "update_publications i u change db =
     (if \<exists>r\<in>set (publications db). hit i u r \<and> \<not> status_ok (col (change r) ''status'')
      then (Inl (PostgrestError ''publications_status_check''), db)
      else (Inr (rows_result (map change (filter (hit i u) (publications db)))),
            db\<lparr>publications := map (\<lambda>r. if hit i u r then change r else r) (publications db)\<rparr>))"

definition st_status :: statement where
  "st_status ps db =
     (case ps of
        [s, obs, i, u] \<Rightarrow>
          update_publications i u
            (\<lambda>r. set_col ''updated_at'' (JNum (int (t_now db)))
                   (set_col ''observacoes'' (if sql_null obs then col r ''observacoes'' else obs)
                     (set_col ''status'' (to_sql s) r))) db
      | _ \<Rightarrow> bad_parameters db)"

definition st_assign :: statement where
  "st_assign ps db =
     (case ps of
        [responsavel, assigned_id, assigned_name, i, u] \<Rightarrow>
          update_publications i u
            (\<lambda>r. set_col ''updated_at'' (JNum (int (t_now db)))
                   (set_col ''data_atribuicao'' (JNum (int (t_now db)))
                     (set_col ''atribuido_para_nome'' (to_sql assigned_name)
                       (set_col ''atribuido_para_id'' (to_sql assigned_id)
                         (set_col ''responsavel'' (to_sql responsavel)
                           (set_col ''status'' (JStr ''atribuida'') r)))))) db
      | _ \<Rightarrow> bad_parameters db)"

definition st_delete :: statement where
  "st_delete ps db =
     (case ps of
        [i, u] \<Rightarrow> (Inr JNull, db\<lparr>publications := filter (\<lambda>r. \<not> hit i u r) (publications db)\<rparr>)
      | _ \<Rightarrow> bad_parameters db)"

text \<open>\<open>SELECT COUNT(*) as count FROM publications WHERE user_id = $1 [AND status = '...']\<close>\<close>

definition count_result :: "nat \<Rightarrow> jsval" where
  "count_result n = JArr [JObj [(''count'', JNum (int n))]]"

definition st_count :: statement where
  "st_count ps db =
     (case ps of
        [u] \<Rightarrow> (Inr (count_result (length (filter (\<lambda>r. sql_eq (col r ''user_id'') u) (publications db)))), db)
      | _ \<Rightarrow> bad_parameters db)"

definition st_count_status :: "string \<Rightarrow> statement" where
  "st_count_status s ps db =
     (case ps of
        [u] \<Rightarrow> (Inr (count_result (length (filter
                 (\<lambda>r. sql_eq (col r ''user_id'') u \<and> sql_eq (col r ''status'') (JStr s))
                 (publications db)))), db)
      | _ \<Rightarrow> bad_parameters db)"

text \<open>
  The two \<open>INSERT\<close>s of \<open>BaseService\<close>, with the \<open>NOT NULL\<close> and \<open>CHECK\<close> constraints of
  the tables.
\<close>

definition st_audit_log :: statement where
  "st_audit_log ps db =
     (case ps of
        [uid, table_name, record_id, operation, old_data, new_data] \<Rightarrow>
          if sql_null table_name \<or>
             operation \<notin> set (map JStr [''CREATE'', ''UPDATE'', ''DELETE''])
          then (Inl (PostgrestError ''audit_log constraint''), db)
          else (Inr JNull,
                db\<lparr>audit_log := audit_log db @
                      [[(''id'', JStr (''audit-'' @ decimal (t_entropy db))),
                        (''user_id'', to_sql uid), (''table_name'', table_name),
                        (''record_id'', to_sql record_id), (''operation'', operation),
                        (''old_data'', to_sql old_data), (''new_data'', to_sql new_data),
                        (''created_at'', JNum (int (t_now db)))]],
                   t_entropy := t_entropy db + 1\<rparr>)
      | _ \<Rightarrow> bad_parameters db)"

definition st_notifications :: statement where
  "st_notifications ps db =
     (case ps of
        [type, title, message, category, entity_type, entity_id, action_data, uid, created_by] \<Rightarrow>
          if sql_null type \<or> sql_null title \<or> sql_null message \<or> sql_null category
          then (Inl (PostgrestError ''notifications constraint''), db)
          else (Inr JNull,
                db\<lparr>notifications := notifications db @
                      [[(''id'', JStr (''notification-'' @ decimal (t_entropy db))),
                        (''type'', type), (''title'', title), (''message'', message),
                        (''category'', category), (''entity_type'', to_sql entity_type),
                        (''entity_id'', to_sql entity_id), (''action_data'', to_sql action_data),
                        (''user_id'', to_sql uid), (''read'', JBool False),
                        (''created_by'', to_sql created_by),
                        (''created_at'', JNum (int (t_now db))),
                        (''updated_at'', JNum (int (t_now db)))]],
                   t_entropy := t_entropy db + 1\<rparr>)
      | _ \<Rightarrow> bad_parameters db)"

text \<open>
  The statements the double understands, by their text before the schema is put in: those
  of \<open>PublicationService\<close> (the \<open>INSERT\<close> into \<open>publications\<close> apart; the four texts
  that \<open>getAll\<close> can build) and of \<open>BaseService\<close>.
\<close>

definition sql_all_plain :: string where
  "sql_all_plain = sql_publications_all @ '' ORDER BY data_publicacao DESC, created_at DESC''"

definition sql_all_search :: string where
  "sql_all_search =
     sql_publications_all @ '' AND (processo ILIKE $2 OR nome_pesquisado ILIKE $2)'' @
     '' ORDER BY data_publicacao DESC, created_at DESC''"

definition sql_all_status :: string where
  "sql_all_status =
     sql_publications_all @ '' AND status = $2'' @
     '' ORDER BY data_publicacao DESC, created_at DESC''"

definition sql_all_search_status :: string where
  "sql_all_search_status =
     sql_publications_all @ '' AND (processo ILIKE $2 OR nome_pesquisado ILIKE $2)'' @
     '' AND status = $3'' @ '' ORDER BY data_publicacao DESC, created_at DESC''"

definition pg_statements :: "(jsval \<Rightarrow> jsval \<Rightarrow> bool) \<Rightarrow> (string \<times> statement) list" where
  "pg_statements ilike =
     [(sql_all_plain, st_all),
      (sql_all_search, st_all_search ilike),
      (sql_all_status, st_all_status),
      (sql_all_search_status, st_all_search_status ilike),
      (sql_publications_by_id, st_by_id),
      (sql_publications_status, st_status),
      (sql_publications_assign, st_assign),
      (sql_publications_delete, st_delete),
      (sql_publications_count, st_count),
      (sql_publications_count_status ''nova'', st_count_status ''nova''),
      (sql_publications_count_status ''pendente'', st_count_status ''pendente''),
      (sql_publications_count_status ''atribuida'', st_count_status ''atribuida''),
      (sql_publications_count_status ''finalizada'', st_count_status ''finalizada''),
      (sql_publications_count_status ''descartada'', st_count_status ''descartada''),
      (sql_audit_log, st_audit_log),
      (sql_notifications, st_notifications)]"

text \<open>
  \<open>exec_sql\<close> on the schema \<open>schema\<close>: a statement is understood when its text is the text
  of a known statement with \<open>schema\<close> in the place of the placeholder.
\<close>

definition pg_run :: "string \<Rightarrow> (jsval \<Rightarrow> jsval \<Rightarrow> bool) \<Rightarrow> tenant_db rpc" where
  "pg_run schema ilike fn q ps db =
     (if fn \<noteq> ''exec_sql'' then (Inl (PostgrestError ''no such function''), db)
      else (case map_of (map (\<lambda>(template, st). (replace_schema template schema, st))
                           (pg_statements ilike)) q of
              None \<Rightarrow> (Inl (PostgrestError ''statement not understood''), db)
            | Some st \<Rightarrow> st ps db))"

text \<open>Whether the next call fails, and the database once the call has been taken.\<close>

definition fails_next :: "tenant_db \<Rightarrow> bool" where
  "fails_next db = (case t_faults db of [] \<Rightarrow> False | f # fs \<Rightarrow> f)"

definition taken :: "tenant_db \<Rightarrow> tenant_db" where
  "taken db = db\<lparr>t_faults := tl (t_faults db)\<rparr>"

definition pg_exec :: "string \<Rightarrow> (jsval \<Rightarrow> jsval \<Rightarrow> bool) \<Rightarrow> tenant_db rpc" where
  "pg_exec schema ilike fn q ps db =
     (if fails_next db then (Inl (PostgrestError ''connection failure''), taken db)
      else pg_run schema ilike fn q ps (taken db))"

text \<open>The rows of a user, and the rows of everybody else, in the order of the table.\<close>

definition owned :: "string \<Rightarrow> row \<Rightarrow> bool" where
  "owned uid r = (col r ''user_id'' = JStr uid)"

definition others :: "string \<Rightarrow> tenant_db \<Rightarrow> row list" where
  "others uid db = filter (\<lambda>r. \<not> owned uid r) (publications db)"

text \<open>
  What a user can tell of the database: the rows of the user, the time, and which of the
  calls to come fail.
\<close>

definition own_view :: "string \<Rightarrow> tenant_db \<Rightarrow> row list \<times> nat \<times> bool list" where
  "own_view uid db = (filter (owned uid) (publications db), t_now db, t_faults db)"

text \<open>A computation keeps a view of the world when no run of it changes the view.\<close>

definition keeps :: "('w \<Rightarrow> 'v) \<Rightarrow> ('a, 'w) io \<Rightarrow> bool" where
  "keeps view m = (\<forall>w. view (snd (m w)) = view w)"

text \<open>A database on which the statements of the given texts fail, and change nothing.\<close>

definition failing_on :: "string set \<Rightarrow> 'w rpc \<Rightarrow> 'w rpc" where
  "failing_on texts rpc fn q ps w =
     (if q \<in> texts then (Inl (PostgrestError ''statement failed''), w) else rpc fn q ps w)"

text \<open>The texts of the two \<open>INSERT\<close>s of \<open>BaseService\<close>, as a service sends them.\<close>

definition bookkeeping :: "BaseService \<Rightarrow> string set" where
  "bookkeeping this =
     {replace_schema sql_audit_log (this_tenantSchema this),
      replace_schema sql_notifications (this_tenantSchema this)}"

text \<open>Two runs have the same outcome: the same result, and the same view of the world after.\<close>

definition same_outcome :: "('w \<Rightarrow> 'v) \<Rightarrow> (exn + 'a) \<times> 'w \<Rightarrow> (exn + 'a) \<times> 'w \<Rightarrow> bool" where
  "same_outcome view x y = (fst x = fst y \<and> view (snd x) = view (snd y))"

text \<open>Two computations agree: from worlds with the same view they have the same outcome.\<close>

definition agree :: "('w \<Rightarrow> 'v) \<Rightarrow> ('a, 'w) io \<Rightarrow> ('a, 'w) io \<Rightarrow> bool" where
  "agree view m1 m2 =
     (\<forall>w1 w2. view w1 = view w2 \<longrightarrow> same_outcome view (m1 w1) (m2 w2))"

text \<open>
  A database double that answers one row to every call and records the calls it
  receives in two lists: those of the given texts in the second, all others in the first.
\<close>

definition ledger_rpc ::
  "string set \<Rightarrow> ((string \<times> jsval list) list \<times> (string \<times> jsval list) list) rpc"
where
  "ledger_rpc texts fn q ps w =
     (if q \<in> texts then (Inr (JArr [JObj [(''id'', JStr ''p1'')]]), (fst w, snd w @ [(q, ps)]))
      else (Inr (JArr [JObj [(''id'', JStr ''p1'')]]), (fst w @ [(q, ps)], snd w)))"

section \<open>Doubles of the libraries and sample data\<close>

text \<open>
  Simple stand-ins for the runtime and for the libraries, to run the model on concrete
  requests. A token of the double is the secret, the user id and the second at which it
  expires, separated by full stops; as with jsonwebtoken, the same payload signed twice
  within one second gives the same token. A hash of the double is the salt, a dollar sign
  and the data; the comparison of the double reads the whole data, where bcryptjs reads
  its first 72 bytes only, so the double accepts no more than the library does. The
  arithmetic of the double is on integers: \<open>percent\<close> rounds the exact quotient and
  \<open>divide\<close> truncates, where the code computes on floating-point numbers. The theorems
  hold for every runtime and every library; the doubles serve the examples only.
\<close>

definition test_rt :: runtime where
  "test_rt =
     \<lparr> ToString = (\<lambda>v. case v of JNum n \<Rightarrow> decimal (nat n) | _ \<Rightarrow> ''''),
       JSON_stringify = (\<lambda>v. Inr (JStr ''[]'')),
       minus = (\<lambda>a b. case (a, b) of (JNum x, JNum y) \<Rightarrow> JNum (x - y) | _ \<Rightarrow> JNull),
       toLocaleDateString = (\<lambda>v. ''01/01/2025''),
       toFixed2 = (\<lambda>v. case v of JNum n \<Rightarrow> Inr (decimal (nat n) @ ''.00'') | _ \<Rightarrow> Inl TypeError),
       greater0 = (\<lambda>v. case v of JNum n \<Rightarrow> 0 < n | _ \<Rightarrow> False),
       percent = (\<lambda>a b. case (a, b) of (JNum x, JNum y) \<Rightarrow> JNum ((200 * x + y) div (2 * y)) | _ \<Rightarrow> JNull),
       today = ''2025-01-01'',
       plus = (\<lambda>a b. case (a, b) of (JNum x, JNum y) \<Rightarrow> JNum (x + y) | _ \<Rightarrow> JNull),
       times = (\<lambda>a b. case (a, b) of (JNum x, JNum y) \<Rightarrow> JNum (x * y) | _ \<Rightarrow> JNull),
       divide = (\<lambda>a b. case (a, b) of (JNum x, JNum y) \<Rightarrow> JNum (x div y) | _ \<Rightarrow> JNull),
       Date_now = JNum 1735689600000 \<rparr>"

definition parse_nat :: "string \<Rightarrow> nat" where
  "parse_nat s = foldl (\<lambda>n c. 10 * n + (of_char c - 48)) 0 s"

definition test_env :: auth_env where
  "test_env =
     \<lparr> JWT_ACCESS_SECRET = ''access'',
       JWT_REFRESH_SECRET = ''refresh'',
       jwt_verify = (\<lambda>token secret now.
         case split_on (CHR ''.'') token of
           [s, u, e] \<Rightarrow>
             if s \<noteq> secret then Inl JsonWebTokenError
             else if parse_nat e \<le> now div 1000 then Inl TokenExpiredError
             else Inr (JObj [(''userId'', JStr u)])
         | _ \<Rightarrow> Inl JsonWebTokenError),
       jwt_sign = (\<lambda>payload secret expiresIn now.
         secret @ ''.'' @ to_string test_rt (opt_prop payload ''userId'') @ ''.'' @
         decimal (now div 1000 + expiresIn)),
       bcrypt_hash = (\<lambda>data salt. decimal salt @ ''$'' @ data),
       bcrypt_compare = (\<lambda>data hash.
         case split_on (CHR ''$'') hash of [s, d] \<Rightarrow> d = data | _ \<Rightarrow> False),
       gen_random_uuid = (\<lambda>n. ''id-'' @ decimal n) \<rparr>"

definition ana :: admin_user where
  "ana = \<lparr> au_id = ''ana'', au_tenant_id = Some ''123e4567-e89b-12d3-a456-426614174000'',
           au_email = ''ana@example.com'', au_password_hash = ''7$pw-ana'', au_name = ''Ana'',
           au_account_type = ''simples'', au_is_active = True, au_last_login = None \<rparr>"

definition bia :: admin_user where
  "bia = \<lparr> au_id = ''bia'', au_tenant_id = Some ''123e4567-e89b-12d3-a456-426614174000'',
           au_email = ''bia@example.com'', au_password_hash = ''8$pw-bia'', au_name = ''Bia'',
           au_account_type = ''composta'', au_is_active = True, au_last_login = None \<rparr>"

definition test_db :: admin_db where
  "test_db = \<lparr> users = [ana, bia], refresh_tokens = [], clock = 5000, faults = [], entropy = 0 \<rparr>"

definition request_of :: "string \<Rightarrow> request" where
  "request_of token =
     \<lparr> req_authorization = Some (''Bearer '' @ token), req_query = JObj [],
       req_params_id = ''t1'', req_body = JObj [] \<rparr>"

definition user_of :: "admin_user \<Rightarrow> AuthenticatedUser" where
  "user_of u =
     \<lparr> user_id = au_id u, user_tenantId = (case au_tenant_id u of None \<Rightarrow> '''' | Some t \<Rightarrow> t), user_email = au_email u,
       user_name = au_name u, user_accountType = au_account_type u \<rparr>"

text \<open>The request as \<open>authenticateToken\<close> passes it on for a user.\<close>

definition authenticated :: "request \<Rightarrow> admin_user \<Rightarrow> AuthenticatedRequest" where
  "authenticated req u =
     request.extend req
       (AuthenticatedRequest.fields (user_of u) (user_tenantId (user_of u))
          (tenant_schema_name (user_tenantId (user_of u))))"

text \<open>The admin schema after Bia has logged in twice within one second.\<close>

definition two_logins :: admin_db where
  "two_logins =
     snd (login test_env ''bia@example.com'' ''pw-bia''
       (snd (login test_env ''bia@example.com'' ''pw-bia'' test_db)))"

text \<open>
  The schema of the tenant of Ana and Bia: one publication of each, and a second
  database that differs from it by a further publication of Ana.
\<close>

definition publication_of :: "string \<Rightarrow> string \<Rightarrow> string \<Rightarrow> row" where
  "publication_of i uid processo =
     [(''id'', JStr i), (''user_id'', JStr uid), (''data_publicacao'', JNum 10),
      (''processo'', JStr processo), (''status'', JStr ''nova''), (''created_at'', JNum 10)]"

definition office :: tenant_db where
  "office =
     \<lparr> publications = [publication_of ''pub-1'' ''ana'' ''0001'', publication_of ''pub-2'' ''bia'' ''0002''],
       audit_log = [], notifications = [], t_now = 100, t_faults = [], t_entropy = 0 \<rparr>"

definition office' :: tenant_db where
  "office' =
     office\<lparr>publications := publication_of ''pub-3'' ''ana'' ''0003'' # publications office\<rparr>"

section \<open>Services that are down\<close>












section \<open>Properties of the schema substitution\<close>

lemma GetSubstitution_plain:
  "CHR ''$'' \<notin> set rep \<Longrightarrow> GetSubstitution matched pre post rep = rep"
  by (induction matched pre post rep rule: GetSubstitution.induct) auto

lemma pieces_not_Nil: "pieces s \<noteq> []"
  by (induction s rule: pieces.induct) (auto split: list.splits)

lemma join_Cons: "ps \<noteq> [] \<Longrightarrow> join sep (p # ps) = p @ sep @ join sep ps"
  by (cases ps) auto

lemma join_Cons_char: "ps \<noteq> [] \<Longrightarrow> join sep ((c # p) # tl ps) = c # join sep (p # tl ps)"
  by (cases "tl ps") auto

lemma replace_from_pieces:
  "CHR ''$'' \<notin> set rep \<Longrightarrow> replace_from rep pre s = join rep (pieces s)"
proof (induction rep pre s rule: replace_from.induct)
  case (1 rep pre)
  then show ?case by simp
next
  case (2 rep pre c cs)
  show ?case
  proof (cases "take (length placeholder) (c # cs) = placeholder")
    case True
    with 2 show ?thesis
      by (simp add: GetSubstitution_plain join_Cons pieces_not_Nil)
  next
    case False
    obtain p ps where pp: "pieces cs = p # ps"
      using pieces_not_Nil [of cs] by (cases "pieces cs") auto
    with False 2 show ?thesis
      by (cases ps) auto
  qed
qed

lemma join_pieces: "join placeholder (pieces s) = s"
proof (induction s rule: pieces.induct)
  case 1
  then show ?case by simp
next
  case (2 c cs)
  show ?case
  proof (cases "take (length placeholder) (c # cs) = placeholder")
    case True
    have "placeholder @ drop (length placeholder) (c # cs) = c # cs"
      using True append_take_drop_id [of "length placeholder" "c # cs"] by simp
    with True 2 show ?thesis
      by (simp add: join_Cons pieces_not_Nil)
  next
    case False
    obtain p ps where pp: "pieces cs = p # ps"
      using pieces_not_Nil [of cs] by (cases "pieces cs") auto
    with False 2 show ?thesis
      by (cases ps) auto
  qed
qed

lemma prefix_join: "prefix p (join sep (p # ps))"
  by (cases ps) auto

lemma pieces_free: "p \<in> set (pieces s) \<Longrightarrow> \<not> sublist placeholder p"
proof (induction s arbitrary: p rule: pieces.induct)
  case 1
  then show ?case by (simp add: placeholder_def)
next
  case (2 c cs)
  show ?case
  proof (cases "take (length placeholder) (c # cs) = placeholder")
    case True
    with 2 show ?thesis by (auto simp: placeholder_def)
  next
    case False
    obtain q qs where pp: "pieces cs = q # qs"
      using pieces_not_Nil [of cs] by (cases "pieces cs") auto
    have q: "\<not> sublist placeholder q"
      using 2(2) [OF False, of q] pp by simp
    have "\<not> prefix placeholder (c # q)"
    proof
      assume "prefix placeholder (c # q)"
      moreover have "prefix (c # q) (c # cs)"
        using prefix_join [of q placeholder qs] join_pieces [of cs] pp by simp
      ultimately have "prefix placeholder (c # cs)"
        by (rule prefix_order.trans)
      then have "take (length placeholder) (c # cs) = placeholder"
        by (metis append_eq_conv_conj prefix_def)
      with False show False by simp
    qed
    with q have "\<not> sublist placeholder (c # q)"
      by (simp add: sublist_Cons_right)
    moreover have "p = c # q \<or> p \<in> set (pieces cs)"
      using "2.prems" False pp by auto
    ultimately show ?thesis
      using 2(2) [OF False] by auto
  qed
qed

subsection \<open>C3: what the substitution sends to \<open>exec_sql\<close>\<close>

text \<open>
  C3 (as the code has it). For every SQL text and every tenant id without a dollar sign
  (every UUID), \<open>getTenantConnection(...).query\<close> and \<open>BaseService.query\<close> pass to the
  \<open>exec_sql\<close> RPC the SQL text in which every occurrence of the placeholder is replaced by
  \<open>tenant_\<close> followed by the tenant id with its hyphens deleted, and the rest of the text is
  unchanged: the SQL text is a list of pieces, none of which contains the placeholder,
  joined by the placeholder, and the text sent is the same pieces joined by the schema name.
  \<open>BaseService.query\<close> replaces any error of the call by its own.
\<close>

theorem schema_substitution:
  assumes "CHR ''$'' \<notin> set tenantId"
  shows "\<exists>ps. sql = join placeholder ps \<and> (\<forall>p\<in>set ps. \<not> sublist placeholder p) \<and>
     conn_query (getTenantConnection rpc tenantId) sql params w =
       rpc ''exec_sql'' (join (''tenant_'' @ filter (\<lambda>c. c \<noteq> CHR ''-'') tenantId) ps) params w \<and>
     query rpc (new_BaseService (user\<lparr>user_tenantId := tenantId\<rparr>)) sql params w =
       (case rpc ''exec_sql'' (join (''tenant_'' @ filter (\<lambda>c. c \<noteq> CHR ''-'') tenantId) ps) params w of
          (Inl e, w') \<Rightarrow> (Inl (Error ''Erro na consulta ao banco de dados''), w')
        | (Inr d, w') \<Rightarrow> (Inr d, w'))"
proof -
  let ?schema = "''tenant_'' @ filter (\<lambda>c. c \<noteq> CHR ''-'') tenantId"
  have plain: "CHR ''$'' \<notin> set ?schema"
    using assms by auto
  have rep: "replace_schema sql ?schema = join ?schema (pieces sql)"
    unfolding replace_schema_def using plain by (rule replace_from_pieces)
  have a: "sql = join placeholder (pieces sql)"
    by (simp add: join_pieces)
  have b: "\<forall>p\<in>set (pieces sql). \<not> sublist placeholder p"
    using pieces_free by blast
  have c: "conn_query (getTenantConnection rpc tenantId) sql params w =
       rpc ''exec_sql'' (join ?schema (pieces sql)) params w"
    using rep
    by (simp add: Let_def getTenantConnection_def tenant_schema_name_def await_def return_def
        split: prod.splits sum.splits)
  have d: "query rpc (new_BaseService (user\<lparr>user_tenantId := tenantId\<rparr>)) sql params w =
       (case rpc ''exec_sql'' (join ?schema (pieces sql)) params w of
          (Inl e, w') \<Rightarrow> (Inl (Error ''Erro na consulta ao banco de dados''), w')
        | (Inr d, w') \<Rightarrow> (Inr d, w'))"
    using rep
    by (simp add: Let_def query_def new_BaseService_def tenant_schema_name_def await_def return_def
        try_catch_def throw_def split: prod.splits sum.splits)
  from a b c d show ?thesis by blast
qed

text \<open>The theorem at a UUID and a query of one placeholder.\<close>

theorem schema_substitution_witness:
  "CHR ''$'' \<notin> set ''123e4567-e89b-12d3-a456-426614174000'' \<and>
   (\<exists>ps. ''SELECT * FROM ${schema}.clients WHERE id = $1'' = join placeholder ps \<and>
     (\<forall>p\<in>set ps. \<not> sublist placeholder p) \<and>
     conn_query (getTenantConnection recording_rpc ''123e4567-e89b-12d3-a456-426614174000'')
         ''SELECT * FROM ${schema}.clients WHERE id = $1'' [JStr ''7''] [] =
       recording_rpc ''exec_sql''
         (join (''tenant_'' @ filter (\<lambda>c. c \<noteq> CHR ''-'') ''123e4567-e89b-12d3-a456-426614174000'') ps)
         [JStr ''7''] [])"
proof -
  have h: "CHR ''$'' \<notin> set ''123e4567-e89b-12d3-a456-426614174000''" by simp
  from schema_substitution [OF h, of "''SELECT * FROM ${schema}.clients WHERE id = $1''"
      recording_rpc "[JStr ''7'']" "[]"] h
  show ?thesis by blast
qed

text \<open>
  C3 as the specification words it: the placeholder becomes \<open>tenant_\<close> followed by the
  tenant's UUID. The code deletes the hyphens of the UUID first, and a tenant id with a
  dollar sign is expanded by \<open>String.prototype.replace\<close>.
\<close>

theorem schema_name_keeps_uuid_counterexample:
  "snd (conn_query (getTenantConnection recording_rpc ''123e4567-e89b-12d3-a456-426614174000'')
         ''SELECT * FROM ${schema}.clients'' [] []) =
     [(''exec_sql'', ''SELECT * FROM tenant_123e4567e89b12d3a456426614174000.clients'', [])] \<and>
   ''SELECT * FROM tenant_123e4567e89b12d3a456426614174000.clients'' \<noteq>
   ''SELECT * FROM '' @ ''tenant_'' @ ''123e4567-e89b-12d3-a456-426614174000'' @ ''.clients'' \<and>
   snd (conn_query (getTenantConnection recording_rpc ''$&'') ''SELECT * FROM ${schema}.clients'' [] []) =
     [(''exec_sql'', ''SELECT * FROM tenant_${schema}.clients'', [])]"
  by (simp add: Let_def getTenantConnection_def tenant_schema_name_def replace_schema_def
      placeholder_def await_def return_def recording_rpc_def)

section \<open>Properties of the services and of the router\<close>

subsection \<open>Laws of the effects\<close>

lemma await_throw [simp]: "await (throw e) f = throw e"
  by (rule ext) (simp add: await_def throw_def)

lemma await_return [simp]: "await (return a) f = f a"
  by (rule ext) (simp add: await_def return_def)

lemma lift_Inl [simp]: "lift (Inl e) = throw e"
  by (simp add: lift_def)

lemma lift_Inr [simp]: "lift (Inr a) = return a"
  by (simp add: lift_def)

lemma try_catch_total:
  "(\<And>e w'. \<exists>r w''. h e w' = (Inr r, w'')) \<Longrightarrow> \<exists>r w''. try_catch m h w = (Inr r, w'')"
  by (cases "m w") (auto simp: try_catch_def split: sum.splits)

lemma try_catch_return_total:
  "(\<And>e. \<exists>r. h e = return r) \<Longrightarrow> \<exists>r w'. try_catch m h w = (Inr r, w')"
  by (rule try_catch_total) (metis return_def)

subsection \<open>What the middleware of authentication answers\<close>

lemma users_next_fault [simp]: "users (snd (next_fault db)) = users db"
  by (simp add: next_fault_def split: list.splits)

lemma clock_next_fault [simp]: "clock (snd (next_fault db)) = clock db"
  by (simp add: next_fault_def split: list.splits)

lemma users_by_id_snd: "snd (users_by_id v db) = snd (next_fault db)"
  by (simp add: users_by_id_def split: prod.splits list.splits)

lemma users_by_id_Some:
  assumes "users_by_id v db = (Some u, db')"
  shows "u \<in> set (users db) \<and> JStr (au_id u) = v"
proof -
  obtain f db1 where nf: "next_fault db = (f, db1)"
    by (cases "next_fault db")
  have u1: "users db1 = users db"
    using users_next_fault [of db] nf by simp
  from assms nf have "filter (\<lambda>u. JStr (au_id u) = v) (users db1) = [u]"
    by (auto simp: users_by_id_def split: if_splits list.splits)
  then have "u \<in> set (filter (\<lambda>u. JStr (au_id u) = v) (users db1))"
    by simp
  with u1 show ?thesis by simp
qed

lemma authenticateToken_no_token:
  "bearer_token (req_authorization req) = None \<Longrightarrow>
   authenticateToken env req adb =
     (Inr (Respond (res_json 401
        (JObj [(''error'', JStr (''Token de acesso necess'' @ [CHR 0xE1] @ ''rio''))]))), adb)"
  by (simp add: authenticateToken_def return_def)

lemma authenticateToken_verify_fails:
  assumes "bearer_token (req_authorization req) = Some token"
    and "jwt_verify env token (JWT_ACCESS_SECRET env) (clock adb) = Inl e"
  shows "authenticateToken env req adb =
     (if e = TokenExpiredError
      then (Inr (Respond (res_json 401
              (JObj [(''error'', JStr ''Token expirado''), (''code'', JStr ''TOKEN_EXPIRED'')]))), adb)
      else (Inr (Respond (res_json 403
              (JObj [(''error'', JStr (''Token inv'' @ [CHR 0xE1] @ ''lido''))]))), adb))"
  using assms
  by (simp add: authenticateToken_def try_catch_def await_def verify_def return_def)

lemma authenticateToken_no_user:
  assumes "bearer_token (req_authorization req) = Some token"
    and "jwt_verify env token (JWT_ACCESS_SECRET env) (clock adb) = Inr decoded"
    and "get_prop decoded ''userId'' = Inr userId"
    and "\<not> (\<exists>u\<in>set (users adb). JStr (au_id u) = userId \<and> au_is_active u)"
  shows "authenticateToken env req adb =
     (Inr (Respond (res_json 401
        (JObj [(''error'', JStr (''Usu'' @ [CHR 0xE1] @ ''rio inativo ou n'' @ [CHR 0xE3] @
                                 ''o encontrado''))]))), snd (next_fault adb))"
proof (cases "users_by_id userId adb")
  case (Pair found adb')
  have s: "adb' = snd (next_fault adb)"
    using users_by_id_snd [of userId adb] Pair by simp
  show ?thesis
  proof (cases found)
    case None
    with Pair s assms show ?thesis
      by (simp add: authenticateToken_def try_catch_def await_def verify_def return_def)
  next
    case (Some u)
    with Pair have "u \<in> set (users adb) \<and> JStr (au_id u) = userId"
      using users_by_id_Some by blast
    with assms(4) have "\<not> au_is_active u" by blast
    with Pair Some s assms show ?thesis
      by (simp add: authenticateToken_def try_catch_def await_def verify_def return_def)
  qed
qed

lemma authenticateToken_Next:
  assumes "authenticateToken env req adb = (Inr (Next areq), adb')"
  shows "\<exists>token decoded user tenant_id.
     bearer_token (req_authorization req) = Some token \<and>
     jwt_verify env token (JWT_ACCESS_SECRET env) (clock adb) = Inr decoded \<and>
     get_prop decoded ''userId'' = Inr (JStr (au_id user)) \<and>
     user \<in> set (users adb) \<and> au_is_active user \<and> au_tenant_id user = Some tenant_id \<and>
     areq = request.extend req
              (AuthenticatedRequest.fields
                 \<lparr> user_id = au_id user, user_tenantId = tenant_id, user_email = au_email user,
                   user_name = au_name user, user_accountType = au_account_type user \<rparr>
                 tenant_id (tenant_schema_name tenant_id))"
proof (cases "bearer_token (req_authorization req)")
  case None
  with assms show ?thesis
    by (simp add: authenticateToken_def return_def)
next
  case (Some token)
  show ?thesis
  proof (cases "jwt_verify env token (JWT_ACCESS_SECRET env) (clock adb)")
    case (Inl e)
    with assms Some authenticateToken_verify_fails [OF Some Inl] show ?thesis
      by (simp split: if_splits)
  next
    case (Inr decoded)
    show ?thesis
    proof (cases "get_prop decoded ''userId''")
      case (Inl e)
      with assms Some Inr show ?thesis
        by (simp add: authenticateToken_def try_catch_def await_def verify_def return_def throw_def
            split: if_splits)
    next
      case userId: (Inr userId)
      obtain found adb1 where f: "users_by_id userId adb = (found, adb1)"
        by (cases "users_by_id userId adb")
      show ?thesis
      proof (cases found)
        case None
        with assms Some Inr userId f show ?thesis
          by (simp add: authenticateToken_def try_catch_def await_def verify_def return_def)
      next
        case u: (Some user)
        from f u have mem: "user \<in> set (users adb) \<and> JStr (au_id user) = userId"
          using users_by_id_Some by blast
        show ?thesis
        proof (cases "au_is_active user")
          case False
          with assms Some Inr userId f u show ?thesis
            by (simp add: authenticateToken_def try_catch_def await_def verify_def return_def)
        next
          case True
          show ?thesis
          proof (cases "au_tenant_id user")
            case None
            with assms Some Inr userId f u True show ?thesis
              by (simp add: authenticateToken_def try_catch_def await_def verify_def return_def
                  throw_def)
          next
            case t: (Some tenant_id)
            from assms Some Inr userId f u True t
            have "areq = request.extend req
              (AuthenticatedRequest.fields
                 \<lparr> user_id = au_id user, user_tenantId = tenant_id, user_email = au_email user,
                   user_name = au_name user, user_accountType = au_account_type user \<rparr>
                 tenant_id (tenant_schema_name tenant_id))"
              by (simp add: authenticateToken_def try_catch_def await_def verify_def return_def)
            with Some Inr userId mem True t show ?thesis
              by blast
          qed
        qed
      qed
    qed
  qed
qed

lemma authenticateToken_total: "\<exists>s adb'. authenticateToken env req adb = (Inr s, adb')"
proof (cases "bearer_token (req_authorization req)")
  case None
  then show ?thesis by (simp add: authenticateToken_def return_def)
next
  case (Some token)
  have "\<exists>s adb'. try_catch m
          (\<lambda>error.
               if error = TokenExpiredError
               then return (Respond (res_json 401
                      (JObj [(''error'', JStr ''Token expirado''), (''code'', JStr ''TOKEN_EXPIRED'')])))
               else return (Respond (res_json 403
                      (JObj [(''error'', JStr (''Token inv'' @ [CHR 0xE1] @ ''lido''))])))) adb
            = (Inr s, adb')" for m :: "(AuthenticatedRequest step, admin_db) io"
    by (rule try_catch_total) (simp add: return_def)
  with Some show ?thesis
    by (simp add: authenticateToken_def)
qed

lemma authenticate_ana:
  "authenticateToken test_env (request_of ''access.ana.9999'') test_db =
     (Inr (Next (authenticated (request_of ''access.ana.9999'') ana)), test_db)"
  by (simp add: authenticateToken_def request_of_def bearer_token_def test_env_def test_db_def
      verify_def await_def return_def try_catch_def parse_nat_def users_by_id_def
      next_fault_def ana_def bia_def authenticated_def user_of_def own_prop_def)

subsection \<open>C5: a Conta Simples has no operation of the cash flow\<close>

lemma requirePermission_simples:
  "user_accountType (this_user this) = ''simples'' \<Longrightarrow>
   requirePermission this permission ''cash_flow'' =
     Inl (Error (''Conta Simples n'' @ [CHR 0xE3] @ ''o tem acesso a dados financeiros''))"
  by (simp add: requirePermission_def)

lemma simples_operations:
  assumes "user_accountType user = ''simples''"
  shows "cf_getAll (new_CashFlowService rt rpc user) filters w =
           (Inl (Error (''Conta Simples n'' @ [CHR 0xE3] @ ''o tem acesso a dados financeiros'')), w) \<and>
         cf_getById (new_CashFlowService rt rpc user) id' w =
           (Inl (Error (''Conta Simples n'' @ [CHR 0xE3] @ ''o tem acesso a dados financeiros'')), w) \<and>
         cf_create (new_CashFlowService rt rpc user) transactionData w =
           (Inl (Error (''Conta Simples n'' @ [CHR 0xE3] @ ''o tem acesso a dados financeiros'')), w) \<and>
         cf_update (new_CashFlowService rt rpc user) id' transactionData w =
           (Inl (Error (''Conta Simples n'' @ [CHR 0xE3] @ ''o tem acesso a dados financeiros'')), w) \<and>
         cf_delete (new_CashFlowService rt rpc user) id' w =
           (Inl (Error (''Conta Simples n'' @ [CHR 0xE3] @ ''o tem acesso a dados financeiros'')), w) \<and>
         cf_getFinancialStats (new_CashFlowService rt rpc user) w =
           (Inl (Error (''Conta Simples n'' @ [CHR 0xE3] @ ''o tem acesso a dados financeiros'')), w) \<and>
         cf_exportCSV (new_CashFlowService rt rpc user) filters w =
           (Inl (Error (''Conta Simples n'' @ [CHR 0xE3] @ ''o tem acesso a dados financeiros'')), w)"
proof -
  have u: "user_accountType (this_user (new_BaseService user)) = ''simples''"
    using assms by (simp add: new_BaseService_def)
  note p = requirePermission_simples [OF u]
  show ?thesis
    by (simp add: new_CashFlowService_def Let_def p CashFlowService_getAll_def
        CashFlowService_getById_def CashFlowService_create_def CashFlowService_update_def
        CashFlowService_delete_def CashFlowService_getFinancialStats_def
        CashFlowService_exportCSV_def throw_def)
qed

text \<open>
  C5. For every user whose account type is \<open>simples\<close>, each of the seven operations of
  \<open>CashFlowService\<close> throws the error \<open>Conta Simples nao tem acesso a dados financeiros\<close> of
  \<open>requirePermission\<close>, whatever the database would answer (any \<open>rpc\<close>), and leaves the
  world as it was: no SQL query is issued.
\<close>

theorem simples_cash_flow_denied:
  assumes "user_accountType user = ''simples''"
  shows "cf_getAll (new_CashFlowService rt rpc user) filters w =
           (Inl (Error (''Conta Simples n'' @ [CHR 0xE3] @ ''o tem acesso a dados financeiros'')), w) \<and>
         cf_getById (new_CashFlowService rt rpc user) id' w =
           (Inl (Error (''Conta Simples n'' @ [CHR 0xE3] @ ''o tem acesso a dados financeiros'')), w) \<and>
         cf_create (new_CashFlowService rt rpc user) transactionData w =
           (Inl (Error (''Conta Simples n'' @ [CHR 0xE3] @ ''o tem acesso a dados financeiros'')), w) \<and>
         cf_update (new_CashFlowService rt rpc user) id' transactionData w =
           (Inl (Error (''Conta Simples n'' @ [CHR 0xE3] @ ''o tem acesso a dados financeiros'')), w) \<and>
         cf_delete (new_CashFlowService rt rpc user) id' w =
           (Inl (Error (''Conta Simples n'' @ [CHR 0xE3] @ ''o tem acesso a dados financeiros'')), w) \<and>
         cf_getFinancialStats (new_CashFlowService rt rpc user) w =
           (Inl (Error (''Conta Simples n'' @ [CHR 0xE3] @ ''o tem acesso a dados financeiros'')), w) \<and>
         cf_exportCSV (new_CashFlowService rt rpc user) filters w =
           (Inl (Error (''Conta Simples n'' @ [CHR 0xE3] @ ''o tem acesso a dados financeiros'')), w)"
  using assms by (rule simples_operations)

text \<open>
  The theorem for Ana, whose account is \<open>simples\<close>, on the database double that records the
  calls it receives: the record stays empty.
\<close>

theorem simples_cash_flow_denied_witness:
  "user_accountType (user_of ana) = ''simples'' \<and>
   cf_getAll (new_CashFlowService test_rt recording_rpc (user_of ana)) (JObj []) [] =
     (Inl (Error (''Conta Simples n'' @ [CHR 0xE3] @ ''o tem acesso a dados financeiros'')), []) \<and>
   cf_create (new_CashFlowService test_rt recording_rpc (user_of ana))
       (JObj [(''type'', JStr ''income''), (''amount'', JNum 10)]) [] =
     (Inl (Error (''Conta Simples n'' @ [CHR 0xE3] @ ''o tem acesso a dados financeiros'')), []) \<and>
   cf_delete (new_CashFlowService test_rt recording_rpc (user_of ana)) ''t1'' [] =
     (Inl (Error (''Conta Simples n'' @ [CHR 0xE3] @ ''o tem acesso a dados financeiros'')), [])"
proof -
  have h: "user_accountType (user_of ana) = ''simples''"
    by (simp add: user_of_def ana_def)
  from simples_cash_flow_denied [OF h, of test_rt recording_rpc "JObj []" "[]" "''t1''"
      "JObj [(''type'', JStr ''income''), (''amount'', JNum 10)]"] h
  show ?thesis by blast
qed

subsection \<open>C7: the handlers catch every exception\<close>




subsection \<open>C4: the account types of the cash-flow routes\<close>

lemma route_denied:
  assumes "authenticateToken env req adb = (Inr (Next areq), adb')"
    and "user_accountType (req_user areq) \<notin> set allowed"
  shows "route env (requireAccountType allowed # mws) h req (adb, w) =
     (Inr (res_json 403
        (JObj [(''error'', JStr ''Acesso negado''),
               (''required'', JArr (map JStr allowed)),
               (''current'', JStr (user_accountType (req_user areq))),
               (''message'', JStr (''Apenas contas '' @ join '', '' allowed @
                                  '' t'' @ [CHR 0xEA] @ ''m acesso a esta funcionalidade''))])),
      (adb', w))"
  using assms by (simp add: route_def requireAccountType_def Let_def)

text \<open>
  C4 (as the code has it). On the six routes that name \<open>requireAccountType(['composta',
  'gerencial'])\<close>, which are \<open>GET /\<close>, \<open>GET /export\<close>, \<open>GET /:id\<close>, \<open>POST /\<close>, \<open>PUT /:id\<close> and
  \<open>DELETE /:id\<close>, a request that passes \<open>authenticateToken\<close> for a user whose account type
  is neither \<open>composta\<close> nor \<open>gerencial\<close> is answered with the status 403 and the error
  \<open>Acesso negado\<close>. The answer is the same for every service (\<open>svc\<close> is arbitrary) and the
  tenant's world is unchanged: the service is not invoked. \<open>GET /stats\<close> names no account
  type.
\<close>

theorem cash_flow_routes_denied:
  assumes "authenticateToken env req adb = (Inr (Next areq), adb')"
    and "user_accountType (req_user areq) \<noteq> ''composta''"
    and "user_accountType (req_user areq) \<noteq> ''gerencial''"
  shows "\<forall>r \<in> {GET_root env svc, GET_export env rt svc, GET_id env svc,
                POST_root env svc, PUT_id env svc, DELETE_id env svc}.
     r req (adb, w) =
       (Inr (res_json 403
          (JObj [(''error'', JStr ''Acesso negado''),
                 (''required'', JArr [JStr ''composta'', JStr ''gerencial'']),
                 (''current'', JStr (user_accountType (req_user areq))),
                 (''message'', JStr (''Apenas contas composta, gerencial t'' @ [CHR 0xEA] @
                                    ''m acesso a esta funcionalidade''))])),
        (adb', w))"
proof -
  have n: "user_accountType (req_user areq) \<notin> set [''composta'', ''gerencial'']"
    using assms(2,3) by simp
  note d = route_denied [OF assms(1) n, of "[]", simplified]
  show ?thesis
    by (simp add: GET_root_def GET_export_def GET_id_def POST_root_def PUT_id_def DELETE_id_def d)
qed

text \<open>The theorem for a request of Ana (account \<open>simples\<close>) with a token that verifies.\<close>

theorem cash_flow_routes_denied_witness:
  "authenticateToken test_env (request_of ''access.ana.9999'') test_db =
     (Inr (Next (authenticated (request_of ''access.ana.9999'') ana)), test_db) \<and>
   user_accountType (req_user (authenticated (request_of ''access.ana.9999'') ana)) \<noteq> ''composta'' \<and>
   user_accountType (req_user (authenticated (request_of ''access.ana.9999'') ana)) \<noteq> ''gerencial'' \<and>
   GET_root test_env (new_CashFlowService test_rt recording_rpc) (request_of ''access.ana.9999'')
       (test_db, []) =
     (Inr (res_json 403
        (JObj [(''error'', JStr ''Acesso negado''),
               (''required'', JArr [JStr ''composta'', JStr ''gerencial'']),
               (''current'', JStr ''simples''),
               (''message'', JStr (''Apenas contas composta, gerencial t'' @ [CHR 0xEA] @
                                  ''m acesso a esta funcionalidade''))])),
      (test_db, [])) \<and>
   DELETE_id test_env (new_CashFlowService test_rt recording_rpc) (request_of ''access.ana.9999'')
       (test_db, []) =
     (Inr (res_json 403
        (JObj [(''error'', JStr ''Acesso negado''),
               (''required'', JArr [JStr ''composta'', JStr ''gerencial'']),
               (''current'', JStr ''simples''),
               (''message'', JStr (''Apenas contas composta, gerencial t'' @ [CHR 0xEA] @
                                  ''m acesso a esta funcionalidade''))])),
      (test_db, []))"
proof -
  let ?areq = "authenticated (request_of ''access.ana.9999'') ana"
  have t: "user_accountType (req_user ?areq) = ''simples''"
    by (simp add: authenticated_def user_of_def ana_def request.defs AuthenticatedRequest.defs)
  have c: "user_accountType (req_user ?areq) \<noteq> ''composta''"
    and g: "user_accountType (req_user ?areq) \<noteq> ''gerencial''"
    by (simp_all add: t)
  from cash_flow_routes_denied [OF authenticate_ana c g,
      of "new_CashFlowService test_rt recording_rpc" test_rt "[]"] authenticate_ana c g t
  show ?thesis by simp
qed

text \<open>
  C4 as the specification words it, for all seven routes: \<open>GET /stats\<close> has no
  \<open>requireAccountType\<close>. For Ana the handler runs, the service is invoked and throws in
  \<open>requirePermission\<close>, and the handler answers 500.
\<close>

theorem stats_route_counterexample:
  "GET_stats test_env (new_CashFlowService test_rt recording_rpc) (request_of ''access.ana.9999'')
     (test_db, []) =
   (Inr (res_json 500 (JObj [(''error'',
           JStr (''Erro ao buscar estat'' @ [CHR 0xED] @ ''sticas financeiras''))])), (test_db, [])) \<and>
   status (res_json 500 (JObj [(''error'',
           JStr (''Erro ao buscar estat'' @ [CHR 0xED] @ ''sticas financeiras''))])) \<noteq> 403"
  by (simp add: GET_stats_def route_def authenticate_ana handle_get_stats_def try_catch_def await_def
      return_def throw_def Let_def new_CashFlowService_def CashFlowService_getFinancialStats_def
      requirePermission_def new_BaseService_def authenticated_def user_of_def ana_def
      request.defs AuthenticatedRequest.defs res_json_def)

subsection \<open>C6: the answers of \<open>authenticateToken\<close>\<close>

text \<open>
  C6. \<open>authenticateToken\<close> always answers or calls \<open>next()\<close>, and throws nothing. It
  answers 401 \<open>Token de acesso necessario\<close> when the request carries no bearer token; 401
  with the code \<open>TOKEN_EXPIRED\<close> when \<open>jwt.verify\<close> throws \<open>TokenExpiredError\<close>; 403
  \<open>Token invalido\<close> when \<open>jwt.verify\<close> throws anything else; 401 \<open>Usuario inativo ou nao
  encontrado\<close> when no active user of \<open>admin.users\<close> has the id of the token. It calls
  \<open>next()\<close> only when the token verifies and its user id is the id of an active user of
  \<open>admin.users\<close>, and then \<open>req.user\<close>, \<open>req.tenantId\<close> and \<open>req.tenantSchema\<close> are set
  from the row of this user.
\<close>

theorem authenticateToken_answers:
  "(\<exists>s adb'. authenticateToken env req adb = (Inr s, adb')) \<and>
   (bearer_token (req_authorization req) = None \<longrightarrow>
      authenticateToken env req adb =
        (Inr (Respond (res_json 401
           (JObj [(''error'', JStr (''Token de acesso necess'' @ [CHR 0xE1] @ ''rio''))]))), adb)) \<and>
   (bearer_token (req_authorization req) = Some token \<and>
    jwt_verify env token (JWT_ACCESS_SECRET env) (clock adb) = Inl TokenExpiredError \<longrightarrow>
      authenticateToken env req adb =
        (Inr (Respond (res_json 401
           (JObj [(''error'', JStr ''Token expirado''), (''code'', JStr ''TOKEN_EXPIRED'')]))), adb)) \<and>
   (bearer_token (req_authorization req) = Some token \<and>
    jwt_verify env token (JWT_ACCESS_SECRET env) (clock adb) = Inl e \<and> e \<noteq> TokenExpiredError \<longrightarrow>
      authenticateToken env req adb =
        (Inr (Respond (res_json 403
           (JObj [(''error'', JStr (''Token inv'' @ [CHR 0xE1] @ ''lido''))]))), adb)) \<and>
   (bearer_token (req_authorization req) = Some token \<and>
    jwt_verify env token (JWT_ACCESS_SECRET env) (clock adb) = Inr decoded \<and>
    get_prop decoded ''userId'' = Inr userId \<and>
    \<not> (\<exists>u\<in>set (users adb). JStr (au_id u) = userId \<and> au_is_active u) \<longrightarrow>
      authenticateToken env req adb =
        (Inr (Respond (res_json 401
           (JObj [(''error'', JStr (''Usu'' @ [CHR 0xE1] @ ''rio inativo ou n'' @ [CHR 0xE3] @
                                    ''o encontrado''))]))), snd (next_fault adb))) \<and>
   (authenticateToken env req adb = (Inr (Next areq), adb'') \<longrightarrow>
      (\<exists>token decoded user tenant_id.
         bearer_token (req_authorization req) = Some token \<and>
         jwt_verify env token (JWT_ACCESS_SECRET env) (clock adb) = Inr decoded \<and>
         get_prop decoded ''userId'' = Inr (JStr (au_id user)) \<and>
         user \<in> set (users adb) \<and> au_is_active user \<and> au_tenant_id user = Some tenant_id \<and>
         areq = request.extend req
                  (AuthenticatedRequest.fields
                     \<lparr> user_id = au_id user, user_tenantId = tenant_id, user_email = au_email user,
                       user_name = au_name user, user_accountType = au_account_type user \<rparr>
                     tenant_id (tenant_schema_name tenant_id))))"
  using authenticateToken_total [of env req adb]
    authenticateToken_no_token [of req env adb]
    authenticateToken_verify_fails [of req token env adb]
    authenticateToken_no_user [of req token env adb decoded userId]
    authenticateToken_Next [of env req adb areq adb'']
  by simp

text \<open>
  The theorem on five requests: without a header, with a token that has expired, with a
  token signed with another secret, with the token of a user who is not in the table, and
  with the token of Ana.
\<close>

theorem authenticateToken_answers_witness:
  "bearer_token (req_authorization ((request_of '''')\<lparr>req_authorization := None\<rparr>)) = None \<and>
   authenticateToken test_env ((request_of '''')\<lparr>req_authorization := None\<rparr>) test_db =
     (Inr (Respond (res_json 401
        (JObj [(''error'', JStr (''Token de acesso necess'' @ [CHR 0xE1] @ ''rio''))]))), test_db) \<and>
   bearer_token (req_authorization (request_of ''access.ana.1'')) = Some ''access.ana.1'' \<and>
   jwt_verify test_env ''access.ana.1'' (JWT_ACCESS_SECRET test_env) (clock test_db) =
     Inl TokenExpiredError \<and>
   authenticateToken test_env (request_of ''access.ana.1'') test_db =
     (Inr (Respond (res_json 401
        (JObj [(''error'', JStr ''Token expirado''), (''code'', JStr ''TOKEN_EXPIRED'')]))), test_db) \<and>
   bearer_token (req_authorization (request_of ''forged.ana.9999'')) = Some ''forged.ana.9999'' \<and>
   jwt_verify test_env ''forged.ana.9999'' (JWT_ACCESS_SECRET test_env) (clock test_db) =
     Inl JsonWebTokenError \<and>
   JsonWebTokenError \<noteq> TokenExpiredError \<and>
   authenticateToken test_env (request_of ''forged.ana.9999'') test_db =
     (Inr (Respond (res_json 403
        (JObj [(''error'', JStr (''Token inv'' @ [CHR 0xE1] @ ''lido''))]))), test_db) \<and>
   bearer_token (req_authorization (request_of ''access.zed.9999'')) = Some ''access.zed.9999'' \<and>
   jwt_verify test_env ''access.zed.9999'' (JWT_ACCESS_SECRET test_env) (clock test_db) =
     Inr (JObj [(''userId'', JStr ''zed'')]) \<and>
   get_prop (JObj [(''userId'', JStr ''zed'')]) ''userId'' = Inr (JStr ''zed'') \<and>
   \<not> (\<exists>u\<in>set (users test_db). JStr (au_id u) = JStr ''zed'' \<and> au_is_active u) \<and>
   authenticateToken test_env (request_of ''access.zed.9999'') test_db =
     (Inr (Respond (res_json 401
        (JObj [(''error'', JStr (''Usu'' @ [CHR 0xE1] @ ''rio inativo ou n'' @ [CHR 0xE3] @
                                 ''o encontrado''))]))), test_db) \<and>
   authenticateToken test_env (request_of ''access.ana.9999'') test_db =
     (Inr (Next (authenticated (request_of ''access.ana.9999'') ana)), test_db) \<and>
   req_tenantSchema (authenticated (request_of ''access.ana.9999'') ana) =
     ''tenant_123e4567e89b12d3a456426614174000'' \<and>
   (\<exists>token decoded user tenant_id.
      bearer_token (req_authorization (request_of ''access.ana.9999'')) = Some token \<and>
      jwt_verify test_env token (JWT_ACCESS_SECRET test_env) (clock test_db) = Inr decoded \<and>
      get_prop decoded ''userId'' = Inr (JStr (au_id user)) \<and>
      user \<in> set (users test_db) \<and> au_is_active user \<and> au_tenant_id user = Some tenant_id \<and>
      authenticated (request_of ''access.ana.9999'') ana =
        request.extend (request_of ''access.ana.9999'')
          (AuthenticatedRequest.fields
             \<lparr> user_id = au_id user, user_tenantId = tenant_id, user_email = au_email user,
               user_name = au_name user, user_accountType = au_account_type user \<rparr>
             tenant_id (tenant_schema_name tenant_id)))"
proof -
  have b0: "bearer_token (req_authorization ((request_of '''')\<lparr>req_authorization := None\<rparr>)) = None"
    by (simp add: bearer_token_def)
  have b: "bearer_token (req_authorization (request_of ''access.ana.1'')) = Some ''access.ana.1''"
    "bearer_token (req_authorization (request_of ''forged.ana.9999'')) = Some ''forged.ana.9999''"
    "bearer_token (req_authorization (request_of ''access.zed.9999'')) = Some ''access.zed.9999''"
    by (simp_all add: bearer_token_def request_of_def)
  have v: "jwt_verify test_env ''access.ana.1'' (JWT_ACCESS_SECRET test_env) (clock test_db) =
       Inl TokenExpiredError"
    "jwt_verify test_env ''forged.ana.9999'' (JWT_ACCESS_SECRET test_env) (clock test_db) =
       Inl JsonWebTokenError"
    "jwt_verify test_env ''access.zed.9999'' (JWT_ACCESS_SECRET test_env) (clock test_db) =
       Inr (JObj [(''userId'', JStr ''zed'')])"
    by (simp_all add: test_env_def test_db_def parse_nat_def)
  have g: "get_prop (JObj [(''userId'', JStr ''zed'')]) ''userId'' = Inr (JStr ''zed'')"
    by (simp add: own_prop_def)
  have n: "\<not> (\<exists>u\<in>set (users test_db). JStr (au_id u) = JStr ''zed'' \<and> au_is_active u)"
    by (simp add: test_db_def ana_def bia_def)
  have f: "snd (next_fault test_db) = test_db"
    by (simp add: next_fault_def test_db_def)
  have s: "req_tenantSchema (authenticated (request_of ''access.ana.9999'') ana) =
     ''tenant_123e4567e89b12d3a456426614174000''"
    by (simp add: authenticated_def user_of_def ana_def tenant_schema_name_def
        request.defs AuthenticatedRequest.defs)
  note t1 = authenticateToken_answers [of test_env "(request_of '''')\<lparr>req_authorization := None\<rparr>" test_db]
  note t2 = authenticateToken_answers [of test_env "request_of ''access.ana.1''" test_db
      "''access.ana.1''"]
  note t3 = authenticateToken_answers [of test_env "request_of ''forged.ana.9999''" test_db
      "''forged.ana.9999''" JsonWebTokenError]
  note t4 = authenticateToken_answers [of test_env "request_of ''access.zed.9999''" test_db
      "''access.zed.9999''" _ "JObj [(''userId'', JStr ''zed'')]" "JStr ''zed''"]
  note t5 = authenticateToken_answers [of test_env "request_of ''access.ana.9999''" test_db
      _ _ _ _ "authenticated (request_of ''access.ana.9999'') ana" test_db]
  have c1: "authenticateToken test_env ((request_of '''')\<lparr>req_authorization := None\<rparr>) test_db =
     (Inr (Respond (res_json 401
        (JObj [(''error'', JStr (''Token de acesso necess'' @ [CHR 0xE1] @ ''rio''))]))), test_db)"
    using t1 b0 by blast
  have c2: "authenticateToken test_env (request_of ''access.ana.1'') test_db =
     (Inr (Respond (res_json 401
        (JObj [(''error'', JStr ''Token expirado''), (''code'', JStr ''TOKEN_EXPIRED'')]))), test_db)"
    using t2 b(1) v(1) by blast
  have c3: "authenticateToken test_env (request_of ''forged.ana.9999'') test_db =
     (Inr (Respond (res_json 403
        (JObj [(''error'', JStr (''Token inv'' @ [CHR 0xE1] @ ''lido''))]))), test_db)"
    using t3 b(2) v(2) by blast
  have c4: "authenticateToken test_env (request_of ''access.zed.9999'') test_db =
     (Inr (Respond (res_json 401
        (JObj [(''error'', JStr (''Usu'' @ [CHR 0xE1] @ ''rio inativo ou n'' @ [CHR 0xE3] @
                                 ''o encontrado''))]))), test_db)"
    using t4 b(3) v(3) g n f by simp
  have c5: "\<exists>token decoded user tenant_id.
      bearer_token (req_authorization (request_of ''access.ana.9999'')) = Some token \<and>
      jwt_verify test_env token (JWT_ACCESS_SECRET test_env) (clock test_db) = Inr decoded \<and>
      get_prop decoded ''userId'' = Inr (JStr (au_id user)) \<and>
      user \<in> set (users test_db) \<and> au_is_active user \<and> au_tenant_id user = Some tenant_id \<and>
      authenticated (request_of ''access.ana.9999'') ana =
        request.extend (request_of ''access.ana.9999'')
          (AuthenticatedRequest.fields
             \<lparr> user_id = au_id user, user_tenantId = tenant_id, user_email = au_email user,
               user_name = au_name user, user_accountType = au_account_type user \<rparr>
             tenant_id (tenant_schema_name tenant_id))"
    using t5 authenticate_ana by blast
  from b0 b v g n c1 c2 c3 c4 c5 s authenticate_ana show ?thesis
    by simp
qed

subsection \<open>C10: one error for the two failures of a login\<close>

lemma users_by_email_active_None:
  "\<not> (\<exists>u\<in>set (users db). au_email u = email \<and> au_is_active u) \<Longrightarrow>
   users_by_email_active email db = (None, snd (next_fault db))"
proof -
  assume a: "\<not> (\<exists>u\<in>set (users db). au_email u = email \<and> au_is_active u)"
  obtain f db1 where nf: "next_fault db = (f, db1)"
    by (cases "next_fault db")
  have "users db1 = users db"
    using users_next_fault [of db] nf by simp
  with a have "filter (\<lambda>u. au_email u = email \<and> au_is_active u) (users db1) = []"
    by (auto simp: filter_empty_conv)
  with nf show ?thesis
    by (simp add: users_by_email_active_def)
qed

lemma users_by_email_active_one:
  "filter (\<lambda>u. au_email u = email \<and> au_is_active u) (users db) = [user] \<Longrightarrow>
   users_by_email_active email db =
     ((if fst (next_fault db) then None else Some user), snd (next_fault db))"
proof -
  assume a: "filter (\<lambda>u. au_email u = email \<and> au_is_active u) (users db) = [user]"
  obtain f db1 where nf: "next_fault db = (f, db1)"
    by (cases "next_fault db")
  have "users db1 = users db"
    using users_next_fault [of db] nf by simp
  with a nf show ?thesis
    by (simp add: users_by_email_active_def)
qed

text \<open>
  C10. \<open>AuthService.login\<close> throws the same error, \<open>Email ou senha incorretos\<close>, and leaves
  the same state behind, when no active user has the email and when the one active user
  with the email has a password hash that \<open>bcrypt.compare\<close> rejects.
\<close>

theorem login_error_is_the_same:
  "(\<not> (\<exists>u\<in>set (users db). au_email u = email \<and> au_is_active u) \<longrightarrow>
      login env email password db = (Inl (Error ''Email ou senha incorretos''), snd (next_fault db))) \<and>
   (filter (\<lambda>u. au_email u = email \<and> au_is_active u) (users db) = [user] \<and>
    \<not> bcrypt_compare env password (au_password_hash user) \<longrightarrow>
      login env email password db = (Inl (Error ''Email ou senha incorretos''), snd (next_fault db)))"
proof -
  have 1: "login env email password db = (Inl (Error ''Email ou senha incorretos''), snd (next_fault db))"
    if "\<not> (\<exists>u\<in>set (users db). au_email u = email \<and> au_is_active u)"
    using users_by_email_active_None [OF that]
    by (simp add: login_def await_def throw_def)
  have 2: "login env email password db = (Inl (Error ''Email ou senha incorretos''), snd (next_fault db))"
    if "filter (\<lambda>u. au_email u = email \<and> au_is_active u) (users db) = [user]"
      and "\<not> bcrypt_compare env password (au_password_hash user)"
    using users_by_email_active_one [OF that(1)] that(2)
    by (simp add: login_def await_def throw_def)
  from 1 2 show ?thesis by blast
qed

text \<open>The theorem for an email that is not in the table and for a wrong password of Ana.\<close>

theorem login_error_is_the_same_witness:
  "\<not> (\<exists>u\<in>set (users test_db). au_email u = ''zed@example.com'' \<and> au_is_active u) \<and>
   login test_env ''zed@example.com'' ''pw-ana'' test_db =
     (Inl (Error ''Email ou senha incorretos''), test_db) \<and>
   filter (\<lambda>u. au_email u = ''ana@example.com'' \<and> au_is_active u) (users test_db) = [ana] \<and>
   \<not> bcrypt_compare test_env ''guess'' (au_password_hash ana) \<and>
   login test_env ''ana@example.com'' ''guess'' test_db =
     (Inl (Error ''Email ou senha incorretos''), test_db)"
proof -
  have a: "\<not> (\<exists>u\<in>set (users test_db). au_email u = ''zed@example.com'' \<and> au_is_active u)"
    by (simp add: test_db_def ana_def bia_def)
  have b: "filter (\<lambda>u. au_email u = ''ana@example.com'' \<and> au_is_active u) (users test_db) = [ana]"
    by (simp add: test_db_def ana_def bia_def)
  have c: "\<not> bcrypt_compare test_env ''guess'' (au_password_hash ana)"
    by (simp add: test_env_def ana_def)
  have f: "snd (next_fault test_db) = test_db"
    by (simp add: next_fault_def test_db_def)
  from login_error_is_the_same [of test_db "''zed@example.com''" test_env "''pw-ana''"] a f
  have 1: "login test_env ''zed@example.com'' ''pw-ana'' test_db =
     (Inl (Error ''Email ou senha incorretos''), test_db)"
    by simp
  from login_error_is_the_same [of test_db "''ana@example.com''" test_env "''guess''" ana] b c f
  have 2: "login test_env ''ana@example.com'' ''guess'' test_db =
     (Inl (Error ''Email ou senha incorretos''), test_db)"
    by simp
  from a b c 1 2 show ?thesis by blast
qed

subsection \<open>C2: the schema of a request is the schema of its tenant\<close>

lemma filter_map_inj:
  assumes "map P xs = map P ys"
    and "filter (\<lambda>x. \<not> P x) xs = filter (\<lambda>x. \<not> P x) ys"
    and "\<And>x y. P x \<Longrightarrow> P y \<Longrightarrow> x = y"
  shows "xs = ys"
proof -
  have "length xs = length ys"
    using assms(1) by (rule map_eq_imp_length_eq)
  then show ?thesis
    using assms(1,2)
  proof (induction xs ys rule: list_induct2)
    case Nil
    then show ?case by simp
  next
    case (Cons x xs y ys)
    then show ?case
      using assms(3) by (cases "P x") auto
  qed
qed

lemma tenant_schema_name_inj:
  assumes "is_uuid s" and "is_uuid t" and "tenant_schema_name s = tenant_schema_name t"
  shows "s = t"
proof (rule filter_map_inj [where P = "\<lambda>c. c = CHR ''-''"])
  show "map (\<lambda>c. c = CHR ''-'') s = map (\<lambda>c. c = CHR ''-'') t"
    using assms(1,2) by (simp add: is_uuid_def)
  show "filter (\<lambda>x. x \<noteq> CHR ''-'') s = filter (\<lambda>x. x \<noteq> CHR ''-'') t"
    using assms(3) by (simp add: tenant_schema_name_def)
qed simp

lemma uuid_no_dollar: "is_uuid s \<Longrightarrow> CHR ''$'' \<notin> set s"
  by (auto simp: is_uuid_def)

lemma length_filter_map: "length (filter (\<lambda>x. \<not> P x) xs) = length (filter Not (map P xs))"
  by (induction xs) auto

lemma tenant_schema_name_length: "is_uuid s \<Longrightarrow> length (tenant_schema_name s) = 39"
proof -
  assume "is_uuid s"
  then have "map (\<lambda>c. c = CHR ''-'') s = uuid_hyphens"
    by (simp add: is_uuid_def)
  then have "length (filter (\<lambda>c. c \<noteq> CHR ''-'') s) = length (filter Not uuid_hyphens)"
    using length_filter_map [of "\<lambda>c. c = CHR ''-''" s] by simp
  also have "\<dots> = 32"
    by (simp add: uuid_hyphens_def)
  finally show ?thesis
    by (simp add: tenant_schema_name_def)
qed

lemma join_inj:
  assumes "length a = length b" and "2 \<le> length ps" and "join a ps = join b ps"
  shows "a = b"
proof -
  obtain p q rest where ps: "ps = p # q # rest"
    using assms(2) by (cases ps; cases "tl ps") auto
  from assms(3) ps have "a @ join a (q # rest) = b @ join b (q # rest)"
    by simp
  with assms(1) show ?thesis
    by simp
qed

lemma pieces_of_sublist: "sublist placeholder sql \<Longrightarrow> 2 \<le> length (pieces sql)"
proof (rule ccontr)
  assume s: "sublist placeholder sql" and "\<not> 2 \<le> length (pieces sql)"
  then obtain p where p: "pieces sql = [p]"
    using pieces_not_Nil [of sql] by (cases "pieces sql"; cases "tl (pieces sql)") auto
  then have "sql = p"
    using join_pieces [of sql] by simp
  moreover have "\<not> sublist placeholder p"
    using pieces_free [of p sql] p by simp
  ultimately show False
    using s by simp
qed

lemma query_sends:
  assumes "CHR ''$'' \<notin> set tenantId" and "user_tenantId user = tenantId"
  shows "query rpc (new_BaseService user) sql params w =
       (case rpc ''exec_sql'' (join (tenant_schema_name tenantId) (pieces sql)) params w of
          (Inl e, w') \<Rightarrow> (Inl (Error ''Erro na consulta ao banco de dados''), w')
        | (Inr d, w') \<Rightarrow> (Inr d, w'))"
proof -
  have "CHR ''$'' \<notin> set (tenant_schema_name tenantId)"
    using assms(1) by (auto simp: tenant_schema_name_def)
  then have "replace_schema sql (tenant_schema_name tenantId) =
      join (tenant_schema_name tenantId) (pieces sql)"
    unfolding replace_schema_def by (rule replace_from_pieces)
  with assms(2) show ?thesis
    by (simp add: Let_def query_def new_BaseService_def await_def return_def
        try_catch_def throw_def split: prod.splits sum.splits)
qed

lemma conn_query_sends:
  assumes "CHR ''$'' \<notin> set tenantId"
  shows "conn_query (getTenantConnection rpc tenantId) sql params w =
       rpc ''exec_sql'' (join (tenant_schema_name tenantId) (pieces sql)) params w"
proof -
  have "CHR ''$'' \<notin> set (tenant_schema_name tenantId)"
    using assms(1) by (auto simp: tenant_schema_name_def)
  then have "replace_schema sql (tenant_schema_name tenantId) =
      join (tenant_schema_name tenantId) (pieces sql)"
    unfolding replace_schema_def by (rule replace_from_pieces)
  then show ?thesis
    by (simp add: Let_def getTenantConnection_def await_def return_def
        split: prod.splits sum.splits)
qed

text \<open>
  C2. For a request that \<open>authenticateToken\<close> lets through, with the tenant ids of
  \<open>admin.users\<close> being UUIDs (the type of the column): the user of the request is a row of
  \<open>admin.users\<close>; \<open>req.tenantSchema\<close> and the schema of the user's services are the
  schema name of this row's \<open>tenant_id\<close>; every SQL text that \<open>BaseService.query\<close> or
  \<open>getTenantConnection(req.tenantId).query\<close> sends is the text with every occurrence of
  the placeholder replaced by this name; and the schema name of any other tenant id is
  another name, so that a text with a placeholder is sent as another text.
\<close>

theorem tenant_schema_isolation:
  assumes "authenticateToken env req adb = (Inr (Next areq), adb')"
    and "\<forall>u\<in>set (users adb). \<forall>t. au_tenant_id u = Some t \<longrightarrow> is_uuid t"
  shows "\<exists>user tenant_id ps.
      user \<in> set (users adb) \<and> au_id user = user_id (req_user areq) \<and>
      au_tenant_id user = Some tenant_id \<and>
      req_tenantSchema areq = tenant_schema_name tenant_id \<and>
      sql = join placeholder ps \<and> (\<forall>p\<in>set ps. \<not> sublist placeholder p) \<and>
      query rpc (new_BaseService (req_user areq)) sql params w =
        (case rpc ''exec_sql'' (join (tenant_schema_name tenant_id) ps) params w of
           (Inl e, w') \<Rightarrow> (Inl (Error ''Erro na consulta ao banco de dados''), w')
         | (Inr d, w') \<Rightarrow> (Inr d, w')) \<and>
      conn_query (getTenantConnection rpc (req_tenantId areq)) sql params w =
        rpc ''exec_sql'' (join (tenant_schema_name tenant_id) ps) params w \<and>
      (\<forall>other. is_uuid other \<and> other \<noteq> tenant_id \<longrightarrow>
         tenant_schema_name other \<noteq> tenant_schema_name tenant_id \<and>
         (sublist placeholder sql \<longrightarrow>
            join (tenant_schema_name other) ps \<noteq> join (tenant_schema_name tenant_id) ps))"
proof -
  from authenticateToken_Next [OF assms(1)]
  obtain user tenant_id where u: "user \<in> set (users adb)" "au_tenant_id user = Some tenant_id"
    and areq: "areq = request.extend req
              (AuthenticatedRequest.fields
                 \<lparr> user_id = au_id user, user_tenantId = tenant_id, user_email = au_email user,
                   user_name = au_name user, user_accountType = au_account_type user \<rparr>
                 tenant_id (tenant_schema_name tenant_id))"
    by blast
  have uuid: "is_uuid tenant_id"
    using assms(2) u by blast
  have nd: "CHR ''$'' \<notin> set tenant_id"
    using uuid by (rule uuid_no_dollar)
  have f1: "au_id user = user_id (req_user areq)" "req_tenantSchema areq = tenant_schema_name tenant_id"
    "user_tenantId (req_user areq) = tenant_id" "req_tenantId areq = tenant_id"
    by (simp_all add: areq request.defs AuthenticatedRequest.defs)
  have other: "tenant_schema_name other \<noteq> tenant_schema_name tenant_id \<and>
      (sublist placeholder sql \<longrightarrow>
         join (tenant_schema_name other) (pieces sql) \<noteq> join (tenant_schema_name tenant_id) (pieces sql))"
    if "is_uuid other" "other \<noteq> tenant_id" for other
  proof -
    have ne: "tenant_schema_name other \<noteq> tenant_schema_name tenant_id"
      using tenant_schema_name_inj [OF that(1) uuid] that(2) by blast
    have len: "length (tenant_schema_name other) = length (tenant_schema_name tenant_id)"
      using tenant_schema_name_length [OF that(1)] tenant_schema_name_length [OF uuid] by simp
    show ?thesis
      using ne join_inj [OF len pieces_of_sublist] by blast
  qed
  have free: "\<forall>p\<in>set (pieces sql). \<not> sublist placeholder p"
    using pieces_free by blast
  note q = query_sends [OF nd f1(3), of rpc sql params w]
  note c = conn_query_sends [OF nd, of rpc sql params w]
  have "user \<in> set (users adb) \<and> au_id user = user_id (req_user areq) \<and>
      au_tenant_id user = Some tenant_id \<and>
      req_tenantSchema areq = tenant_schema_name tenant_id \<and>
      sql = join placeholder (pieces sql) \<and> (\<forall>p\<in>set (pieces sql). \<not> sublist placeholder p) \<and>
      query rpc (new_BaseService (req_user areq)) sql params w =
        (case rpc ''exec_sql'' (join (tenant_schema_name tenant_id) (pieces sql)) params w of
           (Inl e, w') \<Rightarrow> (Inl (Error ''Erro na consulta ao banco de dados''), w')
         | (Inr d, w') \<Rightarrow> (Inr d, w')) \<and>
      conn_query (getTenantConnection rpc (req_tenantId areq)) sql params w =
        rpc ''exec_sql'' (join (tenant_schema_name tenant_id) (pieces sql)) params w \<and>
      (\<forall>other. is_uuid other \<and> other \<noteq> tenant_id \<longrightarrow>
         tenant_schema_name other \<noteq> tenant_schema_name tenant_id \<and>
         (sublist placeholder sql \<longrightarrow>
            join (tenant_schema_name other) (pieces sql) \<noteq>
            join (tenant_schema_name tenant_id) (pieces sql)))"
    using u f1 free other q c by (simp add: join_pieces)
  then show ?thesis
    by blast
qed

text \<open>The theorem for a request of Ana and a query on the clients of her tenant.\<close>

theorem tenant_schema_isolation_witness:
  "authenticateToken test_env (request_of ''access.ana.9999'') test_db =
     (Inr (Next (authenticated (request_of ''access.ana.9999'') ana)), test_db) \<and>
   is_uuid ''123e4567-e89b-12d3-a456-426614174000'' \<and>
   (\<exists>user tenant_id ps.
      user \<in> set (users test_db) \<and>
      au_id user = user_id (req_user (authenticated (request_of ''access.ana.9999'') ana)) \<and>
      au_tenant_id user = Some tenant_id \<and>
      req_tenantSchema (authenticated (request_of ''access.ana.9999'') ana) =
        tenant_schema_name tenant_id \<and>
      ''SELECT * FROM ${schema}.clients'' = join placeholder ps \<and>
      query recording_rpc (new_BaseService (req_user (authenticated (request_of ''access.ana.9999'') ana)))
          ''SELECT * FROM ${schema}.clients'' [] [] =
        (case recording_rpc ''exec_sql'' (join (tenant_schema_name tenant_id) ps) [] [] of
           (Inl e, w') \<Rightarrow> (Inl (Error ''Erro na consulta ao banco de dados''), w')
         | (Inr d, w') \<Rightarrow> (Inr d, w')))"
proof -
  have u: "is_uuid ''123e4567-e89b-12d3-a456-426614174000''"
    by (simp add: is_uuid_def uuid_hyphens_def)
  have h: "\<forall>u\<in>set (users test_db). \<forall>t. au_tenant_id u = Some t \<longrightarrow> is_uuid t"
    using u by (simp add: test_db_def ana_def bia_def)
  from tenant_schema_isolation [OF authenticate_ana h,
      of "''SELECT * FROM ${schema}.clients''" recording_rpc "[]" "[]"] authenticate_ana u
  show ?thesis by blast
qed

subsection \<open>C8: the rotation of refresh tokens\<close>

lemma decimals:
  "decimal 0 = ''0''" "decimal (Suc 0) = ''1''" "decimal (Suc (Suc 0)) = ''2''"
  "decimal (Suc (Suc (Suc 0))) = ''3''" "decimal (Suc (Suc (Suc (Suc 0)))) = ''4''"
  "decimal (Suc (Suc (Suc (Suc (Suc 0))))) = ''5''"
  "decimal (Suc (Suc (Suc (Suc (Suc (Suc 0)))))) = ''6''"
  "decimal (Suc (Suc (Suc (Suc (Suc (Suc (Suc 0))))))) = ''7''"
  "decimal 1 = ''1''" "decimal 2 = ''2''" "decimal 3 = ''3''"
  "decimal 4 = ''4''" "decimal 5 = ''5''" "decimal 6 = ''6''" "decimal 7 = ''7''"
  "decimal 905 = ''905''" "decimal 965 = ''965''"
  "decimal 604805 = ''604805''" "decimal 604865 = ''604865''"
  by (simp_all add: decimal.simps)

lemmas auth_service_eval = login_def generateTokens_def refreshAccessToken_def users_by_email_active_def
  users_by_id_def users_touch_last_login_def refresh_tokens_valid_def refresh_tokens_deactivate_def
  refresh_tokens_insert_def next_fault_def verify_def exn_userId_def
  test_env_def test_db_def ana_def bia_def test_rt_def to_string_def parse_nat_def own_prop_def
  await_def return_def throw_def try_catch_def lift_def Let_def decimals

lemma two_logins_eq:
  "two_logins =
     test_db\<lparr>users := [ana, bia\<lparr>au_last_login := Some 5000\<rparr>],
       refresh_tokens :=
         [\<lparr>rt_id = ''id-1'', rt_user_id = ''bia'', rt_token_hash = ''0$refresh.bia.604805'',
            rt_expires_at = 604805000, rt_is_active = True\<rparr>,
          \<lparr>rt_id = ''id-3'', rt_user_id = ''bia'', rt_token_hash = ''2$refresh.bia.604805'',
            rt_expires_at = 604805000, rt_is_active = True\<rparr>],
       entropy := 4\<rparr>"
  by (simp add: two_logins_def auth_service_eval)

text \<open>
  C8 on the code. Bia logs in twice within one second: \<open>generateTokens\<close> signs the same
  payload at the same second, so both logins return the same refresh token, stored in two
  rows under two hashes. A minute later the token is presented twice.
  \<open>refreshAccessToken\<close> deactivates the first row that matches and stops at it, so the
  second call finds the other row and returns new tokens as well.
\<close>

theorem refresh_token_accepted_twice:
  "fst (login test_env ''bia@example.com'' ''pw-bia'' test_db) =
     Inr (''access.bia.905'', ''refresh.bia.604805'') \<and>
   fst (login test_env ''bia@example.com'' ''pw-bia''
          (snd (login test_env ''bia@example.com'' ''pw-bia'' test_db))) =
     Inr (''access.bia.905'', ''refresh.bia.604805'') \<and>
   fst (refreshAccessToken test_env ''refresh.bia.604805'' (two_logins\<lparr>clock := 65000\<rparr>)) =
     Inr (''access.bia.965'', ''refresh.bia.604865'') \<and>
   fst (refreshAccessToken test_env ''refresh.bia.604805''
          (snd (refreshAccessToken test_env ''refresh.bia.604805'' (two_logins\<lparr>clock := 65000\<rparr>)))) =
     Inr (''access.bia.965'', ''refresh.bia.604865'')"
  by (simp add: two_logins_eq auth_service_eval)

subsection \<open>C9: the audit log and the notifications cannot fail an operation\<close>

lemma placeholder_starts:
  "take (length placeholder) (c # cs) = placeholder \<Longrightarrow> c = CHR ''$''"
  by (simp add: placeholder_def)

lemma replace_from_prefix:
  "CHR ''$'' \<notin> set p \<Longrightarrow> replace_from rep pre (p @ t) = p @ replace_from rep (pre @ p) t"
proof (induction p arbitrary: pre)
  case Nil
  then show ?case by simp
next
  case (Cons c p)
  have "take (length placeholder) (c # p @ t) \<noteq> placeholder"
    using Cons.prems placeholder_starts [of c "p @ t"] by auto
  with Cons show ?case by simp
qed

lemma take_replace_schema:
  assumes "CHR ''$'' \<notin> set (take n t)"
  shows "take n (replace_schema t s) = take n t"
proof -
  have "replace_schema t s = take n t @ replace_from s ([] @ take n t) (drop n t)"
    unfolding replace_schema_def
    using replace_from_prefix [OF assms, of s "[]" "drop n t"] by simp
  moreover have "length t < n \<Longrightarrow> replace_from s ([] @ take n t) (drop n t) = []"
    by simp
  ultimately show ?thesis
    by (cases "length t < n") simp_all
qed

lemma bookkeeping_starts:
  "take 10 sql_audit_log = nl @ ''        I''" "take 10 sql_notifications = nl @ ''        I''"
  by (simp_all add: sql_audit_log_def sql_notifications_def)

lemma not_bookkeeping:
  assumes "CHR ''$'' \<notin> set (take 10 sql)" and "take 10 sql \<noteq> nl @ ''        I''"
  shows "replace_schema sql (this_tenantSchema this) \<notin> bookkeeping this"
proof
  assume "replace_schema sql (this_tenantSchema this) \<in> bookkeeping this"
  then have "take 10 (replace_schema sql (this_tenantSchema this)) = nl @ ''        I''"
    using take_replace_schema [of 10 sql_audit_log "this_tenantSchema this"]
      take_replace_schema [of 10 sql_notifications "this_tenantSchema this"]
    by (auto simp: bookkeeping_def bookkeeping_starts)
  with assms show False
    using take_replace_schema [OF assms(1), of "this_tenantSchema this"] by simp
qed

lemma query_failing_on:
  assumes "CHR ''$'' \<notin> set (take 10 sql)" and "take 10 sql \<noteq> nl @ ''        I''"
  shows "query (failing_on (bookkeeping this) rpc) this sql ps = query rpc this sql ps"
proof -
  have "failing_on (bookkeeping this) rpc ''exec_sql'' (replace_schema sql (this_tenantSchema this)) ps =
      rpc ''exec_sql'' (replace_schema sql (this_tenantSchema this)) ps"
    using not_bookkeeping [OF assms, of this] by (intro ext) (simp add: failing_on_def)
  then show ?thesis
    by (simp add: query_def Let_def)
qed

lemma main_queries:
  "query (failing_on (bookkeeping this) rpc) this sql_cash_flow_by_id ps =
     query rpc this sql_cash_flow_by_id ps"
  "query (failing_on (bookkeeping this) rpc) this sql_cash_flow_project ps =
     query rpc this sql_cash_flow_project ps"
  "query (failing_on (bookkeeping this) rpc) this sql_cash_flow_insert ps =
     query rpc this sql_cash_flow_insert ps"
  "query (failing_on (bookkeeping this) rpc) this sql_cash_flow_update ps =
     query rpc this sql_cash_flow_update ps"
  "query (failing_on (bookkeeping this) rpc) this sql_cash_flow_delete ps =
     query rpc this sql_cash_flow_delete ps"
  "query (failing_on (bookkeeping this) rpc) this sql_publications_by_id ps =
     query rpc this sql_publications_by_id ps"
  "query (failing_on (bookkeeping this) rpc) this sql_publications_insert ps =
     query rpc this sql_publications_insert ps"
  "query (failing_on (bookkeeping this) rpc) this sql_publications_status ps =
     query rpc this sql_publications_status ps"
  "query (failing_on (bookkeeping this) rpc) this sql_publications_assign ps =
     query rpc this sql_publications_assign ps"
  "query (failing_on (bookkeeping this) rpc) this sql_publications_delete ps =
     query rpc this sql_publications_delete ps"
  by (rule query_failing_on;
      simp add: sql_cash_flow_by_id_def sql_cash_flow_project_def sql_cash_flow_insert_def
        sql_cash_flow_update_def sql_cash_flow_delete_def sql_publications_by_id_def
        sql_publications_insert_def sql_publications_status_def sql_publications_assign_def
        sql_publications_delete_def)+

lemma auditLog_total:
  "\<exists>w'. auditLog rt rpc this tableName operation recordId oldData newData w = (Inr (), w')"
proof -
  have "\<exists>r w'. try_catch m (\<lambda>error. return ()) w = (Inr r, w')" for m :: "(unit, 'a) io"
    by (rule try_catch_return_total) blast
  then show ?thesis
    by (simp add: auditLog_def)
qed

lemma createNotification_total:
  "\<exists>w'. createNotification rt rpc this type title message category entityType entityId actionData
          userId w = (Inr (), w')"
proof -
  have "\<exists>r w'. try_catch m (\<lambda>error. return ()) w = (Inr r, w')" for m :: "(unit, 'a) io"
    by (rule try_catch_return_total) blast
  then show ?thesis
    by (simp add: createNotification_def)
qed

lemma agree_return: "agree view (return a) (return a)"
  by (simp add: agree_def same_outcome_def return_def)

lemma agree_throw: "agree view (throw e) (throw e)"
  by (simp add: agree_def same_outcome_def throw_def)

lemma agree_lift: "agree view (lift r) (lift r)"
  by (cases r) (simp_all add: agree_return agree_throw)

lemma agree_await:
  assumes "agree view m1 m2" and "\<And>a. agree view (k1 a) (k2 a)"
  shows "agree view (await m1 k1) (await m2 k2)"
  unfolding agree_def
proof (intro allI impI)
  fix w1 w2 :: 'a
  assume v: "view w1 = view w2"
  from assms(1) v have s: "same_outcome view (m1 w1) (m2 w2)"
    by (simp add: agree_def)
  obtain r1 w1' where m1: "m1 w1 = (r1, w1')"
    by (cases "m1 w1")
  obtain r2 w2' where m2: "m2 w2 = (r2, w2')"
    by (cases "m2 w2")
  from s m1 m2 have eq: "r2 = r1" "view w1' = view w2'"
    by (simp_all add: same_outcome_def)
  show "same_outcome view (await m1 k1 w1) (await m2 k2 w2)"
  proof (cases r1)
    case (Inl e)
    then show ?thesis
      using m1 m2 eq by (simp add: await_def same_outcome_def)
  next
    case (Inr a)
    then show ?thesis
      using m1 m2 eq assms(2) [of a] by (simp add: await_def agree_def)
  qed
qed

lemma agree_if:
  "agree view a1 a2 \<Longrightarrow> agree view b1 b2 \<Longrightarrow>
   agree view (if c then a1 else b1) (if c then a2 else b2)"
  by simp

lemma agree_settled:
  assumes "\<And>w. fst (m1 w) = r" and "\<And>w. fst (m2 w) = r" and "keeps view m1" and "keeps view m2"
  shows "agree view m1 m2"
  using assms by (simp add: agree_def same_outcome_def keeps_def)

lemma agree_same: "agree view m1 m2 \<Longrightarrow> same_outcome view (m1 w) (m2 w)"
  by (simp add: agree_def)

lemma same_await:
  assumes "\<And>a w'. same_outcome view (f a w') (g a w')"
  shows "same_outcome view (await m f w) (await m g w)"
  using assms by (cases "m w") (auto simp: await_def same_outcome_def split: sum.splits)

lemma keeps_return: "keeps view (return a)"
  by (simp add: keeps_def return_def)

lemma keeps_throw: "keeps view (throw e)"
  by (simp add: keeps_def throw_def)

lemma keeps_lift: "keeps view (lift r)"
  by (cases r) (simp_all add: keeps_return keeps_throw)

lemma keeps_await:
  assumes "keeps view m" and "\<And>a. keeps view (k a)"
  shows "keeps view (await m k)"
  unfolding keeps_def
proof
  fix w
  obtain r w' where m: "m w = (r, w')"
    by (cases "m w")
  with assms(1) have "view w' = view w"
    by (auto simp: keeps_def dest: spec [of _ w])
  with m assms(2) show "view (snd (await m k w)) = view w"
    by (cases r) (simp_all add: await_def keeps_def)
qed

lemma keeps_try_catch:
  assumes "keeps view m" and "\<And>e. keeps view (h e)"
  shows "keeps view (try_catch m h)"
  unfolding keeps_def
proof
  fix w
  obtain r w' where m: "m w = (r, w')"
    by (cases "m w")
  with assms(1) have "view w' = view w"
    by (auto simp: keeps_def dest: spec [of _ w])
  with m assms(2) show "view (snd (try_catch m h w)) = view w"
    by (cases r) (simp_all add: try_catch_def keeps_def)
qed

lemma keeps_query:
  assumes "\<And>q. keeps view (rpc ''exec_sql'' q ps)"
  shows "keeps view (query rpc this sql ps)"
  unfolding query_def Let_def
  by (intro keeps_try_catch keeps_await keeps_return keeps_throw assms)

lemma keeps_query_text:
  assumes "keeps view (rpc ''exec_sql'' (replace_schema sql (this_tenantSchema this)) ps)"
  shows "keeps view (query rpc this sql ps)"
  unfolding query_def Let_def
  by (intro keeps_try_catch keeps_await keeps_return keeps_throw assms)

lemma auditLog_keeps:
  assumes "\<And>ps. keeps view (rpc ''exec_sql'' (replace_schema sql_audit_log (this_tenantSchema this)) ps)"
  shows "keeps view (auditLog rt rpc this tableName operation recordId oldData newData)"
  unfolding auditLog_def
  by (intro keeps_try_catch keeps_await keeps_return keeps_lift keeps_query_text assms)

lemma createNotification_keeps:
  assumes "\<And>ps. keeps view (rpc ''exec_sql'' (replace_schema sql_notifications (this_tenantSchema this)) ps)"
  shows "keeps view (createNotification rt rpc this type title message category entityType entityId
           actionData userId)"
  unfolding createNotification_def
  by (intro keeps_try_catch keeps_await keeps_return keeps_lift keeps_query_text assms)

lemma failing_keeps:
  "q \<in> texts \<Longrightarrow> keeps view (failing_on texts rpc fn q ps)"
  by (simp add: keeps_def failing_on_def)

lemma fst_auditLog [simp]:
  "fst (auditLog rt rpc this tableName operation recordId oldData newData w) = Inr ()"
  using auditLog_total [of rt rpc this tableName operation recordId oldData newData w] by auto

lemma fst_createNotification [simp]:
  "fst (createNotification rt rpc this type title message category entityType entityId actionData
          userId w) = Inr ()"
  using createNotification_total [of rt rpc this type title message category entityType entityId
      actionData userId w] by auto

lemma fst_await_auditLog:
  "fst (await (auditLog rt rpc this tableName operation recordId oldData newData) (\<lambda>_. return x) w) =
     Inr x"
  using auditLog_total [of rt rpc this tableName operation recordId oldData newData w]
  by (auto simp: await_def return_def)

lemma fst_await_auditLog_unit:
  "fst (await (auditLog rt rpc this tableName operation recordId oldData newData) return w) = Inr ()"
  using auditLog_total [of rt rpc this tableName operation recordId oldData newData w]
  by (auto simp: await_def return_def)

lemma await_pair: "await (\<lambda>w. (Inr a, g w)) k = (\<lambda>w. k a (g w))"
  by (rule ext) (simp add: await_def)

lemma auditLog_agree:
  assumes "\<forall>q\<in>bookkeeping this. \<forall>ps. keeps view (rpc ''exec_sql'' q ps)"
  shows "agree view (auditLog rt (failing_on (bookkeeping this) rpc) this tableName operation recordId
            oldData newData)
          (auditLog rt rpc this tableName operation recordId oldData newData)"
proof (rule agree_settled [where r = "Inr ()"])
  show "keeps view (auditLog rt (failing_on (bookkeeping this) rpc) this tableName operation recordId
            oldData newData)"
    by (rule auditLog_keeps) (simp add: failing_keeps bookkeeping_def)
  show "keeps view (auditLog rt rpc this tableName operation recordId oldData newData)"
    by (rule auditLog_keeps) (simp add: assms bookkeeping_def)
qed simp_all

lemma createNotification_agree:
  assumes "\<forall>q\<in>bookkeeping this. \<forall>ps. keeps view (rpc ''exec_sql'' q ps)"
  shows "agree view (createNotification rt (failing_on (bookkeeping this) rpc) this type title message
            category entityType entityId actionData userId)
          (createNotification rt rpc this type title message category entityType entityId actionData
            userId)"
proof (rule agree_settled [where r = "Inr ()"])
  show "keeps view (createNotification rt (failing_on (bookkeeping this) rpc) this type title message
            category entityType entityId actionData userId)"
    by (rule createNotification_keeps) (simp add: failing_keeps bookkeeping_def)
  show "keeps view (createNotification rt rpc this type title message category entityType entityId
            actionData userId)"
    by (rule createNotification_keeps) (simp add: assms bookkeeping_def)
qed simp_all

lemmas agree_rules = agree_await agree_lift agree_if agree_return agree_throw

lemma cash_flow_delete_same:
  assumes "\<forall>q\<in>bookkeeping this. \<forall>ps. keeps view (rpc ''exec_sql'' q ps)"
  shows "same_outcome view
      (CashFlowService_delete rt (failing_on (bookkeeping this) rpc) this id' w)
      (CashFlowService_delete rt rpc this id' w)"
  unfolding CashFlowService_delete_def CashFlowService_getById_def main_queries
  apply (intro same_await)
  apply (rule agree_same)
  apply (intro agree_rules auditLog_agree createNotification_agree assms)
  done

lemma cash_flow_create_same:
  assumes "\<forall>q\<in>bookkeeping this. \<forall>ps. keeps view (rpc ''exec_sql'' q ps)"
  shows "same_outcome view
      (CashFlowService_create rt (failing_on (bookkeeping this) rpc) this transactionData w)
      (CashFlowService_create rt rpc this transactionData w)"
  unfolding CashFlowService_create_def main_queries Let_def case_prod_beta
  apply (intro same_await)
  apply (rule agree_same)
  apply (intro agree_rules auditLog_agree createNotification_agree assms)
  done

lemma cash_flow_update_same:
  assumes "\<forall>q\<in>bookkeeping this. \<forall>ps. keeps view (rpc ''exec_sql'' q ps)"
  shows "same_outcome view
      (CashFlowService_update rt (failing_on (bookkeeping this) rpc) this id' transactionData w)
      (CashFlowService_update rt rpc this id' transactionData w)"
  unfolding CashFlowService_update_def CashFlowService_getById_def main_queries Let_def case_prod_beta
  apply (intro same_await)
  apply (rule agree_same)
  apply (intro agree_rules auditLog_agree createNotification_agree assms)
  done

lemma publication_create_same:
  assumes "\<forall>q\<in>bookkeeping this. \<forall>ps. keeps view (rpc ''exec_sql'' q ps)"
  shows "same_outcome view
      (PublicationService_create rt (failing_on (bookkeeping this) rpc) this publicationData w)
      (PublicationService_create rt rpc this publicationData w)"
  unfolding PublicationService_create_def main_queries Let_def case_prod_beta
  apply (intro same_await)
  apply (rule agree_same)
  apply (intro agree_rules auditLog_agree createNotification_agree assms)
  done

lemma publication_updateStatus_same:
  assumes "\<forall>q\<in>bookkeeping this. \<forall>ps. keeps view (rpc ''exec_sql'' q ps)"
  shows "same_outcome view
      (PublicationService_updateStatus rt (failing_on (bookkeeping this) rpc) this id' status' observacoes w)
      (PublicationService_updateStatus rt rpc this id' status' observacoes w)"
  unfolding PublicationService_updateStatus_def PublicationService_getById_def main_queries Let_def case_prod_beta
  apply (intro same_await)
  apply (rule agree_same)
  apply (intro agree_rules auditLog_agree createNotification_agree assms)
  done

lemma publication_assignToUser_same:
  assumes "\<forall>q\<in>bookkeeping this. \<forall>ps. keeps view (rpc ''exec_sql'' q ps)"
  shows "same_outcome view
      (PublicationService_assignToUser rt (failing_on (bookkeeping this) rpc) this id' assignedUserId assignedUserName w)
      (PublicationService_assignToUser rt rpc this id' assignedUserId assignedUserName w)"
  unfolding PublicationService_assignToUser_def PublicationService_getById_def main_queries Let_def case_prod_beta
  apply (intro same_await)
  apply (rule agree_same)
  apply (intro agree_rules auditLog_agree createNotification_agree assms)
  done

lemma publication_delete_same:
  assumes "\<forall>q\<in>bookkeeping this. \<forall>ps. keeps view (rpc ''exec_sql'' q ps)"
  shows "same_outcome view
      (PublicationService_delete rt (failing_on (bookkeeping this) rpc) this id' w)
      (PublicationService_delete rt rpc this id' w)"
  unfolding PublicationService_delete_def PublicationService_getById_def main_queries Let_def case_prod_beta
  apply (intro same_await)
  apply (rule agree_same)
  apply (intro agree_rules auditLog_agree createNotification_agree assms)
  done

text \<open>The same for the five other services that call the two methods.\<close>

lemma main_queries_more:
  "query (failing_on (bookkeeping this) rpc) this sql_clients_by_id ps =
     query rpc this sql_clients_by_id ps"
  "query (failing_on (bookkeeping this) rpc) this sql_clients_insert ps =
     query rpc this sql_clients_insert ps"
  "query (failing_on (bookkeeping this) rpc) this sql_clients_update ps =
     query rpc this sql_clients_update ps"
  "query (failing_on (bookkeeping this) rpc) this sql_clients_delete ps =
     query rpc this sql_clients_delete ps"
  "query (failing_on (bookkeeping this) rpc) this sql_projects_by_id ps =
     query rpc this sql_projects_by_id ps"
  "query (failing_on (bookkeeping this) rpc) this sql_projects_insert ps =
     query rpc this sql_projects_insert ps"
  "query (failing_on (bookkeeping this) rpc) this sql_projects_update ps =
     query rpc this sql_projects_update ps"
  "query (failing_on (bookkeeping this) rpc) this sql_projects_delete ps =
     query rpc this sql_projects_delete ps"
  "query (failing_on (bookkeeping this) rpc) this sql_tasks_by_id ps =
     query rpc this sql_tasks_by_id ps"
  "query (failing_on (bookkeeping this) rpc) this sql_tasks_project ps =
     query rpc this sql_tasks_project ps"
  "query (failing_on (bookkeeping this) rpc) this sql_tasks_insert ps =
     query rpc this sql_tasks_insert ps"
  "query (failing_on (bookkeeping this) rpc) this sql_tasks_update ps =
     query rpc this sql_tasks_update ps"
  "query (failing_on (bookkeeping this) rpc) this sql_tasks_delete ps =
     query rpc this sql_tasks_delete ps"
  "query (failing_on (bookkeeping this) rpc) this sql_billing_by_id ps =
     query rpc this sql_billing_by_id ps"
  "query (failing_on (bookkeeping this) rpc) this sql_billing_count_type ps =
     query rpc this sql_billing_count_type ps"
  "query (failing_on (bookkeeping this) rpc) this sql_billing_insert ps =
     query rpc this sql_billing_insert ps"
  "query (failing_on (bookkeeping this) rpc) this sql_billing_update ps =
     query rpc this sql_billing_update ps"
  "query (failing_on (bookkeeping this) rpc) this sql_billing_delete ps =
     query rpc this sql_billing_delete ps"
  "query (failing_on (bookkeeping this) rpc) this sql_invoices_by_id ps =
     query rpc this sql_invoices_by_id ps"
  "query (failing_on (bookkeeping this) rpc) this sql_invoices_insert ps =
     query rpc this sql_invoices_insert ps"
  "query (failing_on (bookkeeping this) rpc) this sql_invoices_update ps =
     query rpc this sql_invoices_update ps"
  "query (failing_on (bookkeeping this) rpc) this sql_invoices_delete ps =
     query rpc this sql_invoices_delete ps"
  by (rule query_failing_on;
      simp add: sql_clients_by_id_def sql_clients_insert_def sql_clients_update_def
        sql_clients_delete_def sql_projects_by_id_def sql_projects_insert_def
        sql_projects_update_def sql_projects_delete_def sql_tasks_by_id_def sql_tasks_project_def
        sql_tasks_insert_def sql_tasks_update_def sql_tasks_delete_def sql_billing_by_id_def
        sql_billing_count_type_def sql_billing_insert_def sql_billing_update_def
        sql_billing_delete_def sql_invoices_by_id_def sql_invoices_insert_def
        sql_invoices_update_def sql_invoices_delete_def)+

lemma clients_create_same:
  assumes "\<forall>q\<in>bookkeeping this. \<forall>ps. keeps view (rpc ''exec_sql'' q ps)"
  shows "same_outcome view
      (ClientService_create rt (failing_on (bookkeeping this) rpc) this clientData w)
      (ClientService_create rt rpc this clientData w)"
  unfolding ClientService_create_def main_queries_more Let_def case_prod_beta
  apply (intro same_await)
  apply (rule agree_same)
  apply (intro agree_rules auditLog_agree createNotification_agree assms)
  done

lemma clients_update_same:
  assumes "\<forall>q\<in>bookkeeping this. \<forall>ps. keeps view (rpc ''exec_sql'' q ps)"
  shows "same_outcome view
      (ClientService_update rt (failing_on (bookkeeping this) rpc) this id' clientData w)
      (ClientService_update rt rpc this id' clientData w)"
  unfolding ClientService_update_def ClientService_getById_def main_queries_more Let_def case_prod_beta
  apply (intro same_await)
  apply (rule agree_same)
  apply (intro agree_rules auditLog_agree createNotification_agree assms)
  done

lemma clients_delete_same:
  assumes "\<forall>q\<in>bookkeeping this. \<forall>ps. keeps view (rpc ''exec_sql'' q ps)"
  shows "same_outcome view
      (ClientService_delete rt (failing_on (bookkeeping this) rpc) this id' w)
      (ClientService_delete rt rpc this id' w)"
  unfolding ClientService_delete_def ClientService_getById_def main_queries_more Let_def case_prod_beta
  apply (intro same_await)
  apply (rule agree_same)
  apply (intro agree_rules auditLog_agree createNotification_agree assms)
  done

lemma projects_create_same:
  assumes "\<forall>q\<in>bookkeeping this. \<forall>ps. keeps view (rpc ''exec_sql'' q ps)"
  shows "same_outcome view
      (ProjectService_create rt (failing_on (bookkeeping this) rpc) this projectData w)
      (ProjectService_create rt rpc this projectData w)"
  unfolding ProjectService_create_def main_queries_more Let_def case_prod_beta
  apply (intro same_await)
  apply (rule agree_same)
  apply (intro agree_rules auditLog_agree createNotification_agree assms)
  done

lemma projects_update_same:
  assumes "\<forall>q\<in>bookkeeping this. \<forall>ps. keeps view (rpc ''exec_sql'' q ps)"
  shows "same_outcome view
      (ProjectService_update rt (failing_on (bookkeeping this) rpc) this id' projectData w)
      (ProjectService_update rt rpc this id' projectData w)"
  unfolding ProjectService_update_def ProjectService_getById_def main_queries_more Let_def case_prod_beta
  apply (intro same_await)
  apply (rule agree_same)
  apply (intro agree_rules auditLog_agree createNotification_agree assms)
  done

lemma projects_delete_same:
  assumes "\<forall>q\<in>bookkeeping this. \<forall>ps. keeps view (rpc ''exec_sql'' q ps)"
  shows "same_outcome view
      (ProjectService_delete rt (failing_on (bookkeeping this) rpc) this id' w)
      (ProjectService_delete rt rpc this id' w)"
  unfolding ProjectService_delete_def ProjectService_getById_def main_queries_more Let_def case_prod_beta
  apply (intro same_await)
  apply (rule agree_same)
  apply (intro agree_rules auditLog_agree createNotification_agree assms)
  done

lemma tasks_create_same:
  assumes "\<forall>q\<in>bookkeeping this. \<forall>ps. keeps view (rpc ''exec_sql'' q ps)"
  shows "same_outcome view
      (TaskService_create rt (failing_on (bookkeeping this) rpc) this taskData w)
      (TaskService_create rt rpc this taskData w)"
  unfolding TaskService_create_def main_queries_more Let_def case_prod_beta
  apply (intro same_await)
  apply (rule agree_same)
  apply (intro agree_rules auditLog_agree createNotification_agree assms)
  done

lemma tasks_update_same:
  assumes "\<forall>q\<in>bookkeeping this. \<forall>ps. keeps view (rpc ''exec_sql'' q ps)"
  shows "same_outcome view
      (TaskService_update rt (failing_on (bookkeeping this) rpc) this id' taskData w)
      (TaskService_update rt rpc this id' taskData w)"
  unfolding TaskService_update_def TaskService_getById_def main_queries_more Let_def case_prod_beta
  apply (intro same_await)
  apply (rule agree_same)
  apply (intro agree_rules auditLog_agree createNotification_agree assms)
  done

lemma tasks_delete_same:
  assumes "\<forall>q\<in>bookkeeping this. \<forall>ps. keeps view (rpc ''exec_sql'' q ps)"
  shows "same_outcome view
      (TaskService_delete rt (failing_on (bookkeeping this) rpc) this id' w)
      (TaskService_delete rt rpc this id' w)"
  unfolding TaskService_delete_def TaskService_getById_def main_queries_more Let_def case_prod_beta
  apply (intro same_await)
  apply (rule agree_same)
  apply (intro agree_rules auditLog_agree createNotification_agree assms)
  done

lemma billing_create_same:
  assumes "\<forall>q\<in>bookkeeping this. \<forall>ps. keeps view (rpc ''exec_sql'' q ps)"
  shows "same_outcome view
      (BillingService_create rt (failing_on (bookkeeping this) rpc) this billingData w)
      (BillingService_create rt rpc this billingData w)"
  unfolding BillingService_create_def main_queries_more Let_def case_prod_beta
  apply (intro same_await)
  apply (rule agree_same)
  apply (intro agree_rules auditLog_agree createNotification_agree assms)
  done

lemma billing_update_same:
  assumes "\<forall>q\<in>bookkeeping this. \<forall>ps. keeps view (rpc ''exec_sql'' q ps)"
  shows "same_outcome view
      (BillingService_update rt (failing_on (bookkeeping this) rpc) this id' billingData w)
      (BillingService_update rt rpc this id' billingData w)"
  unfolding BillingService_update_def BillingService_getById_def main_queries_more Let_def case_prod_beta
  apply (intro same_await)
  apply (rule agree_same)
  apply (intro agree_rules auditLog_agree createNotification_agree assms)
  done

lemma billing_delete_same:
  assumes "\<forall>q\<in>bookkeeping this. \<forall>ps. keeps view (rpc ''exec_sql'' q ps)"
  shows "same_outcome view
      (BillingService_delete rt (failing_on (bookkeeping this) rpc) this id' w)
      (BillingService_delete rt rpc this id' w)"
  unfolding BillingService_delete_def BillingService_getById_def main_queries_more Let_def case_prod_beta
  apply (intro same_await)
  apply (rule agree_same)
  apply (intro agree_rules auditLog_agree createNotification_agree assms)
  done

lemma invoices_create_same:
  assumes "\<forall>q\<in>bookkeeping this. \<forall>ps. keeps view (rpc ''exec_sql'' q ps)"
  shows "same_outcome view
      (InvoiceService_create rt (failing_on (bookkeeping this) rpc) this invoiceData w)
      (InvoiceService_create rt rpc this invoiceData w)"
  unfolding InvoiceService_create_def main_queries_more Let_def case_prod_beta
  apply (intro same_await)
  apply (rule agree_same)
  apply (intro agree_rules auditLog_agree createNotification_agree assms)
  done

lemma invoices_update_same:
  assumes "\<forall>q\<in>bookkeeping this. \<forall>ps. keeps view (rpc ''exec_sql'' q ps)"
  shows "same_outcome view
      (InvoiceService_update rt (failing_on (bookkeeping this) rpc) this id' invoiceData w)
      (InvoiceService_update rt rpc this id' invoiceData w)"
  unfolding InvoiceService_update_def InvoiceService_getById_def main_queries_more Let_def case_prod_beta
  apply (intro same_await)
  apply (rule agree_same)
  apply (intro agree_rules auditLog_agree createNotification_agree assms)
  done

lemma invoices_delete_same:
  assumes "\<forall>q\<in>bookkeeping this. \<forall>ps. keeps view (rpc ''exec_sql'' q ps)"
  shows "same_outcome view
      (InvoiceService_delete rt (failing_on (bookkeeping this) rpc) this id' w)
      (InvoiceService_delete rt rpc this id' w)"
  unfolding InvoiceService_delete_def InvoiceService_getById_def main_queries_more Let_def case_prod_beta
  apply (intro same_await)
  apply (rule agree_same)
  apply (intro agree_rules auditLog_agree createNotification_agree assms)
  done

text \<open>
  C9. \<open>auditLog\<close> and \<open>createNotification\<close> return normally whatever the database does.
  For \<open>create\<close>, \<open>update\<close> and \<open>delete\<close> of each of the seven services that call them
  (\<open>CashFlowService\<close>, \<open>PublicationService\<close>, with its \<open>updateStatus\<close> and \<open>assignToUser\<close>,
  \<open>ClientService\<close>, \<open>ProjectService\<close>, \<open>TaskService\<close>, \<open>BillingService\<close> and
  \<open>InvoiceService\<close>): on a database where the \<open>INSERT\<close> into \<open>audit_log\<close> and the \<open>INSERT\<close>
  into \<open>notifications\<close> fail, the operation has the same result as on the database where
  they work, and every part of the world that these two statements do not touch is the
  same after the operation.
\<close>

theorem bookkeeping_failures_are_harmless:
  "(\<exists>w'. auditLog rt rpc this tableName operation recordId oldData newData w = (Inr (), w')) \<and>
   (\<exists>w'. createNotification rt rpc this type title message category entityType entityId actionData
            userId w = (Inr (), w')) \<and>
   ((\<forall>q\<in>bookkeeping this. \<forall>ps. keeps view (rpc ''exec_sql'' q ps)) \<longrightarrow>
      same_outcome view
        (CashFlowService_create rt (failing_on (bookkeeping this) rpc) this transactionData w)
        (CashFlowService_create rt rpc this transactionData w) \<and>
      same_outcome view
        (CashFlowService_update rt (failing_on (bookkeeping this) rpc) this id' transactionData w)
        (CashFlowService_update rt rpc this id' transactionData w) \<and>
      same_outcome view
        (CashFlowService_delete rt (failing_on (bookkeeping this) rpc) this id' w)
        (CashFlowService_delete rt rpc this id' w) \<and>
      same_outcome view
        (PublicationService_create rt (failing_on (bookkeeping this) rpc) this publicationData w)
        (PublicationService_create rt rpc this publicationData w) \<and>
      same_outcome view
        (PublicationService_updateStatus rt (failing_on (bookkeeping this) rpc) this id' status'
           observacoes w)
        (PublicationService_updateStatus rt rpc this id' status' observacoes w) \<and>
      same_outcome view
        (PublicationService_assignToUser rt (failing_on (bookkeeping this) rpc) this id'
           assignedUserId assignedUserName w)
        (PublicationService_assignToUser rt rpc this id' assignedUserId assignedUserName w) \<and>
      same_outcome view
        (PublicationService_delete rt (failing_on (bookkeeping this) rpc) this id' w)
        (PublicationService_delete rt rpc this id' w) \<and>
      same_outcome view
        (ClientService_create rt (failing_on (bookkeeping this) rpc) this clientData w)
        (ClientService_create rt rpc this clientData w) \<and>
      same_outcome view
        (ClientService_update rt (failing_on (bookkeeping this) rpc) this id' clientData w)
        (ClientService_update rt rpc this id' clientData w) \<and>
      same_outcome view
        (ClientService_delete rt (failing_on (bookkeeping this) rpc) this id' w)
        (ClientService_delete rt rpc this id' w) \<and>
      same_outcome view
        (ProjectService_create rt (failing_on (bookkeeping this) rpc) this projectData w)
        (ProjectService_create rt rpc this projectData w) \<and>
      same_outcome view
        (ProjectService_update rt (failing_on (bookkeeping this) rpc) this id' projectData w)
        (ProjectService_update rt rpc this id' projectData w) \<and>
      same_outcome view
        (ProjectService_delete rt (failing_on (bookkeeping this) rpc) this id' w)
        (ProjectService_delete rt rpc this id' w) \<and>
      same_outcome view
        (TaskService_create rt (failing_on (bookkeeping this) rpc) this taskData w)
        (TaskService_create rt rpc this taskData w) \<and>
      same_outcome view
        (TaskService_update rt (failing_on (bookkeeping this) rpc) this id' taskData w)
        (TaskService_update rt rpc this id' taskData w) \<and>
      same_outcome view
        (TaskService_delete rt (failing_on (bookkeeping this) rpc) this id' w)
        (TaskService_delete rt rpc this id' w) \<and>
      same_outcome view
        (BillingService_create rt (failing_on (bookkeeping this) rpc) this billingData w)
        (BillingService_create rt rpc this billingData w) \<and>
      same_outcome view
        (BillingService_update rt (failing_on (bookkeeping this) rpc) this id' billingData w)
        (BillingService_update rt rpc this id' billingData w) \<and>
      same_outcome view
        (BillingService_delete rt (failing_on (bookkeeping this) rpc) this id' w)
        (BillingService_delete rt rpc this id' w) \<and>
      same_outcome view
        (InvoiceService_create rt (failing_on (bookkeeping this) rpc) this invoiceData w)
        (InvoiceService_create rt rpc this invoiceData w) \<and>
      same_outcome view
        (InvoiceService_update rt (failing_on (bookkeeping this) rpc) this id' invoiceData w)
        (InvoiceService_update rt rpc this id' invoiceData w) \<and>
      same_outcome view
        (InvoiceService_delete rt (failing_on (bookkeeping this) rpc) this id' w)
        (InvoiceService_delete rt rpc this id' w))"
  using auditLog_total [of rt rpc this tableName operation recordId oldData newData w]
    createNotification_total [of rt rpc this type title message category entityType entityId
      actionData userId w]
    cash_flow_create_same [of this view rpc rt transactionData w]
    cash_flow_update_same [of this view rpc rt id' transactionData w]
    cash_flow_delete_same [of this view rpc rt id' w]
    publication_create_same [of this view rpc rt publicationData w]
    publication_updateStatus_same [of this view rpc rt id' status' observacoes w]
    publication_assignToUser_same [of this view rpc rt id' assignedUserId assignedUserName w]
    publication_delete_same [of this view rpc rt id' w]
    clients_create_same [of this view rpc rt clientData w]
    clients_update_same [of this view rpc rt id' clientData w]
    clients_delete_same [of this view rpc rt id' w]
    projects_create_same [of this view rpc rt projectData w]
    projects_update_same [of this view rpc rt id' projectData w]
    projects_delete_same [of this view rpc rt id' w]
    tasks_create_same [of this view rpc rt taskData w]
    tasks_update_same [of this view rpc rt id' taskData w]
    tasks_delete_same [of this view rpc rt id' w]
    billing_create_same [of this view rpc rt billingData w]
    billing_update_same [of this view rpc rt id' billingData w]
    billing_delete_same [of this view rpc rt id' w]
    invoices_create_same [of this view rpc rt invoiceData w]
    invoices_update_same [of this view rpc rt id' invoiceData w]
    invoices_delete_same [of this view rpc rt id' w]
  by blast

text \<open>
  The theorem for Bia on the double that keeps the calls of the two \<open>INSERT\<close>s apart: the
  view is the list of the other calls. The deletion of a transaction succeeds on both
  databases, with the same calls before the audit log.
\<close>

theorem bookkeeping_failures_are_harmless_witness:
  "keeps fst (ledger_rpc (bookkeeping (new_BaseService (user_of bia))) ''exec_sql''
      (replace_schema sql_audit_log (this_tenantSchema (new_BaseService (user_of bia)))) []) \<and>
   same_outcome fst
     (CashFlowService_delete test_rt
        (failing_on (bookkeeping (new_BaseService (user_of bia)))
           (ledger_rpc (bookkeeping (new_BaseService (user_of bia)))))
        (new_BaseService (user_of bia)) ''p1'' ([], []))
     (CashFlowService_delete test_rt (ledger_rpc (bookkeeping (new_BaseService (user_of bia))))
        (new_BaseService (user_of bia)) ''p1'' ([], [])) \<and>
   fst (CashFlowService_delete test_rt
        (failing_on (bookkeeping (new_BaseService (user_of bia)))
           (ledger_rpc (bookkeeping (new_BaseService (user_of bia)))))
        (new_BaseService (user_of bia)) ''p1'' ([], [])) = Inr ()"
proof -
  let ?bs = "new_BaseService (user_of bia)"
  have k: "\<forall>q\<in>bookkeeping ?bs. \<forall>ps. keeps fst (ledger_rpc (bookkeeping ?bs) ''exec_sql'' q ps)"
    by (simp add: keeps_def ledger_rpc_def)
  have k1: "keeps fst (ledger_rpc (bookkeeping ?bs) ''exec_sql''
      (replace_schema sql_audit_log (this_tenantSchema ?bs)) [])"
    using k by (simp add: bookkeeping_def)
  have p: "requirePermission ?bs ''write'' ''cash_flow'' = Inr True"
    "requirePermission ?bs ''read'' ''cash_flow'' = Inr True"
    by (simp_all add: requirePermission_def new_BaseService_def user_of_def bia_def)
  have q: "query (ledger_rpc (bookkeeping ?bs)) ?bs sql ps =
      (\<lambda>w. (Inr (JArr [JObj [(''id'', JStr ''p1'')]]),
         snd (ledger_rpc (bookkeeping ?bs) ''exec_sql'' (replace_schema sql (this_tenantSchema ?bs)) ps w)))"
    for sql ps
    by (rule ext) (simp add: query_def Let_def try_catch_def await_def return_def ledger_rpc_def)
  have d: "fst (CashFlowService_delete test_rt (ledger_rpc (bookkeeping ?bs)) ?bs ''p1'' ([], [])) =
      Inr ()"
    by (simp add: CashFlowService_delete_def CashFlowService_getById_def p q no_rows_def
        await_pair fst_await_auditLog fst_await_auditLog_unit return_def)
  from bookkeeping_failures_are_harmless [where rt = test_rt
      and rpc = "ledger_rpc (bookkeeping ?bs)" and this = ?bs and w = "([], [])" and view = fst
      and id' = "''p1''"] k
  have s: "same_outcome fst
     (CashFlowService_delete test_rt (failing_on (bookkeeping ?bs) (ledger_rpc (bookkeeping ?bs)))
        ?bs ''p1'' ([], []))
     (CashFlowService_delete test_rt (ledger_rpc (bookkeeping ?bs)) ?bs ''p1'' ([], []))"
    by simp
  from s d have "fst (CashFlowService_delete test_rt
        (failing_on (bookkeeping ?bs) (ledger_rpc (bookkeeping ?bs))) ?bs ''p1'' ([], [])) = Inr ()"
    by (simp add: same_outcome_def)
  with k1 s show ?thesis by blast
qed

section \<open>Publications of one user (C1)\<close>

lemma placeholder_brace:
  "take (length placeholder) (c # cs) = placeholder \<Longrightarrow> CHR 0x7B \<in> set cs"
  by (cases cs) (simp_all add: placeholder_def)

lemma replace_from_no_brace:
  "CHR 0x7B \<notin> set t \<Longrightarrow> replace_from rep pre t = t"
proof (induction t arbitrary: pre)
  case Nil
  then show ?case by simp
next
  case (Cons c t)
  have "take (length placeholder) (c # t) \<noteq> placeholder"
    using Cons.prems placeholder_brace [of c t] by auto
  with Cons show ?case by simp
qed

lemma replace_schema_one:
  assumes "CHR ''$'' \<notin> set pre" and "CHR 0x7B \<notin> set post" and "CHR ''$'' \<notin> set s"
  shows "replace_schema (pre @ placeholder @ post) s = pre @ s @ post"
proof -
  have "replace_from s ([] @ pre) (placeholder @ post) =
      GetSubstitution placeholder ([] @ pre) post s @ replace_from s (([] @ pre) @ placeholder) post"
    by (simp add: placeholder_def)
  then show ?thesis
    unfolding replace_schema_def
    using replace_from_prefix [OF assms(1), of s "[]" "placeholder @ post"]
      replace_from_no_brace [OF assms(2)] GetSubstitution_plain [OF assms(3)]
    by simp
qed

text \<open>The texts of the statements of the double, with a schema in the place of the placeholder.\<close>

lemma text_all_plain:
  assumes "CHR ''$'' \<notin> set s"
  shows "replace_schema (sql_all_plain) s =
     ('''' @ nl @
       ''      SELECT * FROM '') @ s @
     (''.publications '' @ nl @
       ''      WHERE user_id = $1'' @ nl @
       ''     ORDER BY data_publicacao DESC, created_at DESC'')"
proof -
  have t: "sql_all_plain =
     ('''' @ nl @
       ''      SELECT * FROM '') @ placeholder @
     (''.publications '' @ nl @
       ''      WHERE user_id = $1'' @ nl @
       ''     ORDER BY data_publicacao DESC, created_at DESC'')"
    by (simp add: sql_all_plain_def sql_all_search_def sql_all_status_def sql_all_search_status_def
      sql_publications_all_def sql_publications_by_id_def sql_publications_status_def
      sql_publications_assign_def sql_publications_delete_def sql_publications_count_def
      sql_publications_count_status_def sql_audit_log_def sql_notifications_def placeholder_def)
  show ?thesis
    unfolding t by (rule replace_schema_one) (simp_all add: assms)
qed

lemma text_all_search:
  assumes "CHR ''$'' \<notin> set s"
  shows "replace_schema (sql_all_search) s =
     ('''' @ nl @
       ''      SELECT * FROM '') @ s @
     (''.publications '' @ nl @
       ''      WHERE user_id = $1'' @ nl @
       ''     AND (processo ILIKE $2 OR nome_pesquisado ILIKE $2) ORDER BY data_publicacao DESC, created_at DESC'')"
proof -
  have t: "sql_all_search =
     ('''' @ nl @
       ''      SELECT * FROM '') @ placeholder @
     (''.publications '' @ nl @
       ''      WHERE user_id = $1'' @ nl @
       ''     AND (processo ILIKE $2 OR nome_pesquisado ILIKE $2) ORDER BY data_publicacao DESC, created_at DESC'')"
    by (simp add: sql_all_plain_def sql_all_search_def sql_all_status_def sql_all_search_status_def
      sql_publications_all_def sql_publications_by_id_def sql_publications_status_def
      sql_publications_assign_def sql_publications_delete_def sql_publications_count_def
      sql_publications_count_status_def sql_audit_log_def sql_notifications_def placeholder_def)
  show ?thesis
    unfolding t by (rule replace_schema_one) (simp_all add: assms)
qed

lemma text_all_status:
  assumes "CHR ''$'' \<notin> set s"
  shows "replace_schema (sql_all_status) s =
     ('''' @ nl @
       ''      SELECT * FROM '') @ s @
     (''.publications '' @ nl @
       ''      WHERE user_id = $1'' @ nl @
       ''     AND status = $2 ORDER BY data_publicacao DESC, created_at DESC'')"
proof -
  have t: "sql_all_status =
     ('''' @ nl @
       ''      SELECT * FROM '') @ placeholder @
     (''.publications '' @ nl @
       ''      WHERE user_id = $1'' @ nl @
       ''     AND status = $2 ORDER BY data_publicacao DESC, created_at DESC'')"
    by (simp add: sql_all_plain_def sql_all_search_def sql_all_status_def sql_all_search_status_def
      sql_publications_all_def sql_publications_by_id_def sql_publications_status_def
      sql_publications_assign_def sql_publications_delete_def sql_publications_count_def
      sql_publications_count_status_def sql_audit_log_def sql_notifications_def placeholder_def)
  show ?thesis
    unfolding t by (rule replace_schema_one) (simp_all add: assms)
qed

lemma text_all_search_status:
  assumes "CHR ''$'' \<notin> set s"
  shows "replace_schema (sql_all_search_status) s =
     ('''' @ nl @
       ''      SELECT * FROM '') @ s @
     (''.publications '' @ nl @
       ''      WHERE user_id = $1'' @ nl @
       ''     AND (processo ILIKE $2 OR nome_pesquisado ILIKE $2) AND status = $3 ORDER BY data_publicacao DESC, created_at DESC'')"
proof -
  have t: "sql_all_search_status =
     ('''' @ nl @
       ''      SELECT * FROM '') @ placeholder @
     (''.publications '' @ nl @
       ''      WHERE user_id = $1'' @ nl @
       ''     AND (processo ILIKE $2 OR nome_pesquisado ILIKE $2) AND status = $3 ORDER BY data_publicacao DESC, created_at DESC'')"
    by (simp add: sql_all_plain_def sql_all_search_def sql_all_status_def sql_all_search_status_def
      sql_publications_all_def sql_publications_by_id_def sql_publications_status_def
      sql_publications_assign_def sql_publications_delete_def sql_publications_count_def
      sql_publications_count_status_def sql_audit_log_def sql_notifications_def placeholder_def)
  show ?thesis
    unfolding t by (rule replace_schema_one) (simp_all add: assms)
qed

lemma text_by_id:
  assumes "CHR ''$'' \<notin> set s"
  shows "replace_schema (sql_publications_by_id) s =
     ('''' @ nl @
       ''      SELECT * FROM '') @ s @
     (''.publications '' @ nl @
       ''      WHERE id = $1 AND user_id = $2'' @ nl @
       ''    '')"
proof -
  have t: "sql_publications_by_id =
     ('''' @ nl @
       ''      SELECT * FROM '') @ placeholder @
     (''.publications '' @ nl @
       ''      WHERE id = $1 AND user_id = $2'' @ nl @
       ''    '')"
    by (simp add: sql_all_plain_def sql_all_search_def sql_all_status_def sql_all_search_status_def
      sql_publications_all_def sql_publications_by_id_def sql_publications_status_def
      sql_publications_assign_def sql_publications_delete_def sql_publications_count_def
      sql_publications_count_status_def sql_audit_log_def sql_notifications_def placeholder_def)
  show ?thesis
    unfolding t by (rule replace_schema_one) (simp_all add: assms)
qed

lemma text_status:
  assumes "CHR ''$'' \<notin> set s"
  shows "replace_schema (sql_publications_status) s =
     ('''' @ nl @
       ''      UPDATE '') @ s @
     (''.publications SET'' @ nl @
       ''        status = $1,'' @ nl @
       ''        observacoes = COALESCE($2, observacoes),'' @ nl @
       ''        updated_at = NOW()'' @ nl @
       ''      WHERE id = $3 AND user_id = $4'' @ nl @
       ''      RETURNING *'' @ nl @
       ''    '')"
proof -
  have t: "sql_publications_status =
     ('''' @ nl @
       ''      UPDATE '') @ placeholder @
     (''.publications SET'' @ nl @
       ''        status = $1,'' @ nl @
       ''        observacoes = COALESCE($2, observacoes),'' @ nl @
       ''        updated_at = NOW()'' @ nl @
       ''      WHERE id = $3 AND user_id = $4'' @ nl @
       ''      RETURNING *'' @ nl @
       ''    '')"
    by (simp add: sql_all_plain_def sql_all_search_def sql_all_status_def sql_all_search_status_def
      sql_publications_all_def sql_publications_by_id_def sql_publications_status_def
      sql_publications_assign_def sql_publications_delete_def sql_publications_count_def
      sql_publications_count_status_def sql_audit_log_def sql_notifications_def placeholder_def)
  show ?thesis
    unfolding t by (rule replace_schema_one) (simp_all add: assms)
qed

lemma text_assign:
  assumes "CHR ''$'' \<notin> set s"
  shows "replace_schema (sql_publications_assign) s =
     ('''' @ nl @
       ''      UPDATE '') @ s @
     (''.publications SET'' @ nl @
       ''        status = '' @ sq @ ''atribuida'' @ sq @ '','' @ nl @
       ''        responsavel = $1,'' @ nl @
       ''        atribuido_para_id = $2,'' @ nl @
       ''        atribuido_para_nome = $3,'' @ nl @
       ''        data_atribuicao = NOW(),'' @ nl @
       ''        updated_at = NOW()'' @ nl @
       ''      WHERE id = $4 AND user_id = $5'' @ nl @
       ''      RETURNING *'' @ nl @
       ''    '')"
proof -
  have t: "sql_publications_assign =
     ('''' @ nl @
       ''      UPDATE '') @ placeholder @
     (''.publications SET'' @ nl @
       ''        status = '' @ sq @ ''atribuida'' @ sq @ '','' @ nl @
       ''        responsavel = $1,'' @ nl @
       ''        atribuido_para_id = $2,'' @ nl @
       ''        atribuido_para_nome = $3,'' @ nl @
       ''        data_atribuicao = NOW(),'' @ nl @
       ''        updated_at = NOW()'' @ nl @
       ''      WHERE id = $4 AND user_id = $5'' @ nl @
       ''      RETURNING *'' @ nl @
       ''    '')"
    by (simp add: sql_all_plain_def sql_all_search_def sql_all_status_def sql_all_search_status_def
      sql_publications_all_def sql_publications_by_id_def sql_publications_status_def
      sql_publications_assign_def sql_publications_delete_def sql_publications_count_def
      sql_publications_count_status_def sql_audit_log_def sql_notifications_def placeholder_def)
  show ?thesis
    unfolding t by (rule replace_schema_one) (simp_all add: assms)
qed

lemma text_delete:
  assumes "CHR ''$'' \<notin> set s"
  shows "replace_schema (sql_publications_delete) s =
     ('''' @ nl @
       ''      DELETE FROM '') @ s @
     (''.publications '' @ nl @
       ''      WHERE id = $1 AND user_id = $2'' @ nl @
       ''    '')"
proof -
  have t: "sql_publications_delete =
     ('''' @ nl @
       ''      DELETE FROM '') @ placeholder @
     (''.publications '' @ nl @
       ''      WHERE id = $1 AND user_id = $2'' @ nl @
       ''    '')"
    by (simp add: sql_all_plain_def sql_all_search_def sql_all_status_def sql_all_search_status_def
      sql_publications_all_def sql_publications_by_id_def sql_publications_status_def
      sql_publications_assign_def sql_publications_delete_def sql_publications_count_def
      sql_publications_count_status_def sql_audit_log_def sql_notifications_def placeholder_def)
  show ?thesis
    unfolding t by (rule replace_schema_one) (simp_all add: assms)
qed

lemma text_count:
  assumes "CHR ''$'' \<notin> set s"
  shows "replace_schema (sql_publications_count) s =
     (''SELECT COUNT(*) as count FROM '') @ s @
     (''.publications WHERE user_id = $1'')"
proof -
  have t: "sql_publications_count =
     (''SELECT COUNT(*) as count FROM '') @ placeholder @
     (''.publications WHERE user_id = $1'')"
    by (simp add: sql_all_plain_def sql_all_search_def sql_all_status_def sql_all_search_status_def
      sql_publications_all_def sql_publications_by_id_def sql_publications_status_def
      sql_publications_assign_def sql_publications_delete_def sql_publications_count_def
      sql_publications_count_status_def sql_audit_log_def sql_notifications_def placeholder_def)
  show ?thesis
    unfolding t by (rule replace_schema_one) (simp_all add: assms)
qed

lemma text_count_status_nova:
  assumes "CHR ''$'' \<notin> set s"
  shows "replace_schema (sql_publications_count_status ''nova'') s =
     (''SELECT COUNT(*) as count FROM '') @ s @
     (''.publications WHERE user_id = $1 AND status = '' @ sq @ ''nova'' @ sq)"
proof -
  have t: "sql_publications_count_status ''nova'' =
     (''SELECT COUNT(*) as count FROM '') @ placeholder @
     (''.publications WHERE user_id = $1 AND status = '' @ sq @ ''nova'' @ sq)"
    by (simp add: sql_all_plain_def sql_all_search_def sql_all_status_def sql_all_search_status_def
      sql_publications_all_def sql_publications_by_id_def sql_publications_status_def
      sql_publications_assign_def sql_publications_delete_def sql_publications_count_def
      sql_publications_count_status_def sql_audit_log_def sql_notifications_def placeholder_def)
  show ?thesis
    unfolding t by (rule replace_schema_one) (simp_all add: assms)
qed

lemma text_count_status_pendente:
  assumes "CHR ''$'' \<notin> set s"
  shows "replace_schema (sql_publications_count_status ''pendente'') s =
     (''SELECT COUNT(*) as count FROM '') @ s @
     (''.publications WHERE user_id = $1 AND status = '' @ sq @ ''pendente'' @ sq)"
proof -
  have t: "sql_publications_count_status ''pendente'' =
     (''SELECT COUNT(*) as count FROM '') @ placeholder @
     (''.publications WHERE user_id = $1 AND status = '' @ sq @ ''pendente'' @ sq)"
    by (simp add: sql_all_plain_def sql_all_search_def sql_all_status_def sql_all_search_status_def
      sql_publications_all_def sql_publications_by_id_def sql_publications_status_def
      sql_publications_assign_def sql_publications_delete_def sql_publications_count_def
      sql_publications_count_status_def sql_audit_log_def sql_notifications_def placeholder_def)
  show ?thesis
    unfolding t by (rule replace_schema_one) (simp_all add: assms)
qed

lemma text_count_status_atribuida:
  assumes "CHR ''$'' \<notin> set s"
  shows "replace_schema (sql_publications_count_status ''atribuida'') s =
     (''SELECT COUNT(*) as count FROM '') @ s @
     (''.publications WHERE user_id = $1 AND status = '' @ sq @ ''atribuida'' @ sq)"
proof -
  have t: "sql_publications_count_status ''atribuida'' =
     (''SELECT COUNT(*) as count FROM '') @ placeholder @
     (''.publications WHERE user_id = $1 AND status = '' @ sq @ ''atribuida'' @ sq)"
    by (simp add: sql_all_plain_def sql_all_search_def sql_all_status_def sql_all_search_status_def
      sql_publications_all_def sql_publications_by_id_def sql_publications_status_def
      sql_publications_assign_def sql_publications_delete_def sql_publications_count_def
      sql_publications_count_status_def sql_audit_log_def sql_notifications_def placeholder_def)
  show ?thesis
    unfolding t by (rule replace_schema_one) (simp_all add: assms)
qed

lemma text_count_status_finalizada:
  assumes "CHR ''$'' \<notin> set s"
  shows "replace_schema (sql_publications_count_status ''finalizada'') s =
     (''SELECT COUNT(*) as count FROM '') @ s @
     (''.publications WHERE user_id = $1 AND status = '' @ sq @ ''finalizada'' @ sq)"
proof -
  have t: "sql_publications_count_status ''finalizada'' =
     (''SELECT COUNT(*) as count FROM '') @ placeholder @
     (''.publications WHERE user_id = $1 AND status = '' @ sq @ ''finalizada'' @ sq)"
    by (simp add: sql_all_plain_def sql_all_search_def sql_all_status_def sql_all_search_status_def
      sql_publications_all_def sql_publications_by_id_def sql_publications_status_def
      sql_publications_assign_def sql_publications_delete_def sql_publications_count_def
      sql_publications_count_status_def sql_audit_log_def sql_notifications_def placeholder_def)
  show ?thesis
    unfolding t by (rule replace_schema_one) (simp_all add: assms)
qed

lemma text_count_status_descartada:
  assumes "CHR ''$'' \<notin> set s"
  shows "replace_schema (sql_publications_count_status ''descartada'') s =
     (''SELECT COUNT(*) as count FROM '') @ s @
     (''.publications WHERE user_id = $1 AND status = '' @ sq @ ''descartada'' @ sq)"
proof -
  have t: "sql_publications_count_status ''descartada'' =
     (''SELECT COUNT(*) as count FROM '') @ placeholder @
     (''.publications WHERE user_id = $1 AND status = '' @ sq @ ''descartada'' @ sq)"
    by (simp add: sql_all_plain_def sql_all_search_def sql_all_status_def sql_all_search_status_def
      sql_publications_all_def sql_publications_by_id_def sql_publications_status_def
      sql_publications_assign_def sql_publications_delete_def sql_publications_count_def
      sql_publications_count_status_def sql_audit_log_def sql_notifications_def placeholder_def)
  show ?thesis
    unfolding t by (rule replace_schema_one) (simp_all add: assms)
qed

lemma text_audit_log:
  assumes "CHR ''$'' \<notin> set s"
  shows "replace_schema (sql_audit_log) s =
     ('''' @ nl @
       ''        INSERT INTO '') @ s @
     (''.audit_log ('' @ nl @
       ''          user_id, table_name, record_id, operation, old_data, new_data, created_at'' @ nl @
       ''        ) VALUES ($1, $2, $3, $4, $5, $6, NOW())'' @ nl @
       ''      '')"
proof -
  have t: "sql_audit_log =
     ('''' @ nl @
       ''        INSERT INTO '') @ placeholder @
     (''.audit_log ('' @ nl @
       ''          user_id, table_name, record_id, operation, old_data, new_data, created_at'' @ nl @
       ''        ) VALUES ($1, $2, $3, $4, $5, $6, NOW())'' @ nl @
       ''      '')"
    by (simp add: sql_all_plain_def sql_all_search_def sql_all_status_def sql_all_search_status_def
      sql_publications_all_def sql_publications_by_id_def sql_publications_status_def
      sql_publications_assign_def sql_publications_delete_def sql_publications_count_def
      sql_publications_count_status_def sql_audit_log_def sql_notifications_def placeholder_def)
  show ?thesis
    unfolding t by (rule replace_schema_one) (simp_all add: assms)
qed

lemma text_notifications:
  assumes "CHR ''$'' \<notin> set s"
  shows "replace_schema (sql_notifications) s =
     ('''' @ nl @
       ''        INSERT INTO '') @ s @
     (''.notifications ('' @ nl @
       ''          type, title, message, category, entity_type, entity_id, '' @ nl @
       ''          action_data, user_id, created_by, created_at'' @ nl @
       ''        ) VALUES ($1, $2, $3, $4, $5, $6, $7, $8, $9, NOW())'' @ nl @
       ''      '')"
proof -
  have t: "sql_notifications =
     ('''' @ nl @
       ''        INSERT INTO '') @ placeholder @
     (''.notifications ('' @ nl @
       ''          type, title, message, category, entity_type, entity_id, '' @ nl @
       ''          action_data, user_id, created_by, created_at'' @ nl @
       ''        ) VALUES ($1, $2, $3, $4, $5, $6, $7, $8, $9, NOW())'' @ nl @
       ''      '')"
    by (simp add: sql_all_plain_def sql_all_search_def sql_all_status_def sql_all_search_status_def
      sql_publications_all_def sql_publications_by_id_def sql_publications_status_def
      sql_publications_assign_def sql_publications_delete_def sql_publications_count_def
      sql_publications_count_status_def sql_audit_log_def sql_notifications_def placeholder_def)
  show ?thesis
    unfolding t by (rule replace_schema_one) (simp_all add: assms)
qed

lemmas pg_texts =
  text_all_plain text_all_search text_all_status text_all_search_status
  text_by_id text_status text_assign text_delete
  text_count text_count_status_nova text_count_status_pendente text_count_status_atribuida
  text_count_status_finalizada text_count_status_descartada text_audit_log text_notifications

lemma pg_distinct:
  assumes "CHR ''$'' \<notin> set s"
  shows "distinct (map fst (map (\<lambda>(template, st). (replace_schema template s, st)) (pg_statements ilike)))"
  using assms by (simp add: pg_statements_def pg_texts)

lemma pg_run_statement:
  assumes "CHR ''$'' \<notin> set s" and "(T, st) \<in> set (pg_statements ilike)"
  shows "pg_run s ilike ''exec_sql'' (replace_schema T s) ps db = st ps db"
proof -
  let ?table = "map (\<lambda>(template, st). (replace_schema template s, st)) (pg_statements ilike)"
  have "(replace_schema T s, st) \<in> set ?table"
    using assms(2) by force
  with pg_distinct [OF assms(1)] have "map_of ?table (replace_schema T s) = Some st"
    by (rule map_of_is_SomeI)
  then show ?thesis
    by (simp add: pg_run_def)
qed

text \<open>A query of a service on the double: the statement of its text, unless the call fails.\<close>

lemma query_pg_exec:
  assumes "CHR ''$'' \<notin> set (this_tenantSchema this)" and "(T, st) \<in> set (pg_statements ilike)"
  shows "query (pg_exec (this_tenantSchema this) ilike) this T ps db =
     (if fails_next db then (Inl (Error ''Erro na consulta ao banco de dados''), taken db)
      else (case fst (st ps (taken db)) of
              Inl e \<Rightarrow> Inl (Error ''Erro na consulta ao banco de dados'')
            | Inr v \<Rightarrow> Inr v, snd (st ps (taken db))))"
  by (simp add: query_def Let_def try_catch_def await_def return_def throw_def pg_exec_def
      pg_run_statement [OF assms] split: prod.splits sum.splits)

text \<open>Columns and owners.\<close>

lemma map_of_set_col: "map_of (set_col k v r) = (map_of r)(k \<mapsto> v)"
  by (induction k v r rule: set_col.induct) (auto simp: fun_eq_iff)

lemma col_set_col: "col (set_col k v r) k' = (if k' = k then v else col r k')"
  by (simp add: col_def own_prop_def map_of_set_col)

lemma owned_set_col: "k \<noteq> ''user_id'' \<Longrightarrow> owned uid (set_col k v r) = owned uid r"
  by (simp add: owned_def col_set_col)

lemma sql_eq_JStr: "sql_eq a (JStr u) = (a = JStr u)"
  by (auto simp: sql_eq_def sql_null_def)

lemma hit_owned: "hit i (JStr uid) r \<Longrightarrow> owned uid r"
  by (simp add: hit_def owned_def sql_eq_JStr)

lemma filter_owned:
  assumes "\<And>r. P r \<Longrightarrow> owned uid r"
  shows "filter P xs = filter P (filter (owned uid) xs)"
  by (induction xs) (auto dest: assms)

lemma same_filter:
  assumes "\<And>r. P r \<Longrightarrow> owned uid r" and "own_view uid db1 = own_view uid db2"
  shows "filter P (publications db1) = filter P (publications db2)"
proof -
  have "filter P (publications db1) = filter P (filter (owned uid) (publications db1))"
    by (rule filter_owned) (rule assms(1))
  also have "\<dots> = filter P (filter (owned uid) (publications db2))"
    using assms(2) by (simp only: own_view_def prod.inject)
  also have "\<dots> = filter P (publications db2)"
    by (rule filter_owned [symmetric]) (rule assms(1))
  finally show ?thesis .
qed

lemma filter_others:
  assumes "\<And>r. P r \<Longrightarrow> owned uid r"
  shows "filter (\<lambda>r. \<not> owned uid r) (filter (\<lambda>r. \<not> P r) xs) = filter (\<lambda>r. \<not> owned uid r) xs"
  by (induction xs) (auto dest: assms)

lemma own_view_taken:
  "own_view uid db1 = own_view uid db2 \<Longrightarrow> own_view uid (taken db1) = own_view uid (taken db2)"
  by (simp add: own_view_def taken_def)

lemma own_view_fails: "own_view uid db1 = own_view uid db2 \<Longrightarrow> fails_next db1 = fails_next db2"
  by (simp add: own_view_def fails_next_def)

lemma others_taken: "others uid (taken db) = others uid db"
  by (simp add: others_def taken_def)

lemma publications_taken: "publications (taken db) = publications db"
  by (simp add: taken_def)

text \<open>
  The statements with the id of the user as the parameter of \<open>user_id\<close>: on two databases
  with the same view they have the same outcome, and they keep the rows of the others.
\<close>

lemma select_respects:
  assumes "\<And>r. P r \<Longrightarrow> owned uid r" and "own_view uid db1 = own_view uid db2"
  shows "same_outcome (own_view uid) (select_publications P db1) (select_publications P db2)"
proof -
  have "filter P (publications db1) = filter P (publications db2)"
    using assms by (rule same_filter)
  with assms(2) show ?thesis
    by (simp add: select_publications_def same_outcome_def)
qed

lemma select_keeps: "snd (select_publications P db) = db"
  by (simp add: select_publications_def)

lemma st_all_respects:
  assumes "own_view uid db1 = own_view uid db2"
  shows "same_outcome (own_view uid) (st_all [JStr uid] db1) (st_all [JStr uid] db2)"
  unfolding st_all_def list.case
  by (rule select_respects) (simp_all add: sql_eq_JStr owned_def assms)

lemma st_all_search_respects:
  assumes "own_view uid db1 = own_view uid db2"
  shows "same_outcome (own_view uid) (st_all_search ilike [JStr uid, pat] db1)
           (st_all_search ilike [JStr uid, pat] db2)"
  unfolding st_all_search_def list.case
  by (rule select_respects) (simp_all add: sql_eq_JStr owned_def assms)

lemma st_all_status_respects:
  assumes "own_view uid db1 = own_view uid db2"
  shows "same_outcome (own_view uid) (st_all_status [JStr uid, s] db1) (st_all_status [JStr uid, s] db2)"
  unfolding st_all_status_def list.case
  by (rule select_respects) (simp_all add: sql_eq_JStr owned_def assms)

lemma st_all_search_status_respects:
  assumes "own_view uid db1 = own_view uid db2"
  shows "same_outcome (own_view uid) (st_all_search_status ilike [JStr uid, pat, s] db1)
           (st_all_search_status ilike [JStr uid, pat, s] db2)"
  unfolding st_all_search_status_def list.case
  by (rule select_respects) (simp_all add: sql_eq_JStr owned_def assms)

lemma st_by_id_respects:
  assumes "own_view uid db1 = own_view uid db2"
  shows "same_outcome (own_view uid) (st_by_id [i, JStr uid] db1) (st_by_id [i, JStr uid] db2)"
proof -
  have "filter (hit i (JStr uid)) (publications db1) = filter (hit i (JStr uid)) (publications db2)"
    using hit_owned assms by (rule same_filter)
  with assms show ?thesis
    by (simp add: st_by_id_def same_outcome_def)
qed

lemma st_count_respects:
  assumes "own_view uid db1 = own_view uid db2"
  shows "same_outcome (own_view uid) (st_count [JStr uid] db1) (st_count [JStr uid] db2)"
proof -
  have "filter (owned uid) (publications db1) = filter (owned uid) (publications db2)"
    using assms by (simp add: own_view_def)
  with assms show ?thesis
    by (simp add: st_count_def same_outcome_def sql_eq_JStr owned_def [abs_def])
qed

lemma st_count_status_respects:
  assumes "own_view uid db1 = own_view uid db2"
  shows "same_outcome (own_view uid) (st_count_status s [JStr uid] db1) (st_count_status s [JStr uid] db2)"
proof -
  let ?P = "\<lambda>r. sql_eq (col r ''user_id'') (JStr uid) \<and> sql_eq (col r ''status'') (JStr s)"
  have "filter ?P (publications db1) = filter ?P (publications db2)"
    by (rule same_filter [OF _ assms]) (simp add: sql_eq_JStr owned_def)
  with assms show ?thesis
    by (simp add: st_count_status_def same_outcome_def)
qed

lemma update_respects:
  assumes c: "\<And>r. owned uid (change r) = owned uid r" and v: "own_view uid db1 = own_view uid db2"
  shows "same_outcome (own_view uid) (update_publications i (JStr uid) change db1)
           (update_publications i (JStr uid) change db2)"
proof -
  let ?h = "hit i (JStr uid)"
  have f: "filter (owned uid) (publications db1) = filter (owned uid) (publications db2)"
    and n: "t_now db1 = t_now db2" "t_faults db1 = t_faults db2"
    using v by (simp_all add: own_view_def)
  have h: "filter ?h (publications db1) = filter ?h (publications db2)"
    using hit_owned v by (rule same_filter)
  have e: "(\<exists>r\<in>set (publications db). ?h r \<and> Q r) = (\<exists>r\<in>set (filter ?h (publications db)). Q r)"
    for db :: tenant_db and Q
    by auto
  have m: "filter (owned uid) (map (\<lambda>r. if ?h r then change r else r) xs) =
      map (\<lambda>r. if ?h r then change r else r) (filter (owned uid) xs)" for xs
    by (induction xs) (simp_all add: c)
  have "(\<exists>r\<in>set (publications db1). ?h r \<and> \<not> status_ok (col (change r) ''status'')) =
      (\<exists>r\<in>set (publications db2). ?h r \<and> \<not> status_ok (col (change r) ''status''))"
    unfolding e h ..
  with h show ?thesis
    by (simp add: update_publications_def same_outcome_def own_view_def m f n)
qed

lemma update_keeps:
  assumes c: "\<And>r. owned uid (change r) = owned uid r"
  shows "others uid (snd (update_publications i (JStr uid) change db)) = others uid db"
proof -
  have "filter (\<lambda>r. \<not> owned uid r) (map (\<lambda>r. if hit i (JStr uid) r then change r else r) xs) =
      filter (\<lambda>r. \<not> owned uid r) xs" for xs
    by (induction xs) (auto simp: c dest: hit_owned)
  then show ?thesis
    by (simp add: update_publications_def others_def)
qed

lemma st_status_respects:
  assumes "own_view uid db1 = own_view uid db2"
  shows "same_outcome (own_view uid) (st_status [s, obs, i, JStr uid] db1)
           (st_status [s, obs, i, JStr uid] db2)"
proof -
  have n: "t_now db1 = t_now db2"
    using assms by (simp add: own_view_def)
  show ?thesis
    unfolding st_status_def list.case n
    by (rule update_respects) (simp_all add: owned_set_col assms)
qed

lemma st_status_keeps: "others uid (snd (st_status [s, obs, i, JStr uid] db)) = others uid db"
  unfolding st_status_def list.case
  by (rule update_keeps) (simp add: owned_set_col)

lemma st_assign_respects:
  assumes "own_view uid db1 = own_view uid db2"
  shows "same_outcome (own_view uid) (st_assign [n, a, n', i, JStr uid] db1)
           (st_assign [n, a, n', i, JStr uid] db2)"
proof -
  have n: "t_now db1 = t_now db2"
    using assms by (simp add: own_view_def)
  show ?thesis
    unfolding st_assign_def list.case n
    by (rule update_respects) (simp_all add: owned_set_col assms)
qed

lemma st_assign_keeps: "others uid (snd (st_assign [n, a, n', i, JStr uid] db)) = others uid db"
  unfolding st_assign_def list.case
  by (rule update_keeps) (simp add: owned_set_col)

lemma st_delete_respects:
  assumes "own_view uid db1 = own_view uid db2"
  shows "same_outcome (own_view uid) (st_delete [i, JStr uid] db1) (st_delete [i, JStr uid] db2)"
proof -
  have c: "filter (owned uid) (filter Q xs) = filter Q (filter (owned uid) xs)" for Q xs
    by (induction xs) simp_all
  from assms show ?thesis
    by (simp add: st_delete_def same_outcome_def own_view_def c del: filter_filter)
qed

lemma st_delete_keeps: "others uid (snd (st_delete [i, JStr uid] db)) = others uid db"
  using filter_others [of "hit i (JStr uid)" uid "publications db"] hit_owned [of i uid]
  by (simp add: st_delete_def others_def)

lemma st_audit_log_respects:
  assumes "own_view uid db1 = own_view uid db2"
  shows "same_outcome (own_view uid) (st_audit_log [a, b, c, d, e, f] db1)
           (st_audit_log [a, b, c, d, e, f] db2)"
  using assms by (simp add: st_audit_log_def same_outcome_def own_view_def)

lemma st_audit_log_keeps: "others uid (snd (st_audit_log [a, b, c, d, e, f] db)) = others uid db"
  by (simp add: st_audit_log_def others_def)

lemma st_notifications_respects:
  assumes "own_view uid db1 = own_view uid db2"
  shows "same_outcome (own_view uid) (st_notifications [a, b, c, d, e, f, g, h, k] db1)
           (st_notifications [a, b, c, d, e, f, g, h, k] db2)"
  using assms by (simp add: st_notifications_def same_outcome_def own_view_def)

lemma st_notifications_keeps:
  "others uid (snd (st_notifications [a, b, c, d, e, f, g, h, k] db)) = others uid db"
  by (simp add: st_notifications_def others_def)

text \<open>The same for the queries of a service.\<close>

lemma query_agree:
  assumes "CHR ''$'' \<notin> set (this_tenantSchema this)" and "(T, st) \<in> set (pg_statements ilike)"
    and r: "\<And>db1 db2. own_view uid db1 = own_view uid db2 \<Longrightarrow>
          same_outcome (own_view uid) (st ps db1) (st ps db2)"
  shows "agree (own_view uid) (query (pg_exec (this_tenantSchema this) ilike) this T ps)
           (query (pg_exec (this_tenantSchema this) ilike) this T ps)"
  unfolding agree_def
proof (intro allI impI)
  fix db1 db2 :: tenant_db
  assume v: "own_view uid db1 = own_view uid db2"
  note f = own_view_fails [OF v] and t = own_view_taken [OF v]
  from r [OF t] f t
  show "same_outcome (own_view uid)
      (query (pg_exec (this_tenantSchema this) ilike) this T ps db1)
      (query (pg_exec (this_tenantSchema this) ilike) this T ps db2)"
    unfolding query_pg_exec [OF assms(1,2)]
    by (simp add: same_outcome_def)
qed

lemma query_keeps:
  assumes "CHR ''$'' \<notin> set (this_tenantSchema this)" and "(T, st) \<in> set (pg_statements ilike)"
    and k: "\<And>db. others uid (snd (st ps db)) = others uid db"
  shows "keeps (others uid) (query (pg_exec (this_tenantSchema this) ilike) this T ps)"
  unfolding keeps_def query_pg_exec [OF assms(1,2)]
  by (simp add: k others_taken)

lemma query_reads:
  assumes "CHR ''$'' \<notin> set (this_tenantSchema this)" and "(T, st) \<in> set (pg_statements ilike)"
    and k: "\<And>db. snd (st ps db) = db"
  shows "keeps (others uid) (query (pg_exec (this_tenantSchema this) ilike) this T ps)"
  by (rule query_keeps [OF assms(1,2)]) (simp add: k)

lemma pg_known:
  "(sql_all_plain, st_all) \<in> set (pg_statements ilike)"
  "(sql_all_search, st_all_search ilike) \<in> set (pg_statements ilike)"
  "(sql_all_status, st_all_status) \<in> set (pg_statements ilike)"
  "(sql_all_search_status, st_all_search_status ilike) \<in> set (pg_statements ilike)"
  "(sql_publications_by_id, st_by_id) \<in> set (pg_statements ilike)"
  "(sql_publications_status, st_status) \<in> set (pg_statements ilike)"
  "(sql_publications_assign, st_assign) \<in> set (pg_statements ilike)"
  "(sql_publications_delete, st_delete) \<in> set (pg_statements ilike)"
  "(sql_publications_count, st_count) \<in> set (pg_statements ilike)"
  "(sql_audit_log, st_audit_log) \<in> set (pg_statements ilike)"
  "(sql_notifications, st_notifications) \<in> set (pg_statements ilike)"
  by (simp_all add: pg_statements_def)

lemma pg_known_status:
  "s \<in> set [''nova'', ''pendente'', ''atribuida'', ''finalizada'', ''descartada''] \<Longrightarrow>
   (sql_publications_count_status s, st_count_status s) \<in> set (pg_statements ilike)"
  by (auto simp: pg_statements_def)

lemma queries_agree:
  fixes this ilike
  defines "pg \<equiv> pg_exec (this_tenantSchema this) ilike"
  assumes s: "CHR ''$'' \<notin> set (this_tenantSchema this)"
  shows "agree (own_view uid) (query pg this sql_all_plain [JStr uid])
           (query pg this sql_all_plain [JStr uid])"
    and "agree (own_view uid) (query pg this sql_all_search [JStr uid, pat])
           (query pg this sql_all_search [JStr uid, pat])"
    and "agree (own_view uid) (query pg this sql_all_status [JStr uid, st])
           (query pg this sql_all_status [JStr uid, st])"
    and "agree (own_view uid) (query pg this sql_all_search_status [JStr uid, pat, st])
           (query pg this sql_all_search_status [JStr uid, pat, st])"
    and "agree (own_view uid) (query pg this sql_publications_by_id [i, JStr uid])
           (query pg this sql_publications_by_id [i, JStr uid])"
    and "agree (own_view uid) (query pg this sql_publications_status [st, obs, i, JStr uid])
           (query pg this sql_publications_status [st, obs, i, JStr uid])"
    and "agree (own_view uid) (query pg this sql_publications_assign [n, a, n', i, JStr uid])
           (query pg this sql_publications_assign [n, a, n', i, JStr uid])"
    and "agree (own_view uid) (query pg this sql_publications_delete [i, JStr uid])
           (query pg this sql_publications_delete [i, JStr uid])"
    and "agree (own_view uid) (query pg this sql_publications_count [JStr uid])
           (query pg this sql_publications_count [JStr uid])"
    and "agree (own_view uid) (query pg this sql_audit_log [p1, p2, p3, p4, p5, p6])
           (query pg this sql_audit_log [p1, p2, p3, p4, p5, p6])"
    and "agree (own_view uid) (query pg this sql_notifications [p1, p2, p3, p4, p5, p6, p7, p8, p9])
           (query pg this sql_notifications [p1, p2, p3, p4, p5, p6, p7, p8, p9])"
  unfolding pg_def
  by (rule query_agree [OF s], rule pg_known,
      erule st_all_respects st_all_search_respects st_all_status_respects
        st_all_search_status_respects st_by_id_respects st_status_respects st_assign_respects
        st_delete_respects st_count_respects st_audit_log_respects st_notifications_respects)+

lemma count_status_agree:
  assumes "CHR ''$'' \<notin> set (this_tenantSchema this)"
    and "s \<in> set [''nova'', ''pendente'', ''atribuida'', ''finalizada'', ''descartada'']"
  shows "agree (own_view uid)
           (query (pg_exec (this_tenantSchema this) ilike) this (sql_publications_count_status s) [JStr uid])
           (query (pg_exec (this_tenantSchema this) ilike) this (sql_publications_count_status s) [JStr uid])"
  by (rule query_agree [OF assms(1) pg_known_status [OF assms(2)]]) (rule st_count_status_respects)

lemma queries_keep:
  fixes this ilike
  defines "pg \<equiv> pg_exec (this_tenantSchema this) ilike"
  assumes s: "CHR ''$'' \<notin> set (this_tenantSchema this)"
  shows "keeps (others uid) (query pg this sql_all_plain [JStr uid])"
    and "keeps (others uid) (query pg this sql_all_search [JStr uid, pat])"
    and "keeps (others uid) (query pg this sql_all_status [JStr uid, st])"
    and "keeps (others uid) (query pg this sql_all_search_status [JStr uid, pat, st])"
    and "keeps (others uid) (query pg this sql_publications_by_id [i, JStr uid])"
    and "keeps (others uid) (query pg this sql_publications_status [st, obs, i, JStr uid])"
    and "keeps (others uid) (query pg this sql_publications_assign [n, a, n', i, JStr uid])"
    and "keeps (others uid) (query pg this sql_publications_delete [i, JStr uid])"
    and "keeps (others uid) (query pg this sql_publications_count [JStr uid])"
    and "keeps (others uid) (query pg this sql_audit_log [p1, p2, p3, p4, p5, p6])"
    and "keeps (others uid) (query pg this sql_notifications [p1, p2, p3, p4, p5, p6, p7, p8, p9])"
  unfolding pg_def
  by (rule query_keeps [OF s], rule pg_known,
      simp add: st_all_def st_all_search_def st_all_status_def st_all_search_status_def
        select_keeps st_by_id_def st_count_def st_status_keeps st_assign_keeps st_delete_keeps
        st_audit_log_keeps st_notifications_keeps)+

lemma count_status_keeps:
  assumes "CHR ''$'' \<notin> set (this_tenantSchema this)"
    and "s \<in> set [''nova'', ''pendente'', ''atribuida'', ''finalizada'', ''descartada'']"
  shows "keeps (others uid)
           (query (pg_exec (this_tenantSchema this) ilike) this (sql_publications_count_status s) [JStr uid])"
  by (rule query_keeps [OF assms(1) pg_known_status [OF assms(2)]]) (simp add: st_count_status_def)

text \<open>More rules for computations that agree, and that keep a view.\<close>

lemma agree_try_catch:
  assumes "agree view m1 m2" and "\<And>e. agree view (h1 e) (h2 e)"
  shows "agree view (try_catch m1 h1) (try_catch m2 h2)"
  unfolding agree_def
proof (intro allI impI)
  fix w1 w2 :: 'a
  assume v: "view w1 = view w2"
  from assms(1) v have s: "same_outcome view (m1 w1) (m2 w2)"
    by (simp add: agree_def)
  obtain r1 w1' where m1: "m1 w1 = (r1, w1')"
    by (cases "m1 w1")
  obtain r2 w2' where m2: "m2 w2 = (r2, w2')"
    by (cases "m2 w2")
  from s m1 m2 have eq: "r2 = r1" "view w1' = view w2'"
    by (simp_all add: same_outcome_def)
  show "same_outcome view (try_catch m1 h1 w1) (try_catch m2 h2 w2)"
  proof (cases r1)
    case (Inl e)
    then show ?thesis
      using m1 m2 eq assms(2) [of e] by (simp add: try_catch_def agree_def)
  next
    case (Inr a)
    then show ?thesis
      using m1 m2 eq by (simp add: try_catch_def same_outcome_def)
  qed
qed

lemma agree_promise_all_Nil: "agree view (promise_all []) (promise_all [])"
  by (simp add: agree_def same_outcome_def)

lemma agree_promise_all_Cons:
  assumes "agree view m1 m2" and "agree view (promise_all ms1) (promise_all ms2)"
  shows "agree view (promise_all (m1 # ms1)) (promise_all (m2 # ms2))"
  unfolding agree_def
proof (intro allI impI)
  fix w1 w2 :: 'a
  assume v: "view w1 = view w2"
  obtain r1 w1' where m1: "m1 w1 = (r1, w1')"
    by (cases "m1 w1")
  obtain r2 w2' where m2: "m2 w2 = (r2, w2')"
    by (cases "m2 w2")
  from assms(1) v have "same_outcome view (m1 w1) (m2 w2)"
    by (simp add: agree_def)
  with m1 m2 have eq: "r2 = r1" "view w1' = view w2'"
    by (simp_all add: same_outcome_def)
  obtain rs1 w1'' where p1: "promise_all ms1 w1' = (rs1, w1'')"
    by (cases "promise_all ms1 w1'")
  obtain rs2 w2'' where p2: "promise_all ms2 w2' = (rs2, w2'')"
    by (cases "promise_all ms2 w2'")
  from assms(2) eq(2) have "same_outcome view (promise_all ms1 w1') (promise_all ms2 w2')"
    by (simp add: agree_def)
  with p1 p2 have "rs2 = rs1" "view w1'' = view w2''"
    by (simp_all add: same_outcome_def)
  with m1 m2 eq p1 p2 show "same_outcome view (promise_all (m1 # ms1) w1) (promise_all (m2 # ms2) w2)"
    by (simp add: same_outcome_def)
qed

lemma keeps_promise_all_Nil: "keeps view (promise_all [])"
  by (simp add: keeps_def)

lemma keeps_promise_all_Cons:
  assumes "keeps view m" and "keeps view (promise_all ms)"
  shows "keeps view (promise_all (m # ms))"
  unfolding keeps_def
proof
  fix w
  obtain r w' where m: "m w = (r, w')"
    by (cases "m w")
  obtain rs w'' where p: "promise_all ms w' = (rs, w'')"
    by (cases "promise_all ms w'")
  from assms m p have "view w' = view w" "view w'' = view w'"
    by (auto simp: keeps_def dest: spec [of _ w] spec [of _ w'])
  with m p show "view (snd (promise_all (m # ms) w)) = view w"
    by simp
qed

lemma agree_case6:
  assumes "\<And>a b c d e f. agree view (k1 a b c d e f) (k2 a b c d e f)"
  shows "agree view (case rs of [a, b, c, d, e, f] \<Rightarrow> k1 a b c d e f | _ \<Rightarrow> throw TypeError)
           (case rs of [a, b, c, d, e, f] \<Rightarrow> k2 a b c d e f | _ \<Rightarrow> throw TypeError)"
  by (simp add: assms agree_throw split: list.splits)

lemma keeps_case6:
  assumes "\<And>a b c d e f. keeps view (k a b c d e f)"
  shows "keeps view (case rs of [a, b, c, d, e, f] \<Rightarrow> k a b c d e f | _ \<Rightarrow> throw TypeError)"
  by (simp add: assms keeps_throw split: list.splits)

lemmas more_agree_rules = agree_rules agree_try_catch agree_promise_all_Nil agree_promise_all_Cons
  agree_case6

lemmas keeps_rules = keeps_await keeps_lift keeps_return keeps_throw keeps_try_catch
  keeps_promise_all_Nil keeps_promise_all_Cons keeps_case6

text \<open>The operations of \<open>PublicationService\<close>.\<close>

lemma getAll_texts:
  "PublicationService_getAll rt rpc this filters =
     await (lift (requirePermission this ''read'' ''publications'')) (\<lambda>_.
       if truthy (opt_prop filters ''search'')
       then if truthy (opt_prop filters ''status'')
            then query rpc this sql_all_search_status
                   [JStr (user_id (this_user this)),
                    JStr (''%'' @ to_string rt (opt_prop filters ''search'') @ ''%''),
                    opt_prop filters ''status'']
            else query rpc this sql_all_search
                   [JStr (user_id (this_user this)),
                    JStr (''%'' @ to_string rt (opt_prop filters ''search'') @ ''%'')]
       else if truthy (opt_prop filters ''status'')
            then query rpc this sql_all_status
                   [JStr (user_id (this_user this)), opt_prop filters ''status'']
            else query rpc this sql_all_plain [JStr (user_id (this_user this))])"
  by (simp add: PublicationService_getAll_def add_filter_def Let_def sql_all_plain_def
      sql_all_search_def sql_all_status_def sql_all_search_status_def decimals)

lemma keeps_if: "keeps view a \<Longrightarrow> keeps view b \<Longrightarrow> keeps view (if c then a else b)"
  by simp

lemma auditLog_own:
  assumes "CHR ''$'' \<notin> set (this_tenantSchema this)"
  shows "agree (own_view uid)
           (auditLog rt (pg_exec (this_tenantSchema this) ilike) this tableName operation recordId
              oldData newData)
           (auditLog rt (pg_exec (this_tenantSchema this) ilike) this tableName operation recordId
              oldData newData)"
  unfolding auditLog_def
  by (intro more_agree_rules queries_agree [OF assms])

lemma auditLog_others:
  assumes "CHR ''$'' \<notin> set (this_tenantSchema this)"
  shows "keeps (others uid)
           (auditLog rt (pg_exec (this_tenantSchema this) ilike) this tableName operation recordId
              oldData newData)"
  unfolding auditLog_def
  by (intro keeps_rules queries_keep [OF assms])

lemma createNotification_own:
  assumes "CHR ''$'' \<notin> set (this_tenantSchema this)"
  shows "agree (own_view uid)
           (createNotification rt (pg_exec (this_tenantSchema this) ilike) this type title message
              category entityType entityId actionData userId)
           (createNotification rt (pg_exec (this_tenantSchema this) ilike) this type title message
              category entityType entityId actionData userId)"
  unfolding createNotification_def
  by (intro more_agree_rules queries_agree [OF assms])

lemma createNotification_others:
  assumes "CHR ''$'' \<notin> set (this_tenantSchema this)"
  shows "keeps (others uid)
           (createNotification rt (pg_exec (this_tenantSchema this) ilike) this type title message
              category entityType entityId actionData userId)"
  unfolding createNotification_def
  by (intro keeps_rules queries_keep [OF assms])

lemma getById_own:
  assumes "CHR ''$'' \<notin> set (this_tenantSchema this)"
  shows "agree (own_view (user_id (this_user this)))
           (PublicationService_getById (pg_exec (this_tenantSchema this) ilike) this i)
           (PublicationService_getById (pg_exec (this_tenantSchema this) ilike) this i)"
  unfolding PublicationService_getById_def
  by (intro more_agree_rules queries_agree [OF assms])

lemma getById_others:
  assumes "CHR ''$'' \<notin> set (this_tenantSchema this)"
  shows "keeps (others (user_id (this_user this)))
           (PublicationService_getById (pg_exec (this_tenantSchema this) ilike) this i)"
  unfolding PublicationService_getById_def
  by (intro keeps_rules keeps_if queries_keep [OF assms])

lemma getAll_own:
  assumes "CHR ''$'' \<notin> set (this_tenantSchema this)"
  shows "agree (own_view (user_id (this_user this)))
           (PublicationService_getAll rt (pg_exec (this_tenantSchema this) ilike) this filters)
           (PublicationService_getAll rt (pg_exec (this_tenantSchema this) ilike) this filters)"
  unfolding getAll_texts
  by (intro more_agree_rules queries_agree [OF assms])

lemma getAll_others:
  assumes "CHR ''$'' \<notin> set (this_tenantSchema this)"
  shows "keeps (others (user_id (this_user this)))
           (PublicationService_getAll rt (pg_exec (this_tenantSchema this) ilike) this filters)"
  unfolding getAll_texts
  by (intro keeps_rules keeps_if queries_keep [OF assms])

lemma getStats_own:
  assumes "CHR ''$'' \<notin> set (this_tenantSchema this)"
  shows "agree (own_view (user_id (this_user this)))
           (PublicationService_getStats rt (pg_exec (this_tenantSchema this) ilike) this)
           (PublicationService_getStats rt (pg_exec (this_tenantSchema this) ilike) this)"
  unfolding PublicationService_getStats_def
  by (intro more_agree_rules queries_agree [OF assms] count_status_agree [OF assms]) simp_all

lemma getStats_others:
  assumes "CHR ''$'' \<notin> set (this_tenantSchema this)"
  shows "keeps (others (user_id (this_user this)))
           (PublicationService_getStats rt (pg_exec (this_tenantSchema this) ilike) this)"
  unfolding PublicationService_getStats_def
  by (intro keeps_rules queries_keep [OF assms] count_status_keeps [OF assms]) simp_all

lemma updateStatus_own:
  assumes "CHR ''$'' \<notin> set (this_tenantSchema this)"
  shows "agree (own_view (user_id (this_user this)))
           (PublicationService_updateStatus rt (pg_exec (this_tenantSchema this) ilike) this i st obs)
           (PublicationService_updateStatus rt (pg_exec (this_tenantSchema this) ilike) this i st obs)"
  unfolding PublicationService_updateStatus_def
  by (intro more_agree_rules getById_own [OF assms] queries_agree [OF assms] auditLog_own [OF assms]
      createNotification_own [OF assms])

lemma updateStatus_others:
  assumes "CHR ''$'' \<notin> set (this_tenantSchema this)"
  shows "keeps (others (user_id (this_user this)))
           (PublicationService_updateStatus rt (pg_exec (this_tenantSchema this) ilike) this i st obs)"
  unfolding PublicationService_updateStatus_def
  by (intro keeps_rules keeps_if getById_others [OF assms] queries_keep [OF assms]
      auditLog_others [OF assms] createNotification_others [OF assms])

lemma assignToUser_own:
  assumes "CHR ''$'' \<notin> set (this_tenantSchema this)"
  shows "agree (own_view (user_id (this_user this)))
           (PublicationService_assignToUser rt (pg_exec (this_tenantSchema this) ilike) this i a n)
           (PublicationService_assignToUser rt (pg_exec (this_tenantSchema this) ilike) this i a n)"
  unfolding PublicationService_assignToUser_def
  by (intro more_agree_rules getById_own [OF assms] queries_agree [OF assms] auditLog_own [OF assms]
      createNotification_own [OF assms])

lemma assignToUser_others:
  assumes "CHR ''$'' \<notin> set (this_tenantSchema this)"
  shows "keeps (others (user_id (this_user this)))
           (PublicationService_assignToUser rt (pg_exec (this_tenantSchema this) ilike) this i a n)"
  unfolding PublicationService_assignToUser_def
  by (intro keeps_rules getById_others [OF assms] queries_keep [OF assms]
      auditLog_others [OF assms] createNotification_others [OF assms])

lemma delete_own:
  assumes "CHR ''$'' \<notin> set (this_tenantSchema this)"
  shows "agree (own_view (user_id (this_user this)))
           (PublicationService_delete rt (pg_exec (this_tenantSchema this) ilike) this i)
           (PublicationService_delete rt (pg_exec (this_tenantSchema this) ilike) this i)"
  unfolding PublicationService_delete_def
  by (intro more_agree_rules getById_own [OF assms] queries_agree [OF assms] auditLog_own [OF assms])

lemma delete_others:
  assumes "CHR ''$'' \<notin> set (this_tenantSchema this)"
  shows "keeps (others (user_id (this_user this)))
           (PublicationService_delete rt (pg_exec (this_tenantSchema this) ilike) this i)"
  unfolding PublicationService_delete_def
  by (intro keeps_rules getById_others [OF assms] queries_keep [OF assms] auditLog_others [OF assms])

text \<open>The id of a row of somebody else.\<close>

lemma permission_publications: "requirePermission this p ''publications'' = Inr True"
  by (simp add: requirePermission_def)

lemma foreign_row:
  assumes "y \<in> set xs" and "\<not> owned uid y" and "col y ''id'' = JStr i"
    and "distinct (map (\<lambda>r. col r ''id'') xs)"
  shows "\<forall>r\<in>set xs. \<not> hit (JStr i) (JStr uid) r"
proof
  fix r
  assume r: "r \<in> set xs"
  show "\<not> hit (JStr i) (JStr uid) r"
  proof
    assume h: "hit (JStr i) (JStr uid) r"
    then have "col r ''id'' = col y ''id''"
      by (simp add: hit_def sql_eq_JStr assms(3))
    moreover from assms(4) have "inj_on (\<lambda>r. col r ''id'') (set xs)"
      by (simp add: distinct_map)
    ultimately have "r = y"
      using r assms(1) by (auto dest: inj_onD)
    with h assms(2) show False
      by (auto dest: hit_owned)
  qed
qed

lemma getById_not_found:
  assumes "CHR ''$'' \<notin> set (this_tenantSchema this)"
    and "\<forall>r\<in>set (publications db). \<not> hit (JStr i) (JStr (user_id (this_user this))) r"
  shows "PublicationService_getById (pg_exec (this_tenantSchema this) ilike) this i db =
     (Inl (Error (if fails_next db then ''Erro na consulta ao banco de dados''
                  else ''Publica'' @ [CHR 0xE7] @ [CHR 0xE3] @ ''o n'' @ [CHR 0xE3] @ ''o encontrada'')),
      taken db)"
proof -
  have "filter (hit (JStr i) (JStr (user_id (this_user this)))) (publications (taken db)) = []"
    using assms(2) by (simp add: publications_taken filter_empty_conv)
  then show ?thesis
    by (simp add: PublicationService_getById_def permission_publications await_def throw_def
        query_pg_exec [OF assms(1) pg_known(5)] st_by_id_def rows_result_def no_rows_def)
qed

lemma writes_not_found:
  fixes this ilike
  defines "pg \<equiv> pg_exec (this_tenantSchema this) ilike"
  assumes "CHR ''$'' \<notin> set (this_tenantSchema this)"
    and "\<forall>r\<in>set (publications db). \<not> hit (JStr i) (JStr (user_id (this_user this))) r"
  shows "publications (snd (PublicationService_updateStatus rt pg this i st obs db)) = publications db"
    and "publications (snd (PublicationService_assignToUser rt pg this i a n db)) = publications db"
    and "publications (snd (PublicationService_delete rt pg this i db)) = publications db"
  unfolding pg_def
  by (simp_all add: PublicationService_updateStatus_def PublicationService_assignToUser_def
      PublicationService_delete_def permission_publications await_def
      getById_not_found [OF assms(2,3)] publications_taken)

text \<open>The rows that the reads return.\<close>

lemma set_order_publications: "set (order_publications rows) = set rows"
  by (simp add: order_publications_def)

lemma select_rows:
  assumes "\<And>r. P r \<Longrightarrow> owned uid r"
  shows "\<exists>rows. fst (select_publications P db) = Inr (rows_result rows) \<and>
           set rows \<subseteq> {r \<in> set (publications db). owned uid r}"
proof -
  have "set (order_publications (filter P (publications db))) \<subseteq>
      {r \<in> set (publications db). owned uid r}"
    by (auto simp: set_order_publications dest: assms)
  then show ?thesis
    by (auto simp: select_publications_def)
qed

lemma query_select:
  assumes "CHR ''$'' \<notin> set (this_tenantSchema this)" and "(T, st) \<in> set (pg_statements ilike)"
    and st: "\<And>db. \<exists>rows. fst (st ps db) = Inr (rows_result rows) \<and>
               set rows \<subseteq> {r \<in> set (publications db). owned uid r}"
    and v: "fst (query (pg_exec (this_tenantSchema this) ilike) this T ps db) = Inr v"
  shows "\<exists>rows. v = rows_result rows \<and> set rows \<subseteq> {r \<in> set (publications db). owned uid r}"
proof -
  from st [of "taken db"] obtain rows where rows: "fst (st ps (taken db)) = Inr (rows_result rows)"
    "set rows \<subseteq> {r \<in> set (publications db). owned uid r}"
    by (auto simp: publications_taken)
  from v rows(1) have "v = rows_result rows"
    unfolding query_pg_exec [OF assms(1,2)]
    by (simp split: if_splits)
  with rows(2) show ?thesis
    by blast
qed

lemma getAll_returns:
  assumes s: "CHR ''$'' \<notin> set (this_tenantSchema this)"
    and v: "fst (PublicationService_getAll rt (pg_exec (this_tenantSchema this) ilike) this filters db) =
      Inr v"
  shows "\<exists>rows. v = rows_result rows \<and>
           set rows \<subseteq> {r \<in> set (publications db). owned (user_id (this_user this)) r}"
proof -
  let ?pg = "pg_exec (this_tenantSchema this) ilike"
  let ?uid = "JStr (user_id (this_user this))"
  let ?pat = "JStr (''%'' @ to_string rt (opt_prop filters ''search'') @ ''%'')"
  let ?st = "opt_prop filters ''status''"
  consider (both) "truthy (opt_prop filters ''search'')" "truthy (opt_prop filters ''status'')"
    | (search) "truthy (opt_prop filters ''search'')" "\<not> truthy (opt_prop filters ''status'')"
    | (status) "\<not> truthy (opt_prop filters ''search'')" "truthy (opt_prop filters ''status'')"
    | (plain) "\<not> truthy (opt_prop filters ''search'')" "\<not> truthy (opt_prop filters ''status'')"
    by blast
  then show ?thesis
  proof cases
    case both
    with v have q: "fst (query ?pg this sql_all_search_status [?uid, ?pat, ?st] db) = Inr v"
      by (simp add: getAll_texts permission_publications)
    show ?thesis
      by (rule query_select [OF s pg_known(4) _ q], unfold st_all_search_status_def list.case,
          rule select_rows, simp add: sql_eq_JStr owned_def)
  next
    case search
    with v have q: "fst (query ?pg this sql_all_search [?uid, ?pat] db) = Inr v"
      by (simp add: getAll_texts permission_publications)
    show ?thesis
      by (rule query_select [OF s pg_known(2) _ q], unfold st_all_search_def list.case,
          rule select_rows, simp add: sql_eq_JStr owned_def)
  next
    case status
    with v have q: "fst (query ?pg this sql_all_status [?uid, ?st] db) = Inr v"
      by (simp add: getAll_texts permission_publications)
    show ?thesis
      by (rule query_select [OF s pg_known(3) _ q], unfold st_all_status_def list.case,
          rule select_rows, simp add: sql_eq_JStr owned_def)
  next
    case plain
    with v have q: "fst (query ?pg this sql_all_plain [?uid] db) = Inr v"
      by (simp add: getAll_texts permission_publications)
    show ?thesis
      by (rule query_select [OF s pg_known(1) _ q], unfold st_all_def list.case,
          rule select_rows, simp add: sql_eq_JStr owned_def)
  qed
qed

lemma getById_returns:
  assumes s: "CHR ''$'' \<notin> set (this_tenantSchema this)"
    and v: "fst (PublicationService_getById (pg_exec (this_tenantSchema this) ilike) this i db) = Inr v"
  shows "\<exists>r\<in>set (publications db).
           v = JObj r \<and> owned (user_id (this_user this)) r \<and> col r ''id'' = JStr i"
proof (cases "filter (hit (JStr i) (JStr (user_id (this_user this)))) (publications db)")
  case Nil
  then have "\<forall>r\<in>set (publications db). \<not> hit (JStr i) (JStr (user_id (this_user this))) r"
    by (simp add: filter_empty_conv)
  with v show ?thesis
    by (simp add: getById_not_found [OF s])
next
  case (Cons r rows)
  then have "r \<in> set (filter (hit (JStr i) (JStr (user_id (this_user this)))) (publications db))"
    by simp
  then have r: "r \<in> set (publications db)" "owned (user_id (this_user this)) r" "col r ''id'' = JStr i"
    by (auto simp: hit_def sql_eq_JStr owned_def)
  from v Cons have "v = JObj r"
    by (simp add: PublicationService_getById_def permission_publications await_def throw_def
        return_def query_pg_exec [OF s pg_known(5)] st_by_id_def rows_result_def no_rows_def
        publications_taken split: if_splits)
  with r show ?thesis
    by blast
qed

text \<open>
  C1. A \<open>PublicationService\<close> of a user on the schema of its tenant (a schema name without
  \<open>$\<close>, as is every name made from a UUID), for \<open>getAll\<close>, \<open>getById\<close>, \<open>updateStatus\<close>,
  \<open>assignToUser\<close>, \<open>delete\<close> and \<open>getStats\<close>:

  \<^item> on two databases that have the same rows of the user, the same time and the same
    failures to come, the operation has the same result, and leaves the same rows of the
    user: nothing that it returns, counts or writes depends on a row of somebody else;
  \<^item> the rows of everybody else are the same after the operation as before;
  \<^item> the rows that \<open>getAll\<close> returns, and the row that \<open>getById\<close> returns, are rows of
    the user in the table (for \<open>getById\<close>, with the id asked for);
  \<^item> for a row of somebody else, whose id is the id of no other row: \<open>getById\<close> on its id
    throws the error \<open>Publicacao nao encontrada\<close> (with its accents) when the database
    answers the query, and
    \<open>updateStatus\<close>, \<open>assignToUser\<close> and \<open>delete\<close> on its id leave the table as it is.
\<close>

theorem publications_of_one_user:
  assumes "CHR ''$'' \<notin> set (this_tenantSchema this)"
    and "pg = pg_exec (this_tenantSchema this) ilike"
    and "uid = user_id (this_user this)"
  shows
    "agree (own_view uid) (PublicationService_getAll rt pg this filters)
       (PublicationService_getAll rt pg this filters) \<and>
     agree (own_view uid) (PublicationService_getById pg this i) (PublicationService_getById pg this i) \<and>
     agree (own_view uid) (PublicationService_updateStatus rt pg this i st obs)
       (PublicationService_updateStatus rt pg this i st obs) \<and>
     agree (own_view uid) (PublicationService_assignToUser rt pg this i a n)
       (PublicationService_assignToUser rt pg this i a n) \<and>
     agree (own_view uid) (PublicationService_delete rt pg this i) (PublicationService_delete rt pg this i) \<and>
     agree (own_view uid) (PublicationService_getStats rt pg this) (PublicationService_getStats rt pg this) \<and>
     keeps (others uid) (PublicationService_getAll rt pg this filters) \<and>
     keeps (others uid) (PublicationService_getById pg this i) \<and>
     keeps (others uid) (PublicationService_updateStatus rt pg this i st obs) \<and>
     keeps (others uid) (PublicationService_assignToUser rt pg this i a n) \<and>
     keeps (others uid) (PublicationService_delete rt pg this i) \<and>
     keeps (others uid) (PublicationService_getStats rt pg this) \<and>
     (\<forall>v. fst (PublicationService_getAll rt pg this filters db) = Inr v \<longrightarrow>
        (\<exists>rows. v = rows_result rows \<and> set rows \<subseteq> {r \<in> set (publications db). owned uid r})) \<and>
     (\<forall>v. fst (PublicationService_getById pg this i db) = Inr v \<longrightarrow>
        (\<exists>r\<in>set (publications db). v = JObj r \<and> owned uid r \<and> col r ''id'' = JStr i)) \<and>
     (\<forall>y\<in>set (publications db).
        \<not> owned uid y \<and> col y ''id'' = JStr i \<and> distinct (map (\<lambda>r. col r ''id'') (publications db)) \<longrightarrow>
        (\<not> fails_next db \<longrightarrow>
           fst (PublicationService_getById pg this i db) =
             Inl (Error (''Publica'' @ [CHR 0xE7] @ [CHR 0xE3] @ ''o n'' @ [CHR 0xE3] @ ''o encontrada''))) \<and>
        publications (snd (PublicationService_updateStatus rt pg this i st obs db)) = publications db \<and>
        publications (snd (PublicationService_assignToUser rt pg this i a n db)) = publications db \<and>
        publications (snd (PublicationService_delete rt pg this i db)) = publications db)"
proof -
  note s = assms(1)
  let ?pg = "pg_exec (this_tenantSchema this) ilike"
  let ?uid = "user_id (this_user this)"
  have r1: "\<forall>v. fst (PublicationService_getAll rt ?pg this filters db) = Inr v \<longrightarrow>
      (\<exists>rows. v = rows_result rows \<and> set rows \<subseteq> {r \<in> set (publications db). owned ?uid r})"
    using getAll_returns [OF s] by blast
  have r2: "\<forall>v. fst (PublicationService_getById ?pg this i db) = Inr v \<longrightarrow>
      (\<exists>r\<in>set (publications db). v = JObj r \<and> owned ?uid r \<and> col r ''id'' = JStr i)"
    using getById_returns [OF s] by blast
  have n: "\<forall>y\<in>set (publications db).
      \<not> owned ?uid y \<and> col y ''id'' = JStr i \<and> distinct (map (\<lambda>r. col r ''id'') (publications db)) \<longrightarrow>
      (\<not> fails_next db \<longrightarrow>
         fst (PublicationService_getById ?pg this i db) =
           Inl (Error (''Publica'' @ [CHR 0xE7] @ [CHR 0xE3] @ ''o n'' @ [CHR 0xE3] @ ''o encontrada''))) \<and>
      publications (snd (PublicationService_updateStatus rt ?pg this i st obs db)) = publications db \<and>
      publications (snd (PublicationService_assignToUser rt ?pg this i a n db)) = publications db \<and>
      publications (snd (PublicationService_delete rt ?pg this i db)) = publications db"
  proof (intro ballI impI)
    fix y
    assume y: "y \<in> set (publications db)"
      and "\<not> owned ?uid y \<and> col y ''id'' = JStr i \<and> distinct (map (\<lambda>r. col r ''id'') (publications db))"
    then have h: "\<forall>r\<in>set (publications db). \<not> hit (JStr i) (JStr ?uid) r"
      by (intro foreign_row [of y]) simp_all
    show "(\<not> fails_next db \<longrightarrow>
         fst (PublicationService_getById ?pg this i db) =
           Inl (Error (''Publica'' @ [CHR 0xE7] @ [CHR 0xE3] @ ''o n'' @ [CHR 0xE3] @ ''o encontrada''))) \<and>
      publications (snd (PublicationService_updateStatus rt ?pg this i st obs db)) = publications db \<and>
      publications (snd (PublicationService_assignToUser rt ?pg this i a n db)) = publications db \<and>
      publications (snd (PublicationService_delete rt ?pg this i db)) = publications db"
      using writes_not_found [OF s h] by (simp add: getById_not_found [OF s h])
  qed
  show ?thesis
    unfolding assms(2,3)
    by (intro conjI getAll_own [OF s] getById_own [OF s] updateStatus_own [OF s]
        assignToUser_own [OF s] delete_own [OF s] getStats_own [OF s] getAll_others [OF s]
        getById_others [OF s] updateStatus_others [OF s] assignToUser_others [OF s]
        delete_others [OF s] getStats_others [OF s] r1 r2 n)
qed

text \<open>
  The theorem for Bia on the schema of her tenant, where \<open>pub-1\<close> is a publication of Ana
  and \<open>pub-2\<close> one of Bia: \<open>getAll\<close> has the same outcome on the database with a further
  publication of Ana; the deletion of \<open>pub-2\<close> keeps the publication of Ana; \<open>pub-1\<close> is
  not found, and is not written. Bia finds her own \<open>pub-2\<close>, and can delete it.
\<close>

theorem publications_of_one_user_witness:
  "same_outcome (own_view ''bia'')
     (PublicationService_getAll test_rt
        (pg_exec (this_tenantSchema (new_BaseService (user_of bia))) (=))
        (new_BaseService (user_of bia)) JUndefined office)
     (PublicationService_getAll test_rt
        (pg_exec (this_tenantSchema (new_BaseService (user_of bia))) (=))
        (new_BaseService (user_of bia)) JUndefined office') \<and>
   others ''bia'' (snd (PublicationService_delete test_rt
        (pg_exec (this_tenantSchema (new_BaseService (user_of bia))) (=))
        (new_BaseService (user_of bia)) ''pub-2'' office)) = [publication_of ''pub-1'' ''ana'' ''0001''] \<and>
   fst (PublicationService_getById
        (pg_exec (this_tenantSchema (new_BaseService (user_of bia))) (=))
        (new_BaseService (user_of bia)) ''pub-1'' office) =
     Inl (Error (''Publica'' @ [CHR 0xE7] @ [CHR 0xE3] @ ''o n'' @ [CHR 0xE3] @ ''o encontrada'')) \<and>
   publications (snd (PublicationService_updateStatus test_rt
        (pg_exec (this_tenantSchema (new_BaseService (user_of bia))) (=))
        (new_BaseService (user_of bia)) ''pub-1'' (JStr ''pendente'') JNull office)) =
     publications office \<and>
   publications (snd (PublicationService_assignToUser test_rt
        (pg_exec (this_tenantSchema (new_BaseService (user_of bia))) (=))
        (new_BaseService (user_of bia)) ''pub-1'' ''bia'' ''Bia'' office)) =
     publications office \<and>
   publications (snd (PublicationService_delete test_rt
        (pg_exec (this_tenantSchema (new_BaseService (user_of bia))) (=))
        (new_BaseService (user_of bia)) ''pub-1'' office)) =
     publications office \<and>
   fst (PublicationService_getById
        (pg_exec (this_tenantSchema (new_BaseService (user_of bia))) (=))
        (new_BaseService (user_of bia)) ''pub-2'' office) =
     Inr (JObj (publication_of ''pub-2'' ''bia'' ''0002'')) \<and>
   publications (snd (PublicationService_delete test_rt
        (pg_exec (this_tenantSchema (new_BaseService (user_of bia))) (=))
        (new_BaseService (user_of bia)) ''pub-2'' office)) =
     [publication_of ''pub-1'' ''ana'' ''0001'']"
proof -
  let ?bia = "new_BaseService (user_of bia)"
  let ?pg = "pg_exec (this_tenantSchema ?bia) (=)"
  let ?ana1 = "publication_of ''pub-1'' ''ana'' ''0001''"
  have s: "CHR ''$'' \<notin> set (this_tenantSchema ?bia)"
    by (simp add: new_BaseService_def user_of_def bia_def tenant_schema_name_def)
  have u: "''bia'' = user_id (this_user ?bia)"
    by (simp add: new_BaseService_def user_of_def bia_def)
  note t = publications_of_one_user [OF s refl u, where db = office and i = "''pub-1''"
      and filters = JUndefined and rt = test_rt and st = "JStr ''pendente''" and obs = JNull and a = "''bia''" and n = "''Bia''"]
  have v: "own_view ''bia'' office = own_view ''bia'' office'"
    by (simp add: own_view_def office'_def office_def owned_def col_def own_prop_def
        publication_of_def)
  have y: "?ana1 \<in> set (publications office)" "\<not> owned ''bia'' ?ana1" "col ?ana1 ''id'' = JStr ''pub-1''"
    "distinct (map (\<lambda>r. col r ''id'') (publications office))" "\<not> fails_next office"
    by (simp_all add: office_def owned_def col_def own_prop_def publication_of_def fails_next_def)
  have o: "others ''bia'' office = [?ana1]"
    by (simp add: others_def office_def owned_def col_def own_prop_def publication_of_def)
  from t v have 1: "same_outcome (own_view ''bia'')
      (PublicationService_getAll test_rt ?pg ?bia JUndefined office)
      (PublicationService_getAll test_rt ?pg ?bia JUndefined office')"
    by (simp add: agree_def)
  from publications_of_one_user [OF s refl u, where i = "''pub-2''" and rt = test_rt and db = office] o
  have 2: "others ''bia'' (snd (PublicationService_delete test_rt ?pg ?bia ''pub-2'' office)) = [?ana1]"
    by (simp add: keeps_def)
  from t y
  have 3: "fst (PublicationService_getById ?pg ?bia ''pub-1'' office) =
      Inl (Error (''Publica'' @ [CHR 0xE7] @ [CHR 0xE3] @ ''o n'' @ [CHR 0xE3] @ ''o encontrada''))"
    "publications (snd (PublicationService_updateStatus test_rt ?pg ?bia ''pub-1'' (JStr ''pendente'')
        JNull office)) = publications office"
    "publications (snd (PublicationService_assignToUser test_rt ?pg ?bia ''pub-1'' ''bia'' ''Bia''
        office)) = publications office"
    "publications (snd (PublicationService_delete test_rt ?pg ?bia ''pub-1'' office)) =
        publications office"
    by blast+
  have 4: "fst (PublicationService_getById ?pg ?bia ''pub-2'' office) =
      Inr (JObj (publication_of ''pub-2'' ''bia'' ''0002''))"
    by (simp add: PublicationService_getById_def permission_publications await_def return_def
        query_pg_exec [OF s pg_known(5)] st_by_id_def rows_result_def no_rows_def
        fails_next_def taken_def office_def hit_def sql_eq_JStr col_def own_prop_def
        publication_of_def u [symmetric])
  have 5: "publications (snd (PublicationService_delete test_rt ?pg ?bia ''pub-2'' office)) = [?ana1]"
    by (simp add: PublicationService_delete_def PublicationService_getById_def auditLog_def
        permission_publications await_def return_def try_catch_def stringify_or_null_def test_rt_def
        query_pg_exec [OF s pg_known(5)] query_pg_exec [OF s pg_known(8)]
        query_pg_exec [OF s pg_known(10)] st_by_id_def st_delete_def st_audit_log_def
        rows_result_def no_rows_def sql_null_def to_sql_def
        fails_next_def taken_def office_def hit_def sql_eq_JStr col_def own_prop_def
        publication_of_def u [symmetric])
  from 1 2 3 4 5 show ?thesis
    by (intro conjI)
qed

end
